theory Spec2Isabelle
  imports Main "HOL-Library.AList"
begin

section \<open>Python values, exceptions and dictionaries\<close>

text \<open>
  The attribute values of \<^verbatim>\<open>redmine/resources.py\<close> are arbitrary Python objects: the JSON
  payload of the server (null, booleans, integers, strings, arrays, objects), the
  \<^verbatim>\<open>date\<close> and \<^verbatim>\<open>datetime\<close> objects of the standard library, and the objects the manager
  builds (resources, resource sets). \<open>PList\<close> is a Python list, \<open>PDict\<close> a dictionary in
  insertion order, \<open>PObject c s\<close> an instance of the class named \<open>c\<close> built by the manager
  from \<open>s\<close>. An object is never \<^verbatim>\<open>None\<close>.
\<close>

datatype pydate = Date int int int

datatype pydatetime = DateTime int int int int int int

datatype pyval =
    PNone
  | PBool bool
  | PInt int
  | PStr string
  | PDate pydate
  | PDateTime pydatetime
  | PList "pyval list"
  | PDict "(pyval \<times> pyval) list"
  | PObject string pyval

text \<open>
  The exceptions the code raises or lets through. \<open>RecursionError\<close> is Python's answer to
  an exhausted call stack; \<open>ManagerError\<close> stands for whatever the manager raises.
\<close>

datatype exn =
    AttributeError
  | ResourceAttrError
  | ReadonlyAttrError
  | CustomFieldValueError
  | TypeError
  | KeyError
  | ValueError
  | IndexError
  | RecursionError
  | ManagerError string

type_synonym attrs = "(string \<times> pyval) list"

text \<open>\<^verbatim>\<open>d.get(k)\<close>: the value, or \<^verbatim>\<open>None\<close> for a missing key.\<close>

definition dict_get :: "attrs \<Rightarrow> string \<Rightarrow> pyval" where
  "dict_get d k = (case map_of d k of None \<Rightarrow> PNone | Some v \<Rightarrow> v)"

text \<open>\<^verbatim>\<open>k in d\<close> for a dictionary with string keys.\<close>

definition dict_has :: "attrs \<Rightarrow> string \<Rightarrow> bool" where
  "dict_has d k = (map_of d k \<noteq> None)"

text \<open>
  Dictionaries with arbitrary keys compare keys with \<^verbatim>\<open>==\<close>, under which \<^verbatim>\<open>True\<close> is
  \<^verbatim>\<open>1\<close> and \<^verbatim>\<open>False\<close> is \<^verbatim>\<open>0\<close>. Lists and dictionaries are not hashable.
\<close>

fun key_norm :: "pyval \<Rightarrow> pyval" where
  "key_norm (PBool b) = PInt (if b then 1 else 0)"
| "key_norm v = v"

definition key_eq :: "pyval \<Rightarrow> pyval \<Rightarrow> bool" where
  "key_eq a b = (key_norm a = key_norm b)"

fun hashable :: "pyval \<Rightarrow> bool" where
  "hashable (PList xs) = False"
| "hashable (PDict kvs) = False"
| "hashable v = True"

fun pydict_get :: "(pyval \<times> pyval) list \<Rightarrow> pyval \<Rightarrow> pyval option" where
  "pydict_get [] k = None"
| "pydict_get ((k', v') # d) k = (if key_eq k' k then Some v' else pydict_get d k)"

fun pydict_set :: "(pyval \<times> pyval) list \<Rightarrow> pyval \<Rightarrow> pyval \<Rightarrow> (pyval \<times> pyval) list" where
  "pydict_set [] k v = [(k, v)]"
| "pydict_set ((k', v') # d) k v =
     (if key_eq k' k then (k', v) # d else (k', v') # pydict_set d k v)"

fun pydict_pop :: "(pyval \<times> pyval) list \<Rightarrow> pyval \<Rightarrow> (pyval \<times> pyval) list" where
  "pydict_pop [] k = []"
| "pydict_pop ((k', v') # d) k = (if key_eq k' k then d else (k', v') # pydict_pop d k)"

text \<open>\<^verbatim>\<open>dict(pairs)\<close>: later pairs overwrite earlier ones, the first position is kept.\<close>

definition pydict_of :: "(pyval \<times> pyval) list \<Rightarrow> (pyval \<times> pyval) list" where
  "pydict_of ps = foldl (\<lambda>d (k, v). pydict_set d k v) [] ps"

text \<open>
  \<^verbatim>\<open>for x in v\<close>: the elements of a list, the keys of a dictionary, the characters of a
  string; anything else is not iterable.
\<close>

fun py_iter :: "pyval \<Rightarrow> exn + pyval list" where
  "py_iter (PList xs) = Inr xs"
| "py_iter (PDict kvs) = Inr (map fst kvs)"
| "py_iter (PStr s) = Inr (map (\<lambda>c. PStr [c]) s)"
| "py_iter v = Inl TypeError"

text \<open>
  \<^verbatim>\<open>v[name]\<close> with a string \<open>name\<close>: a dictionary answers or raises KeyError; lists and
  strings want integer indices, the other values are not subscriptable.
\<close>

fun py_getitem :: "pyval \<Rightarrow> string \<Rightarrow> exn + pyval" where
  "py_getitem (PDict kvs) name =
     (case pydict_get kvs (PStr name) of None \<Rightarrow> Inl KeyError | Some v \<Rightarrow> Inr v)"
| "py_getitem v name = Inl TypeError"

fun is_substring :: "string \<Rightarrow> string \<Rightarrow> bool" where
  "is_substring p [] = (p = [])"
| "is_substring p (c # s) = (take (length p) (c # s) = p \<or> is_substring p s)"

text \<open>\<^verbatim>\<open>name in v\<close> with a string \<open>name\<close>.\<close>

fun py_contains :: "pyval \<Rightarrow> string \<Rightarrow> exn + bool" where
  "py_contains (PDict kvs) name = Inr (pydict_get kvs (PStr name) \<noteq> None)"
| "py_contains (PList xs) name = Inr (PStr name \<in> set xs)"
| "py_contains (PStr s) name = Inr (is_substring name s)"
| "py_contains v name = Inl TypeError"

definition startswith_underscore :: "string \<Rightarrow> bool" where
  "startswith_underscore attr = (case attr of [] \<Rightarrow> False | c # cs \<Rightarrow> c = CHR ''_'')"

section \<open>The mapping tables\<close>

definition RESOURCE_SET_MAP :: "(string \<times> string) list" where
  "RESOURCE_SET_MAP =
    [(''trackers'', ''Tracker''),
     (''issue_categories'', ''IssueCategory''),
     (''custom_fields'', ''CustomField''),
     (''groups'', ''Group''),
     (''users'', ''User''),
     (''memberships'', ''ProjectMembership''),
     (''relations'', ''IssueRelation''),
     (''attachments'', ''Attachment''),
     (''watchers'', ''User''),
     (''journals'', ''IssueJournal''),
     (''children'', ''Issue''),
     (''roles'', ''Role'')]"

definition RESOURCE_MAP :: "(string \<times> string) list" where
  "RESOURCE_MAP =
    [(''author'', ''User''),
     (''assigned_to'', ''User''),
     (''project'', ''Project''),
     (''tracker'', ''Tracker''),
     (''status'', ''IssueStatus''),
     (''user'', ''User''),
     (''issue'', ''Issue''),
     (''priority'', ''Enumeration''),
     (''activity'', ''Enumeration''),
     (''category'', ''IssueCategory''),
     (''fixed_version'', ''Version'')]"

definition RELATIONS_MAP :: "(string \<times> string) list" where
  "RELATIONS_MAP =
    [(''wiki_pages'', ''WikiPage''),
     (''memberships'', ''ProjectMembership''),
     (''issue_categories'', ''IssueCategory''),
     (''versions'', ''Version''),
     (''news'', ''News''),
     (''relations'', ''IssueRelation''),
     (''time_entries'', ''TimeEntry''),
     (''issues'', ''Issue'')]"

definition SINGLE_ATTR_ID_MAP :: "(string \<times> string) list" where
  "SINGLE_ATTR_ID_MAP =
    [(''parent_id'', ''parent''),
     (''project_id'', ''project''),
     (''tracker_id'', ''tracker''),
     (''priority_id'', ''priority''),
     (''assigned_to_id'', ''assigned_to''),
     (''category_id'', ''category''),
     (''fixed_version_id'', ''fixed_version''),
     (''parent_issue_id'', ''parent''),
     (''issue_id'', ''issue''),
     (''activity_id'', ''activity'')]"

definition MULTIPLE_ATTR_ID_MAP :: "(string \<times> string) list" where
  "MULTIPLE_ATTR_ID_MAP =
    [(''user_ids'', ''users''),
     (''role_ids'', ''roles'')]"

section \<open>The resource classes and their class attributes\<close>

datatype rtype =
    Resource | Project | Issue | TimeEntry | Enumeration | Attachment | IssueJournal
  | WikiPage | ProjectMembership | IssueCategory | IssueRelation | Version | User
  | Group | Role | News | IssueStatus | Tracker | Query | CustomField

fun class_name :: "rtype \<Rightarrow> string" where
  "class_name Resource = ''Resource''"
| "class_name Project = ''Project''"
| "class_name Issue = ''Issue''"
| "class_name TimeEntry = ''TimeEntry''"
| "class_name Enumeration = ''Enumeration''"
| "class_name Attachment = ''Attachment''"
| "class_name IssueJournal = ''IssueJournal''"
| "class_name WikiPage = ''WikiPage''"
| "class_name ProjectMembership = ''ProjectMembership''"
| "class_name IssueCategory = ''IssueCategory''"
| "class_name IssueRelation = ''IssueRelation''"
| "class_name Version = ''Version''"
| "class_name User = ''User''"
| "class_name Group = ''Group''"
| "class_name Role = ''Role''"
| "class_name News = ''News''"
| "class_name IssueStatus = ''IssueStatus''"
| "class_name Tracker = ''Tracker''"
| "class_name Query = ''Query''"
| "class_name CustomField = ''CustomField''"

text \<open>\<^verbatim>\<open>_repr\<close>: the tuples of attribute names tried for the representation.\<close>

fun repr_attrs :: "rtype \<Rightarrow> string list list" where
  "repr_attrs Issue = [[''id'', ''subject''], [''id'']]"
| "repr_attrs TimeEntry = [[''id'']]"
| "repr_attrs Attachment = [[''id'', ''filename''], [''id'']]"
| "repr_attrs IssueJournal = [[''id'']]"
| "repr_attrs WikiPage = [[''title'']]"
| "repr_attrs ProjectMembership = [[''id'']]"
| "repr_attrs IssueRelation = [[''id'']]"
| "repr_attrs User = [[''id'', ''firstname'', ''lastname''], [''id'', ''name'']]"
| "repr_attrs News = [[''id'', ''title'']]"
| "repr_attrs T = [[''id'', ''name'']]"

fun class_includes :: "rtype \<Rightarrow> string list" where
  "class_includes Project = [''trackers'', ''issue_categories'', ''enabled_modules'']"
| "class_includes Issue =
     [''children'', ''attachments'', ''relations'', ''changesets'', ''journals'', ''watchers'']"
| "class_includes WikiPage = [''attachments'']"
| "class_includes User = [''memberships'', ''groups'']"
| "class_includes Group = [''memberships'', ''users'']"
| "class_includes T = []"

fun class_relations :: "rtype \<Rightarrow> string list" where
  "class_relations Project =
     [''wiki_pages'', ''memberships'', ''issue_categories'', ''time_entries'', ''versions'',
      ''news'', ''issues'']"
| "class_relations Issue = [''relations'', ''time_entries'']"
| "class_relations User = [''issues'', ''time_entries'']"
| "class_relations IssueStatus = [''issues'']"
| "class_relations Tracker = [''issues'']"
| "class_relations T = []"

text \<open>\<^verbatim>\<open>_relations_name\<close> as the class declares it; \<^verbatim>\<open>None\<close> where it does not.\<close>

fun class_relations_name :: "rtype \<Rightarrow> string option" where
  "class_relations_name User = Some ''assigned_to''"
| "class_relations_name IssueStatus = Some ''status''"
| "class_relations_name T = None"

definition Resource_unconvertible :: "string list" where
  "Resource_unconvertible = [''name'', ''description'']"

fun unconvertible :: "rtype \<Rightarrow> string list" where
  "unconvertible Project = Resource_unconvertible @ [''identifier'', ''status'']"
| "unconvertible Issue = Resource_unconvertible @ [''subject'', ''notes'']"
| "unconvertible IssueJournal = [''notes'']"
| "unconvertible WikiPage = Resource_unconvertible @ [''title'', ''text'']"
| "unconvertible Version = [''status'']"
| "unconvertible User = [''status'']"
| "unconvertible T = Resource_unconvertible"

definition Resource_members :: "string list" where
  "Resource_members = [''manager'']"

definition Resource_create_readonly :: "string list" where
  "Resource_create_readonly =
     [''id'', ''created_on'', ''updated_on'', ''author'', ''user'', ''project'', ''issue'']"

definition Resource_update_readonly :: "string list" where
  "Resource_update_readonly = Resource_create_readonly"

fun class_create_readonly :: "rtype \<Rightarrow> string list" where
  "class_create_readonly Issue = Resource_create_readonly @ [''spent_hours'']"
| "class_create_readonly WikiPage = Resource_create_readonly @ [''version'']"
| "class_create_readonly ProjectMembership = Resource_create_readonly @ [''user'', ''roles'']"
| "class_create_readonly User = Resource_create_readonly @ [''api_key'', ''last_login_on'']"
| "class_create_readonly T = Resource_create_readonly"

fun class_update_readonly :: "rtype \<Rightarrow> string list" where
  "class_update_readonly Project = Resource_update_readonly @ [''identifier'']"
| "class_update_readonly Issue = class_create_readonly Issue"
| "class_update_readonly WikiPage = class_create_readonly WikiPage"
| "class_update_readonly ProjectMembership = class_create_readonly ProjectMembership"
| "class_update_readonly User = class_create_readonly User"
| "class_update_readonly T = Resource_update_readonly"

text \<open>\<^verbatim>\<open>str.lower()\<close> on the ASCII letters of a class name.\<close>

definition lower_char :: "char \<Rightarrow> char" where
  "lower_char c =
     (case map_of (zip ''ABCDEFGHIJKLMNOPQRSTUVWXYZ'' ''abcdefghijklmnopqrstuvwxyz'') c of
        None \<Rightarrow> c
      | Some l \<Rightarrow> l)"

definition lower :: "string \<Rightarrow> string" where
  "lower s = map lower_char s"

section \<open>An instance, the manager and its call log\<close>

text \<open>
  The instance attributes \<^verbatim>\<open>__init__\<close> sets: the three dictionaries, the two readonly
  tuples and the relation key. \<open>members\<close> holds what a write to a structural name stores
  with \<^verbatim>\<open>object.__setattr__\<close>.
\<close>

record resource =
  decoded_attrs :: attrs
  encoded_attrs :: attrs
  changes :: attrs
  create_readonly :: "string list"
  update_readonly :: "string list"
  relations_name :: string
  members :: attrs

text \<open>The calls that reach the manager, in the order they were made.\<close>

datatype call =
    GetCall pyval attrs
  | FilterCall string attrs
  | CreateCall attrs
  | UpdateCall pyval attrs
  | DeleteCall pyval attrs

text \<open>
  The connection settings the code reads from \<^verbatim>\<open>manager.redmine\<close>, and the functions of
  the standard library it calls: those of the \<^verbatim>\<open>datetime\<close> module (\<open>strptime s fmt\<close> is
  \<open>None\<close> where Python raises ValueError, \<open>utcnow\<close> reads the clock after the calls made
  so far) and the built-in \<^verbatim>\<open>str\<close>.
\<close>

record redmine =
  date_format :: string
  datetime_format :: string
  raise_attr_exception :: pyval

record pylib =
  strptime :: "string \<Rightarrow> string \<Rightarrow> pydatetime option"
  date_strftime :: "pydate \<Rightarrow> string \<Rightarrow> string"
  datetime_strftime :: "pydatetime \<Rightarrow> string \<Rightarrow> string"
  utcnow :: "call list \<Rightarrow> pydatetime"
  py_str :: "pyval \<Rightarrow> string"

text \<open>
  The manager is a collaborator defined outside \<^verbatim>\<open>resources.py\<close>; every operation the
  code calls on it is a parameter here. An operation that talks to the server sees the
  calls made so far, may raise, and answers with an instance (\<open>get\<close>, \<open>create\<close>) or an
  object (\<open>filter\<close>); \<open>to_resource\<close> and \<open>to_resource_set\<close> take the class name and the
  scope parameters given to \<^verbatim>\<open>new_manager\<close>.
\<close>

record manager =
  redmine :: redmine
  lib :: pylib
  params :: attrs
  mgr_get :: "call list \<Rightarrow> pyval \<Rightarrow> attrs \<Rightarrow> exn + resource"
  mgr_filter :: "call list \<Rightarrow> string \<Rightarrow> attrs \<Rightarrow> exn + string \<times> pyval"
  mgr_create :: "call list \<Rightarrow> attrs \<Rightarrow> exn + resource"
  mgr_update :: "call list \<Rightarrow> pyval \<Rightarrow> attrs \<Rightarrow> exn + pyval"
  mgr_delete :: "call list \<Rightarrow> pyval \<Rightarrow> attrs \<Rightarrow> exn + pyval"
  to_resource :: "string \<Rightarrow> attrs \<Rightarrow> pyval \<Rightarrow> exn + string \<times> pyval"
  to_resource_set :: "string \<Rightarrow> attrs \<Rightarrow> pyval \<Rightarrow> exn + string \<times> pyval"

definition obj :: "string \<times> pyval \<Rightarrow> pyval" where
  "obj p = PObject (fst p) (snd p)"

section \<open>Construction\<close>

text \<open>
  \<^verbatim>\<open>Resource.__init__\<close>: both readonly tuples grow by the relation and include names, the
  decoded dictionary starts with a \<^verbatim>\<open>None\<close> for each of them and is then updated with the
  given attributes, and the relation key defaults to the lower-cased class name.
\<close>

definition fromkeys :: "string list \<Rightarrow> attrs" where
  "fromkeys ks = foldl (\<lambda>d k. AList.update k PNone d) [] ks"

definition dict_update_all :: "attrs \<Rightarrow> attrs \<Rightarrow> attrs" where
  "dict_update_all d kvs = foldl (\<lambda>d (k, v). AList.update k v d) d kvs"

definition Resource_init :: "rtype \<Rightarrow> attrs \<Rightarrow> resource" where
  "Resource_init cls attributes =
     (let relations_includes = class_relations cls @ class_includes cls in
      \<lparr> decoded_attrs = dict_update_all (fromkeys relations_includes) attributes,
        encoded_attrs = [],
        changes = [],
        create_readonly = class_create_readonly cls @ relations_includes,
        update_readonly = class_update_readonly cls @ relations_includes,
        relations_name =
          (case class_relations_name cls of None \<Rightarrow> lower (class_name cls) | Some n \<Rightarrow> n),
        members = [] \<rparr>)"

text \<open>\<^verbatim>\<open>is_new\<close>: neither key is in the decoded dictionary.\<close>

definition is_new :: "resource \<Rightarrow> bool" where
  "is_new r =
     (if dict_has (decoded_attrs r) ''id'' \<or> dict_has (decoded_attrs r) ''created_on''
      then False else True)"

section \<open>The codec\<close>

text \<open>
  \<^verbatim>\<open>Resource.decode\<close>: a \<^verbatim>\<open>date\<close> is formatted with the date format, a \<^verbatim>\<open>datetime\<close> with the
  datetime format, every other value is returned as it is.
\<close>

definition Resource_decode :: "string \<Rightarrow> pyval \<Rightarrow> manager \<Rightarrow> string \<times> pyval" where
  "Resource_decode attr val mgr =
     (case val of
        PDate d \<Rightarrow> (attr, PStr (date_strftime (lib mgr) d (date_format (redmine mgr))))
      | PDateTime t \<Rightarrow>
          (attr, PStr (datetime_strftime (lib mgr) t (datetime_format (redmine mgr))))
      | _ \<Rightarrow> (attr, val))"

text \<open>The overrides: \<^verbatim>\<open>Issue.decode\<close> and \<^verbatim>\<open>TimeEntry.decode\<close>.\<close>

fun decode :: "rtype \<Rightarrow> string \<Rightarrow> pyval \<Rightarrow> manager \<Rightarrow> string \<times> pyval" where
  "decode Issue attr val mgr =
     (if attr = ''version_id'' then (''fixed_version_id'', val)
      else Resource_decode attr val mgr)"
| "decode TimeEntry attr val mgr =
     (let attr' = (if attr = ''from_date'' then ''from''
                   else if attr = ''to_date'' then ''to'' else attr)
      in Resource_decode attr' val mgr)"
| "decode cls attr val mgr = Resource_decode attr val mgr"

text \<open>
  \<^verbatim>\<open>bulk_decode\<close> over a dictionary: every key and value goes through \<open>decode\<close>, and
  \<^verbatim>\<open>dict(...)\<close> collects the pairs. A key that is not a string is equal to none of the
  names an override renames.
\<close>

definition decode_item :: "rtype \<Rightarrow> manager \<Rightarrow> pyval \<times> pyval \<Rightarrow> pyval \<times> pyval" where
  "decode_item cls mgr kv =
     (case fst kv of
        PStr attr \<Rightarrow> (let (a, v) = decode cls attr (snd kv) mgr in (PStr a, v))
      | k \<Rightarrow> (k, snd (Resource_decode [] (snd kv) mgr)))"

definition bulk_decode :: "rtype \<Rightarrow> (pyval \<times> pyval) list \<Rightarrow> manager \<Rightarrow> (pyval \<times> pyval) list" where
  "bulk_decode cls attrs mgr = pydict_of (map (decode_item cls mgr) attrs)"

text \<open>
  \<^verbatim>\<open>datetime.strptime(value, fmt)\<close>: TypeError unless the value is a string, ValueError
  when the string does not match the format.
\<close>

definition strptime_py :: "manager \<Rightarrow> pyval \<Rightarrow> string \<Rightarrow> exn + pydatetime" where
  "strptime_py mgr val fmt =
     (case val of
        PStr s \<Rightarrow> (case strptime (lib mgr) s fmt of None \<Rightarrow> Inl ValueError | Some t \<Rightarrow> Inr t)
      | _ \<Rightarrow> Inl TypeError)"

fun date_of :: "pydatetime \<Rightarrow> pydate" where
  "date_of (DateTime y m d hh mm ss) = Date y m d"

text \<open>What \<^verbatim>\<open>except (TypeError, ValueError)\<close> catches.\<close>

definition type_or_value_error :: "exn \<Rightarrow> bool" where
  "type_or_value_error e = (e = TypeError \<or> e = ValueError)"

definition wrap :: "string \<Rightarrow> exn + string \<times> pyval \<Rightarrow> exn + string \<times> pyval" where
  "wrap attr res = (case res of Inl e \<Rightarrow> Inl e | Inr ob \<Rightarrow> Inr (attr, obj ob))"

text \<open>
  \<^verbatim>\<open>Resource.encode\<close>, a class method: \<open>cls\<close> gives \<^verbatim>\<open>_unconvertible\<close> and the class name
  used for \<^verbatim>\<open>parent\<close>.
\<close>

definition Resource_encode :: "rtype \<Rightarrow> string \<Rightarrow> pyval \<Rightarrow> manager \<Rightarrow> exn + string \<times> pyval" where
  "Resource_encode cls attr val mgr =
     (if attr \<in> set (unconvertible cls) then Inr (attr, val)
      else case map_of RESOURCE_MAP attr of
        Some t \<Rightarrow> wrap attr (to_resource mgr t [] val)
      | None \<Rightarrow>
     (case map_of RESOURCE_SET_MAP attr of
        Some t \<Rightarrow> wrap attr (to_resource_set mgr t [] val)
      | None \<Rightarrow>
      if attr = ''parent'' then wrap attr (to_resource mgr (class_name cls) [] val)
      else
        (case strptime_py mgr val (datetime_format (redmine mgr)) of
           Inr t \<Rightarrow> Inr (attr, PDateTime t)
         | Inl e \<Rightarrow>
             if type_or_value_error e then
               (case strptime_py mgr val (date_format (redmine mgr)) of
                  Inr t \<Rightarrow> Inr (attr, PDate (date_of t))
                | Inl e' \<Rightarrow> if type_or_value_error e' then Inr (attr, val) else Inl e')
             else Inl e)))"

text \<open>
  The overrides. \<^verbatim>\<open>Project.encode\<close> turns \<^verbatim>\<open>enabled_modules\<close> into the list of the module
  names; \<^verbatim>\<open>WikiPage.encode\<close> builds the parent with the project of the manager;
  \<^verbatim>\<open>CustomField.encode\<close> accepts the single tracker of old servers.
\<close>

fun module_names :: "pyval list \<Rightarrow> exn + pyval list" where
  "module_names [] = Inr []"
| "module_names (m # ms) =
     (case py_getitem m ''name'' of
        Inl e \<Rightarrow> Inl e
      | Inr n \<Rightarrow> (case module_names ms of Inl e \<Rightarrow> Inl e | Inr ns \<Rightarrow> Inr (n # ns)))"

fun encode :: "rtype \<Rightarrow> string \<Rightarrow> pyval \<Rightarrow> manager \<Rightarrow> exn + string \<times> pyval" where
  "encode Project attr val mgr =
     (if attr = ''enabled_modules'' then
        (case py_iter val of
           Inl e \<Rightarrow> Inl e
         | Inr ms \<Rightarrow> (case module_names ms of Inl e \<Rightarrow> Inl e | Inr ns \<Rightarrow> Inr (attr, PList ns)))
      else Resource_encode Project attr val mgr)"
| "encode WikiPage attr val mgr =
     (if attr = ''parent'' then
        wrap attr (to_resource mgr (class_name WikiPage)
          [(''project_id'',
            (case map_of (params mgr) ''project_id'' of None \<Rightarrow> PInt 0 | Some p \<Rightarrow> p))] val)
      else Resource_encode WikiPage attr val mgr)"
| "encode CustomField attr val mgr =
     (if attr = ''trackers'' then
        (case py_contains val ''tracker'' of
           Inl e \<Rightarrow> Inl e
         | Inr True \<Rightarrow>
             (case py_getitem val ''tracker'' of
                Inl e \<Rightarrow> Inl e
              | Inr t \<Rightarrow> Resource_encode CustomField attr (PList [t]) mgr)
         | Inr False \<Rightarrow> Resource_encode CustomField attr val mgr)
      else Resource_encode CustomField attr val mgr)"
| "encode cls attr val mgr = Resource_encode cls attr val mgr"

section \<open>Reading an attribute\<close>

text \<open>\<^verbatim>\<open>0 if attr in ('id', 'version') else ''\<close>.\<close>

definition attr_default :: "string \<Rightarrow> pyval" where
  "attr_default attr = (if attr = ''id'' \<or> attr = ''version'' then PInt 0 else PStr [])"

text \<open>
  The two tests on \<^verbatim>\<open>raise_attr_exception\<close>: a boolean that is true, or a list that
  contains the name of the class.
\<close>

definition raises_attr_error :: "manager \<Rightarrow> rtype \<Rightarrow> bool" where
  "raises_attr_error mgr cls =
     (case raise_attr_exception (redmine mgr) of
        PBool b \<Rightarrow> b
      | PList names \<Rightarrow> PStr (class_name cls) \<in> set names
      | _ \<Rightarrow> False)"

text \<open>
  The end of \<^verbatim>\<open>__getattr__\<close>, after the \<^verbatim>\<open>if\<close>/\<^verbatim>\<open>elif\<close> chain has left a name and a
  value (or raised): a value that is not \<^verbatim>\<open>None\<close> is cached and returned; otherwise a new
  instance answers with the default, and a saved one raises or returns \<^verbatim>\<open>None\<close>.
\<close>

definition getattr_finish ::
  "rtype \<Rightarrow> manager \<Rightarrow> (exn + string \<times> pyval) \<times> resource \<times> call list \<Rightarrow>
   (exn + pyval) \<times> resource \<times> call list" where
  "getattr_finish cls mgr x =
     (case x of
        (Inl e, r, log) \<Rightarrow> (Inl e, r, log)
      | (Inr (attr, encoded), r, log) \<Rightarrow>
          if encoded \<noteq> PNone then
            (Inr encoded, r\<lparr>encoded_attrs := AList.update attr encoded (encoded_attrs r)\<rparr>, log)
          else if is_new r then (Inr (attr_default attr), r, log)
          else if raises_attr_error mgr cls then (Inl ResourceAttrError, r, log)
          else (Inr PNone, r, log))"

text \<open>
  The relation branch once the identity is known: the filter keyed by the relation key
  goes to the manager of the related class.
\<close>

definition relation_filter ::
  "manager \<Rightarrow> string \<Rightarrow> resource \<Rightarrow> call list \<Rightarrow> pyval \<Rightarrow>
   (exn + string \<times> pyval) \<times> resource \<times> call list" where
  "relation_filter mgr attr r log ident =
     (let filters = [(relations_name r @ ''_id'', ident)] in
      case map_of RELATIONS_MAP attr of
        None \<Rightarrow> (Inl KeyError, r, log)
      | Some t \<Rightarrow>
          (case mgr_filter mgr log t filters of
             Inl e \<Rightarrow> (Inl e, r, log @ [FilterCall t filters])
           | Inr ob \<Rightarrow> (Inr (attr, obj ob), r, log @ [FilterCall t filters])))"

text \<open>
  \<^verbatim>\<open>internal_id\<close> reads \<^verbatim>\<open>id\<close>, for a wiki page \<^verbatim>\<open>title\<close>; \<^verbatim>\<open>WikiPage.refresh\<close> adds the
  project of the manager to the parameters of the request.
\<close>

definition internal_id_attr :: "rtype \<Rightarrow> string" where
  "internal_id_attr cls = (if cls = WikiPage then ''title'' else ''id'')"

definition refresh_params :: "rtype \<Rightarrow> manager \<Rightarrow> attrs \<Rightarrow> attrs" where
  "refresh_params cls mgr ps =
     (if cls = WikiPage then
        AList.update ''project_id''
          (case map_of (params mgr) ''project_id'' of None \<Rightarrow> PInt 0 | Some p \<Rightarrow> p) ps
      else ps)"

definition fetch ::
  "rtype \<Rightarrow> manager \<Rightarrow> call list \<Rightarrow> pyval \<Rightarrow> attrs \<Rightarrow> (exn + resource) \<times> call list" where
  "fetch cls mgr log ident ps =
     (let ps' = refresh_params cls mgr ps
      in (mgr_get mgr log ident ps', log @ [GetCall ident ps']))"

text \<open>
  \<^verbatim>\<open>Resource.__getattr__\<close>. The first argument is the depth of call stack left: the
  method calls itself for the identity (\<^verbatim>\<open>self.internal_id\<close>) and on the instance a
  refresh returns, and Python raises when the stack is used up. The state is the
  instance and the log of manager calls; an exception leaves both as they are at that
  moment. The subclasses that override \<^verbatim>\<open>__getattr__\<close> hand every name but their own
  (\<^verbatim>\<open>version\<close>, \<^verbatim>\<open>watcher\<close>, \<^verbatim>\<open>text\<close>, \<^verbatim>\<open>time_entries\<close>, \<^verbatim>\<open>user\<close>, \<^verbatim>\<open>value\<close>) to this method.
\<close>

fun Resource_getattr ::
  "nat \<Rightarrow> rtype \<Rightarrow> manager \<Rightarrow> resource \<times> call list \<Rightarrow> string \<Rightarrow>
   (exn + pyval) \<times> resource \<times> call list" where
  "Resource_getattr 0 cls mgr (r, log) attr = (Inl RecursionError, r, log)"
| "Resource_getattr (Suc k) cls mgr (r, log) attr =
     (if startswith_underscore attr then (Inl AttributeError, r, log)
      else if dict_get (encoded_attrs r) attr \<noteq> PNone then
        (Inr (dict_get (encoded_attrs r) attr), r, log)
      else if dict_get (decoded_attrs r) attr \<noteq> PNone then
        getattr_finish cls mgr (encode cls attr (dict_get (decoded_attrs r) attr) mgr, r, log)
      else if attr \<in> set (class_relations cls) then
        (case Resource_getattr k cls mgr (r, log) (internal_id_attr cls) of
           (Inl e, r1, log1) \<Rightarrow> (Inl e, r1, log1)
         | (Inr ident, r1, log1) \<Rightarrow>
             getattr_finish cls mgr (relation_filter mgr attr r1 log1 ident))
      else if attr \<in> set (class_includes cls) then
        (case Resource_getattr k cls mgr (r, log) (internal_id_attr cls) of
           (Inl e, r1, log1) \<Rightarrow> (Inl e, r1, log1)
         | (Inr ident, r1, log1) \<Rightarrow>
             (case fetch cls mgr log1 ident [(''include'', PStr attr)] of
                (Inl e, log2) \<Rightarrow> (Inl e, r1, log2)
              | (Inr fresh, log2) \<Rightarrow>
                  (case Resource_getattr k cls mgr (fresh, log2) attr of
                     (Inl e, fresh', log3) \<Rightarrow> (Inl e, r1, log3)
                   | (Inr v, fresh', log3) \<Rightarrow>
                       getattr_finish cls mgr (Inr (attr, v), r1, log3))))
      else getattr_finish cls mgr (Inr (attr, PNone), r, log))"

text \<open>\<^verbatim>\<open>internal_id\<close> and \<^verbatim>\<open>refresh\<close> as methods of their own.\<close>

definition internal_id ::
  "nat \<Rightarrow> rtype \<Rightarrow> manager \<Rightarrow> resource \<times> call list \<Rightarrow> (exn + pyval) \<times> resource \<times> call list" where
  "internal_id k cls mgr st = Resource_getattr k cls mgr st (internal_id_attr cls)"

definition refresh ::
  "nat \<Rightarrow> rtype \<Rightarrow> manager \<Rightarrow> resource \<times> call list \<Rightarrow> bool \<Rightarrow> attrs \<Rightarrow>
   (exn + resource option) \<times> resource \<times> call list" where
  "refresh k cls mgr st itself ps =
     (case internal_id k cls mgr st of
        (Inl e, r1, log1) \<Rightarrow> (Inl e, r1, log1)
      | (Inr ident, r1, log1) \<Rightarrow>
          (case fetch cls mgr log1 ident ps of
             (Inl e, log2) \<Rightarrow> (Inl e, r1, log2)
           | (Inr fresh, log2) \<Rightarrow>
               if itself then
                 (Inr None, r1\<lparr>encoded_attrs := [], decoded_attrs := decoded_attrs fresh\<rparr>, log2)
               else (Inr (Some fresh), r1, log2)))"

section \<open>Writing an attribute\<close>

text \<open>
  The plain write: the pair \<open>decode\<close> returns goes to the changes under the name
  \<open>decode\<close> returned and to the decoded dictionary under the name that was written; an
  id attribute also sets its companion. The list comprehension over a value that is not
  iterable raises after both stores.
\<close>

definition id_stub :: "pyval \<Rightarrow> pyval" where
  "id_stub v = PDict [(PStr ''id'', v)]"

definition set_plain ::
  "rtype \<Rightarrow> manager \<Rightarrow> resource \<Rightarrow> string \<Rightarrow> pyval \<Rightarrow> (exn + unit) \<times> resource" where
  "set_plain cls mgr r attr val =
     (let (decoded_attr, decoded_value) = decode cls attr val mgr;
          r1 = r\<lparr>changes := AList.update decoded_attr decoded_value (changes r)\<rparr>;
          r2 = r1\<lparr>decoded_attrs := AList.update attr decoded_value (decoded_attrs r1)\<rparr>
      in case map_of SINGLE_ATTR_ID_MAP attr of
           Some m \<Rightarrow>
             (Inr (), r2\<lparr>decoded_attrs := AList.update m (id_stub decoded_value) (decoded_attrs r2)\<rparr>)
         | None \<Rightarrow>
             (case map_of MULTIPLE_ATTR_ID_MAP attr of
                Some m \<Rightarrow>
                  (case py_iter decoded_value of
                     Inl e \<Rightarrow> (Inl e, r2)
                   | Inr ids \<Rightarrow>
                       (Inr (), r2\<lparr>decoded_attrs :=
                          AList.update m (PList (map id_stub ids)) (decoded_attrs r2)\<rparr>))
              | None \<Rightarrow> (Inr (), r2)))"

text \<open>
  The custom fields. \<open>incoming_fields\<close> is the \<^verbatim>\<open>dict(...)\<close> over the generator: each field
  is subscripted with \<^verbatim>\<open>'id'\<close>, decoded, and stored under its id, which must be hashable.
  \<open>merge_fields\<close> is the loop over the stored list: a stored field whose id is still in
  the dictionary is replaced by the entry, which is popped. An exception inside the loop
  leaves the fields replaced so far in place.
\<close>

fun incoming_fields ::
  "rtype \<Rightarrow> manager \<Rightarrow> pyval list \<Rightarrow> (pyval \<times> pyval) list \<Rightarrow> exn + (pyval \<times> pyval) list" where
  "incoming_fields cls mgr [] new = Inr new"
| "incoming_fields cls mgr (field # fs) new =
     (case py_getitem field ''id'' of
        Inl e \<Rightarrow> Inl e
      | Inr k \<Rightarrow>
          (case field of
             PDict kvs \<Rightarrow>
               if hashable k then
                 incoming_fields cls mgr fs (pydict_set new k (PDict (bulk_decode cls kvs mgr)))
               else Inl TypeError
           | _ \<Rightarrow> Inl TypeError))"

definition new_custom_fields :: "rtype \<Rightarrow> manager \<Rightarrow> pyval \<Rightarrow> exn + (pyval \<times> pyval) list" where
  "new_custom_fields cls mgr val =
     (case py_iter val of Inl e \<Rightarrow> Inl e | Inr fs \<Rightarrow> incoming_fields cls mgr fs [])"

fun merge_fields ::
  "pyval list \<Rightarrow> (pyval \<times> pyval) list \<Rightarrow> exn option \<times> pyval list \<times> (pyval \<times> pyval) list" where
  "merge_fields [] new = (None, [], new)"
| "merge_fields (field # fs) new =
     (case py_getitem field ''id'' of
        Inl e \<Rightarrow> (Some e, field # fs, new)
      | Inr k \<Rightarrow>
          if \<not> hashable k then (Some TypeError, field # fs, new)
          else
            (case pydict_get new k of
               Some d \<Rightarrow>
                 (case merge_fields fs (pydict_pop new k) of
                    (e, out, new') \<Rightarrow> (e, d # out, new'))
             | None \<Rightarrow>
                 (case merge_fields fs new of
                    (e, out, new') \<Rightarrow> (e, field # out, new'))))"

text \<open>
  \<^verbatim>\<open>setdefault('custom_fields', [])\<close>, the loop, \<^verbatim>\<open>extend\<close> and the store into the changes.
  A stored value that is not a list fails in \<^verbatim>\<open>enumerate\<close>, in the subscript of its first
  element, or in \<^verbatim>\<open>extend\<close>.
\<close>

definition set_custom_fields ::
  "rtype \<Rightarrow> manager \<Rightarrow> resource \<Rightarrow> pyval \<Rightarrow> (exn + unit) \<times> resource" where
  "set_custom_fields cls mgr r val =
     (case new_custom_fields cls mgr val of
        Inl e \<Rightarrow> (Inl (if e = TypeError \<or> e = KeyError then CustomFieldValueError else e), r)
      | Inr new \<Rightarrow>
          (let r1 = (if dict_has (decoded_attrs r) ''custom_fields'' then r
                     else r\<lparr>decoded_attrs :=
                            AList.update ''custom_fields'' (PList []) (decoded_attrs r)\<rparr>)
           in case dict_get (decoded_attrs r1) ''custom_fields'' of
                PList stored \<Rightarrow>
                  (case merge_fields stored new of
                     (Some e, out, new') \<Rightarrow>
                       (Inl e, r1\<lparr>decoded_attrs :=
                          AList.update ''custom_fields'' (PList out) (decoded_attrs r1)\<rparr>)
                   | (None, out, new') \<Rightarrow>
                       (let merged = PList (out @ map snd new') in
                        (Inr (), r1\<lparr>decoded_attrs :=
                                    AList.update ''custom_fields'' merged (decoded_attrs r1),
                                  changes := AList.update ''custom_fields'' merged (changes r1)\<rparr>)))
              | PStr s \<Rightarrow> (Inl (if s = [] then AttributeError else TypeError), r1)
              | PDict kvs \<Rightarrow> (Inl (if kvs = [] then AttributeError else TypeError), r1)
              | _ \<Rightarrow> (Inl TypeError, r1)))"

text \<open>
  \<^verbatim>\<open>Resource.__setattr__\<close>. A structural name (a member, or a name that starts with an
  underscore) goes to \<^verbatim>\<open>object.__setattr__\<close>, which binds the instance attribute of that
  name; the embedding keeps these bindings in \<open>members\<close>.
\<close>

definition structural :: "string \<Rightarrow> bool" where
  "structural attr = (attr \<in> set Resource_members \<or> startswith_underscore attr)"

definition Resource_setattr ::
  "rtype \<Rightarrow> manager \<Rightarrow> resource \<Rightarrow> string \<Rightarrow> pyval \<Rightarrow> (exn + unit) \<times> resource" where
  "Resource_setattr cls mgr r attr val =
     (if structural attr then (Inr (), r\<lparr>members := AList.update attr val (members r)\<rparr>)
      else if attr \<in> set (create_readonly r) \<and> is_new r then (Inl ReadonlyAttrError, r)
      else if attr \<in> set (update_readonly r) \<and> \<not> is_new r then (Inl ReadonlyAttrError, r)
      else
        (case (if attr = ''custom_fields'' then set_custom_fields cls mgr r val
               else set_plain cls mgr r attr val) of
           (Inl e, r') \<Rightarrow> (Inl e, r')
         | (Inr u, r') \<Rightarrow> (Inr (), r'\<lparr>encoded_attrs := AList.delete attr (encoded_attrs r')\<rparr>)))"

text \<open>The write as the classes dispatch it: \<^verbatim>\<open>Issue.__setattr__\<close> renames \<^verbatim>\<open>version_id\<close>.\<close>

definition setattr ::
  "rtype \<Rightarrow> manager \<Rightarrow> resource \<Rightarrow> string \<Rightarrow> pyval \<Rightarrow> (exn + unit) \<times> resource" where
  "setattr cls mgr r attr val =
     (if cls = Issue \<and> attr = ''version_id'' then Resource_setattr cls mgr r ''fixed_version_id'' val
      else Resource_setattr cls mgr r attr val)"

section \<open>Saving\<close>

text \<open>
  The hooks do nothing but \<^verbatim>\<open>WikiPage.post_update\<close>, which counts the version up in both
  dictionaries.
\<close>

definition py_add_one :: "pyval \<Rightarrow> exn + pyval" where
  "py_add_one v =
     (case v of
        PInt n \<Rightarrow> Inr (PInt (n + 1))
      | PBool b \<Rightarrow> Inr (PInt ((if b then 1 else 0) + 1))
      | _ \<Rightarrow> Inl TypeError)"

definition post_update :: "rtype \<Rightarrow> resource \<Rightarrow> exn + resource" where
  "post_update cls r =
     (if cls = WikiPage then
        (case py_add_one
                (case map_of (decoded_attrs r) ''version'' of None \<Rightarrow> PInt 0 | Some v \<Rightarrow> v) of
           Inl e \<Rightarrow> Inl e
         | Inr v \<Rightarrow>
             Inr (r\<lparr>encoded_attrs := AList.update ''version'' v (encoded_attrs r),
                    decoded_attrs := AList.update ''version'' v (decoded_attrs r)\<rparr>))
      else Inr r)"

definition stamp_updated_on :: "manager \<Rightarrow> call list \<Rightarrow> resource \<Rightarrow> resource" where
  "stamp_updated_on mgr log r =
     r\<lparr>decoded_attrs :=
         AList.update ''updated_on''
           (PStr (datetime_strftime (lib mgr) (utcnow (lib mgr) log)
                    (datetime_format (redmine mgr))))
           (decoded_attrs r)\<rparr>"

text \<open>\<^verbatim>\<open>Resource.save\<close>.\<close>

definition save ::
  "nat \<Rightarrow> rtype \<Rightarrow> manager \<Rightarrow> resource \<times> call list \<Rightarrow> (exn + pyval) \<times> resource \<times> call list" where
  "save k cls mgr st =
     (if \<not> is_new (fst st) then
        (case internal_id k cls mgr st of
           (Inl e, r1, log1) \<Rightarrow> (Inl e, r1, log1)
         | (Inr ident, r1, log1) \<Rightarrow>
             (case mgr_update mgr log1 ident (changes r1) of
                Inl e \<Rightarrow> (Inl e, r1, log1 @ [UpdateCall ident (changes r1)])
              | Inr ack \<Rightarrow>
                  (let log2 = log1 @ [UpdateCall ident (changes r1)];
                       r2 = stamp_updated_on mgr log2 r1
                   in case post_update cls r2 of
                        Inl e \<Rightarrow> (Inl e, r2, log2)
                      | Inr r3 \<Rightarrow> (Inr (PBool True), r3\<lparr>changes := []\<rparr>, log2))))
      else
        (case mgr_create mgr (snd st) (changes (fst st)) of
           Inl e \<Rightarrow> (Inl e, fst st, snd st @ [CreateCall (changes (fst st))])
         | Inr created \<Rightarrow>
             (Inr (PBool True),
              (fst st)\<lparr>decoded_attrs := decoded_attrs created, changes := []\<rparr>,
              snd st @ [CreateCall (changes (fst st))])))"

section \<open>The representation\<close>

text \<open>
  Modelled from the spec: the exception classes are declared in \<^verbatim>\<open>redmine/exceptions.py\<close>,
  which is not among the sources. \<^verbatim>\<open>getattr(self, attr, None)\<close> answers \<^verbatim>\<open>None\<close> for an
  AttributeError; the spec (4.7) has an attribute that fails to resolve count as absent,
  so \<^verbatim>\<open>ResourceAttrError\<close> is taken to be an AttributeError.
\<close>

definition is_attribute_error :: "exn \<Rightarrow> bool" where
  "is_attribute_error e = (e = AttributeError \<or> e = ResourceAttrError)"

text \<open>
  The inner loop of \<^verbatim>\<open>_representation\<close> over the reversed tuple: it stops at the first
  value that is \<^verbatim>\<open>None\<close> and keeps what the two lists hold by then. \<open>s\<close> is \<^verbatim>\<open>_str_\<close>, \<open>p\<close> is
  \<^verbatim>\<open>_repr_\<close>. Any other exception leaves the method.
\<close>

fun repr_inner ::
  "nat \<Rightarrow> rtype \<Rightarrow> manager \<Rightarrow> string list \<Rightarrow> pyval list \<times> pyval list \<Rightarrow> resource \<times> call list \<Rightarrow>
   exn option \<times> (pyval list \<times> pyval list) \<times> resource \<times> call list" where
  "repr_inner k cls mgr [] acc st = (None, acc, st)"
| "repr_inner k cls mgr (attr # rest) (s, p) st =
     (case Resource_getattr k cls mgr st attr of
        (Inl e, st') \<Rightarrow>
          if is_attribute_error e then (None, (s, p), st') else (Some e, (s, p), st')
      | (Inr v, st') \<Rightarrow>
          if v = PNone then (None, (s, p), st')
          else repr_inner k cls mgr rest (if attr \<noteq> ''id'' then v # s else s, v # p) st')"

text \<open>The outer loop over the tuples: it stops once \<^verbatim>\<open>_repr_\<close> is not empty.\<close>

fun repr_outer ::
  "nat \<Rightarrow> rtype \<Rightarrow> manager \<Rightarrow> string list list \<Rightarrow> pyval list \<times> pyval list \<Rightarrow>
   resource \<times> call list \<Rightarrow> exn option \<times> (pyval list \<times> pyval list) \<times> resource \<times> call list" where
  "repr_outer k cls mgr [] acc st = (None, acc, st)"
| "repr_outer k cls mgr (attrs # others) acc st =
     (case repr_inner k cls mgr (rev attrs) acc st of
        (Some e, acc', st') \<Rightarrow> (Some e, acc', st')
      | (None, (s, p), st') \<Rightarrow>
          if length p > 0 then (None, (s, p), st')
          else repr_outer k cls mgr others (s, p) st')"

text \<open>
  \<^verbatim>\<open>_representation(target)\<close>: a new instance with more than two values loses the last
  one of each list; the target \<^verbatim>\<open>'str'\<close> gets \<^verbatim>\<open>_str_\<close>, or the string of the first of
  \<^verbatim>\<open>_repr_\<close> when \<^verbatim>\<open>_str_\<close> is empty, any other target gets \<^verbatim>\<open>_repr_\<close>.
\<close>

definition representation ::
  "nat \<Rightarrow> rtype \<Rightarrow> manager \<Rightarrow> resource \<times> call list \<Rightarrow> string \<Rightarrow>
   (exn + pyval list) \<times> resource \<times> call list" where
  "representation k cls mgr st target =
     (case repr_outer k cls mgr (repr_attrs cls) ([], []) st of
        (Some e, acc, st') \<Rightarrow> (Inl e, st')
      | (None, (s, p), st') \<Rightarrow>
          (let (s', p') = (if is_new (fst st') \<and> length p > 2 then (butlast s, butlast p)
                           else (s, p))
           in if target = ''str'' then
                (if s' \<noteq> [] then (Inr s', st')
                 else (case p' of
                         [] \<Rightarrow> (Inl IndexError, st')
                       | x # xs \<Rightarrow> (Inr [PStr (py_str (lib mgr) x)], st')))
              else (Inr p', st')))"

text \<open>\<^verbatim>\<open>' '.join(values)\<close>: every value must be a string.\<close>

fun str_items :: "pyval list \<Rightarrow> exn + string list" where
  "str_items [] = Inr []"
| "str_items (PStr s # vs) =
     (case str_items vs of Inl e \<Rightarrow> Inl e | Inr ss \<Rightarrow> Inr (s # ss))"
| "str_items (v # vs) = Inl TypeError"

fun join_words :: "string list \<Rightarrow> string" where
  "join_words [] = []"
| "join_words [w] = w"
| "join_words (w # ws) = w @ '' '' @ join_words ws"

definition py_join :: "pyval list \<Rightarrow> exn + string" where
  "py_join vs = (case str_items vs of Inl e \<Rightarrow> Inl e | Inr ss \<Rightarrow> Inr (join_words ss))"

text \<open>\<^verbatim>\<open>__str__\<close>.\<close>

definition Resource_str ::
  "nat \<Rightarrow> rtype \<Rightarrow> manager \<Rightarrow> resource \<times> call list \<Rightarrow> (exn + string) \<times> resource \<times> call list" where
  "Resource_str k cls mgr st =
     (case representation k cls mgr st ''str'' of
        (Inl e, st') \<Rightarrow> (Inl e, st')
      | (Inr vs, st') \<Rightarrow> (py_join vs, st'))"

text \<open>
  \<^verbatim>\<open>__repr__\<close>: a first value that is an integer is shown after a hash sign, the others
  between double quotes.
\<close>

fun is_int :: "pyval \<Rightarrow> bool" where
  "is_int (PInt n) = True"
| "is_int (PBool b) = True"
| "is_int v = False"

definition Resource_repr ::
  "nat \<Rightarrow> rtype \<Rightarrow> manager \<Rightarrow> resource \<times> call list \<Rightarrow> (exn + string) \<times> resource \<times> call list" where
  "Resource_repr k cls mgr st =
     (case representation k cls mgr st ''repr'' of
        (Inl e, st') \<Rightarrow> (Inl e, st')
      | (Inr [], st') \<Rightarrow> (Inl IndexError, st')
      | (Inr (v # vs), st') \<Rightarrow>
          (let view = ''<redmine.resources.'' @ class_name cls;
               view1 = (if is_int v then view @ '' #'' @ py_str (lib mgr) v else view);
               rest = (if is_int v then vs else v # vs)
           in if length rest > 0 then
                (case py_join rest of
                   Inl e \<Rightarrow> (Inl e, st')
                 | Inr words \<Rightarrow> (Inr (view1 @ '' \"'' @ words @ ''\"'' @ ''>''), st'))
              else (Inr (view1 @ ''>''), st')))"

section \<open>A manager for the examples\<close>

text \<open>
  The concrete inputs of the examples below use this manager: the default formats of
  the library, a \<open>strptime\<close> that knows one date and one timestamp, a server that answers
  every \<open>get\<close> with the payload \<open>server_payload\<close> and acknowledges every other call, and
  factories that build an object named after the class.
\<close>

definition lib0 :: pylib where
  "lib0 =
     \<lparr> strptime = (\<lambda>s fmt.
         if s = ''2014-01-02T03:04:05Z'' \<and> fmt = ''%Y-%m-%dT%H:%M:%SZ''
           then Some (DateTime 2014 1 2 3 4 5)
         else if s = ''2014-01-02'' \<and> fmt = ''%Y-%m-%d'' then Some (DateTime 2014 1 2 0 0 0)
         else None),
       date_strftime = (\<lambda>d fmt. ''2014-01-02''),
       datetime_strftime = (\<lambda>t fmt. ''2014-01-02T03:04:05Z''),
       utcnow = (\<lambda>log. DateTime 2014 1 2 3 4 5),
       py_str = (\<lambda>v. case v of PStr s \<Rightarrow> s | PInt n \<Rightarrow> (if n = 0 then ''0'' else ''1'') | _ \<Rightarrow> ''?'') \<rparr>"

definition redmine0 :: "pyval \<Rightarrow> redmine" where
  "redmine0 policy =
     \<lparr> date_format = ''%Y-%m-%d'',
       datetime_format = ''%Y-%m-%dT%H:%M:%SZ'',
       raise_attr_exception = policy \<rparr>"

definition mgr0 :: "rtype \<Rightarrow> pyval \<Rightarrow> attrs \<Rightarrow> manager" where
  "mgr0 cls policy server_payload =
     \<lparr> redmine = redmine0 policy,
       lib = lib0,
       params = [],
       mgr_get = (\<lambda>log ident ps. Inr (Resource_init cls server_payload)),
       mgr_filter = (\<lambda>log t filters. Inr (''ResourceSet'', PStr t)),
       mgr_create = (\<lambda>log fields. Inr (Resource_init cls server_payload)),
       mgr_update = (\<lambda>log ident fields. Inr PNone),
       mgr_delete = (\<lambda>log ident ps. Inr PNone),
       to_resource = (\<lambda>t scope v. Inr (t, v)),
       to_resource_set = (\<lambda>t scope v. Inr (''ResourceSet'', v)) \<rparr>"

text \<open>A manager whose server refuses every call.\<close>

definition mgr_down :: "rtype \<Rightarrow> manager" where
  "mgr_down cls =
     (mgr0 cls (PBool False) [])
       \<lparr> mgr_get := (\<lambda>log ident ps. Inl (ManagerError ''down'')),
         mgr_filter := (\<lambda>log t filters. Inl (ManagerError ''down'')),
         mgr_create := (\<lambda>log fields. Inl (ManagerError ''down'')),
         mgr_update := (\<lambda>log ident fields. Inl (ManagerError ''down'')),
         mgr_delete := (\<lambda>log ident ps. Inl (ManagerError ''down'')) \<rparr>"

section \<open>Well-formed instances\<close>

text \<open>
  What \<^verbatim>\<open>__init__\<close> establishes for the two readonly tuples of an instance, and no method
  changes afterwards.
\<close>

definition constructed :: "rtype \<Rightarrow> resource \<Rightarrow> bool" where
  "constructed cls r =
     (create_readonly r = class_create_readonly cls @ class_relations cls @ class_includes cls
      \<and> update_readonly r = class_update_readonly cls @ class_relations cls @ class_includes cls)"

section \<open>The custom field merge as the specification words it\<close>

text \<open>
  A field is a mapping with an \<^verbatim>\<open>id\<close> key; a valid value is an iterable of fields.
  \<open>fields_of\<close> are the elements of the value, \<open>hashable_ids\<close> says that every id can key a
  dictionary.
\<close>

definition field_id :: "pyval \<Rightarrow> pyval" where
  "field_id f = (case py_getitem f ''id'' of Inr k \<Rightarrow> k | Inl e \<Rightarrow> PNone)"

fun is_field :: "pyval \<Rightarrow> bool" where
  "is_field (PDict kvs) = (pydict_get kvs (PStr ''id'') \<noteq> None)"
| "is_field v = False"

definition valid_fields :: "pyval \<Rightarrow> bool" where
  "valid_fields val = (case py_iter val of Inl e \<Rightarrow> False | Inr fs \<Rightarrow> list_all is_field fs)"

definition fields_of :: "pyval \<Rightarrow> pyval list" where
  "fields_of val = (case py_iter val of Inl e \<Rightarrow> [] | Inr fs \<Rightarrow> fs)"

definition hashable_ids :: "pyval list \<Rightarrow> bool" where
  "hashable_ids fs = list_all (\<lambda>f. hashable (field_id f)) fs"

text \<open>
  Decoding as the specification words it (4.2, 4.6): a calendar date is formatted with
  the configured date format, a date-time with the configured date-time format, every
  other value passes unchanged; the name is renamed by the alias of the type. An issue
  renames \<^verbatim>\<open>version_id\<close> to \<^verbatim>\<open>fixed_version_id\<close> and passes its value as it is; a time entry
  renames \<^verbatim>\<open>from_date\<close> and \<^verbatim>\<open>to_date\<close> to \<^verbatim>\<open>from\<close> and \<^verbatim>\<open>to\<close>. A decoded field is the mapping
  of the decoded entries of the field.
\<close>

fun wire_value :: "manager \<Rightarrow> pyval \<Rightarrow> pyval" where
  "wire_value mgr (PDate d) = PStr (date_strftime (lib mgr) d (date_format (redmine mgr)))"
| "wire_value mgr (PDateTime t) =
     PStr (datetime_strftime (lib mgr) t (datetime_format (redmine mgr)))"
| "wire_value mgr v = v"

definition wire_name :: "rtype \<Rightarrow> pyval \<Rightarrow> pyval" where
  "wire_name cls k =
     (if cls = Issue \<and> k = PStr ''version_id'' then PStr ''fixed_version_id''
      else if cls = TimeEntry \<and> k = PStr ''from_date'' then PStr ''from''
      else if cls = TimeEntry \<and> k = PStr ''to_date'' then PStr ''to''
      else k)"

definition wire_item :: "rtype \<Rightarrow> manager \<Rightarrow> pyval \<times> pyval \<Rightarrow> pyval \<times> pyval" where
  "wire_item cls mgr kv =
     (wire_name cls (fst kv),
      if cls = Issue \<and> fst kv = PStr ''version_id'' then snd kv else wire_value mgr (snd kv))"

definition decoded_field :: "rtype \<Rightarrow> manager \<Rightarrow> pyval \<Rightarrow> pyval" where
  "decoded_field cls mgr f =
     (case f of PDict kvs \<Rightarrow> PDict (pydict_of (map (wire_item cls mgr) kvs)) | _ \<Rightarrow> f)"

text \<open>
  The incoming dictionary holds each decoded field under its id: of several fields with
  the same id the last one, at the place of the first.
\<close>

definition incoming_spec :: "rtype \<Rightarrow> manager \<Rightarrow> pyval list \<Rightarrow> (pyval \<times> pyval) list" where
  "incoming_spec cls mgr fs = pydict_of (map (\<lambda>f. (field_id f, decoded_field cls mgr f)) fs)"

text \<open>
  The merge of the specification: the stored list with every field whose id is in the
  dictionary replaced by the entry, followed by the entries whose id no stored field has.
\<close>

definition merge_spec :: "pyval list \<Rightarrow> (pyval \<times> pyval) list \<Rightarrow> pyval list" where
  "merge_spec stored new =
     map (\<lambda>f. case pydict_get new (field_id f) of Some d \<Rightarrow> d | None \<Rightarrow> f) stored
     @ map snd (filter (\<lambda>kd. \<not> list_ex (\<lambda>f. key_eq (fst kd) (field_id f)) stored) new)"

text \<open>
  The merge as amended: of the stored fields with one id only the first is replaced by
  the entry of the dictionary, a later one stays as it is. \<open>seen\<close> holds the ids of the
  stored fields before the current one.
\<close>

fun replace_stored :: "pyval list \<Rightarrow> pyval list \<Rightarrow> (pyval \<times> pyval) list \<Rightarrow> pyval list" where
  "replace_stored seen [] new = []"
| "replace_stored seen (f # fs) new =
     (if list_ex (key_eq (field_id f)) seen then f
      else (case pydict_get new (field_id f) of Some d \<Rightarrow> d | None \<Rightarrow> f))
     # replace_stored (field_id f # seen) fs new"

definition merge_amended :: "pyval list \<Rightarrow> (pyval \<times> pyval) list \<Rightarrow> pyval list" where
  "merge_amended stored new =
     replace_stored [] stored new
     @ map snd (filter (\<lambda>kd. \<not> list_ex (\<lambda>f. key_eq (fst kd) (field_id f)) stored) new)"

definition stored_fields :: "resource \<Rightarrow> pyval" where
  "stored_fields r =
     (case map_of (decoded_attrs r) ''custom_fields'' of None \<Rightarrow> PList [] | Some v \<Rightarrow> v)"

section \<open>What a read may change\<close>

text \<open>The second instance is the first but for the cache.\<close>

definition cache_only :: "resource \<Rightarrow> resource \<Rightarrow> bool" where
  "cache_only r r' = (r' = r\<lparr>encoded_attrs := encoded_attrs r'\<rparr>)"

section \<open>The resolution order as the specification words it\<close>

text \<open>
  An entry is present when the dictionary has the key with a value that is not \<^verbatim>\<open>None\<close>.
  The six steps: the cached value; else the decoded value through \<open>encode\<close>, cached; else
  for a relation name the filter of the related class keyed by the relation key and the
  identity, cached; else for an include name the attribute of the instance a
  non-destructive refresh with that include returns, cached; else the default of a new
  instance; else ResourceAttrError or \<^verbatim>\<open>None\<close> as the policy says.
\<close>

definition present :: "attrs \<Rightarrow> string \<Rightarrow> bool" where
  "present d n = (case map_of d n of None \<Rightarrow> False | Some v \<Rightarrow> v \<noteq> PNone)"

definition cached :: "resource \<Rightarrow> string \<Rightarrow> pyval \<Rightarrow> resource" where
  "cached r n v = r\<lparr>encoded_attrs := AList.update n v (encoded_attrs r)\<rparr>"

definition related_class :: "string \<Rightarrow> string" where
  "related_class n = (case map_of RELATIONS_MAP n of None \<Rightarrow> [] | Some t \<Rightarrow> t)"

definition decode_step ::
  "rtype \<Rightarrow> manager \<Rightarrow> resource \<times> call list \<Rightarrow> string \<Rightarrow>
   (exn + pyval) \<times> resource \<times> call list" where
  "decode_step cls mgr st n =
     (case encode cls n (dict_get (decoded_attrs (fst st)) n) mgr of
        Inl e \<Rightarrow> (Inl e, st)
      | Inr (a, v) \<Rightarrow> (Inr v, cached (fst st) n v, snd st))"

definition relation_step ::
  "nat \<Rightarrow> rtype \<Rightarrow> manager \<Rightarrow> resource \<times> call list \<Rightarrow> string \<Rightarrow>
   (exn + pyval) \<times> resource \<times> call list" where
  "relation_step k cls mgr st n =
     (case internal_id k cls mgr st of
        (Inl e, st1) \<Rightarrow> (Inl e, st1)
      | (Inr ident, r1, log1) \<Rightarrow>
          (let t = related_class n;
               filters = [(relations_name (fst st) @ ''_id'', ident)]
           in case mgr_filter mgr log1 t filters of
                Inl e \<Rightarrow> (Inl e, r1, log1 @ [FilterCall t filters])
              | Inr ob \<Rightarrow> (Inr (obj ob), cached r1 n (obj ob), log1 @ [FilterCall t filters])))"

definition include_step ::
  "nat \<Rightarrow> rtype \<Rightarrow> manager \<Rightarrow> resource \<times> call list \<Rightarrow> string \<Rightarrow>
   (exn + pyval) \<times> resource \<times> call list" where
  "include_step k cls mgr st n =
     (case refresh k cls mgr st False [(''include'', PStr n)] of
        (Inl e, st1) \<Rightarrow> (Inl e, st1)
      | (Inr None, st1) \<Rightarrow> (Inl AttributeError, st1)
      | (Inr (Some fresh), r1, log2) \<Rightarrow>
          (case Resource_getattr k cls mgr (fresh, log2) n of
             (Inl e, fresh', log3) \<Rightarrow> (Inl e, r1, log3)
           | (Inr v, fresh', log3) \<Rightarrow> (Inr v, cached r1 n v, log3)))"

definition missing_step ::
  "rtype \<Rightarrow> manager \<Rightarrow> resource \<times> call list \<Rightarrow> string \<Rightarrow>
   (exn + pyval) \<times> resource \<times> call list" where
  "missing_step cls mgr st n =
     (if is_new (fst st) then
        (Inr (if n = ''id'' \<or> n = ''version'' then PInt 0 else PStr []), st)
      else if raises_attr_error mgr cls then (Inl ResourceAttrError, st)
      else (Inr PNone, st))"

definition fall_through ::
  "nat \<Rightarrow> rtype \<Rightarrow> manager \<Rightarrow> resource \<times> call list \<Rightarrow> string \<Rightarrow>
   (exn + pyval) \<times> resource \<times> call list" where
  "fall_through k cls mgr st n =
     (if n \<in> set (class_relations cls) then relation_step k cls mgr st n
      else if n \<in> set (class_includes cls) then include_step k cls mgr st n
      else missing_step cls mgr st n)"

definition get_spec ::
  "nat \<Rightarrow> rtype \<Rightarrow> manager \<Rightarrow> resource \<times> call list \<Rightarrow> string \<Rightarrow>
   (exn + pyval) \<times> resource \<times> call list" where
  "get_spec k cls mgr st n =
     (if present (encoded_attrs (fst st)) n then (Inr (dict_get (encoded_attrs (fst st)) n), st)
      else if present (decoded_attrs (fst st)) n then decode_step cls mgr st n
      else fall_through k cls mgr st n)"

text \<open>The instance without the key \<open>n\<close> in its decoded dictionary.\<close>

definition drop_key :: "string \<Rightarrow> resource \<Rightarrow> resource" where
  "drop_key n r = r\<lparr>decoded_attrs := AList.delete n (decoded_attrs r)\<rparr>"

section \<open>The representation as the specification words it\<close>

text \<open>
  The rule of the specification: a tuple whose attributes all resolve is accepted, a
  tuple with an attribute that resolves to nothing is abandoned as a whole. \<open>resolve_all\<close>
  is \<open>None\<close> for an abandoned tuple. \<open>absent_result\<close> is a read that gives nothing: \<^verbatim>\<open>None\<close>
  or an attribute error.
\<close>

fun resolve_all ::
  "nat \<Rightarrow> rtype \<Rightarrow> manager \<Rightarrow> string list \<Rightarrow> pyval list \<times> pyval list \<Rightarrow> resource \<times> call list \<Rightarrow>
   (exn + (pyval list \<times> pyval list) option) \<times> resource \<times> call list" where
  "resolve_all k cls mgr [] acc st = (Inr (Some acc), st)"
| "resolve_all k cls mgr (attr # rest) (s, p) st =
     (case Resource_getattr k cls mgr st attr of
        (Inl e, st') \<Rightarrow> if is_attribute_error e then (Inr None, st') else (Inl e, st')
      | (Inr v, st') \<Rightarrow>
          if v = PNone then (Inr None, st')
          else resolve_all k cls mgr rest (if attr \<noteq> ''id'' then v # s else s, v # p) st')"

fun first_resolved ::
  "nat \<Rightarrow> rtype \<Rightarrow> manager \<Rightarrow> string list list \<Rightarrow> resource \<times> call list \<Rightarrow>
   (exn + pyval list \<times> pyval list) \<times> resource \<times> call list" where
  "first_resolved k cls mgr [] st = (Inr ([], []), st)"
| "first_resolved k cls mgr (attrs # others) st =
     (case resolve_all k cls mgr (rev attrs) ([], []) st of
        (Inl e, st') \<Rightarrow> (Inl e, st')
      | (Inr None, st') \<Rightarrow> first_resolved k cls mgr others st'
      | (Inr (Some acc), st') \<Rightarrow> (Inr acc, st'))"

definition representation_spec ::
  "nat \<Rightarrow> rtype \<Rightarrow> manager \<Rightarrow> resource \<times> call list \<Rightarrow> string \<Rightarrow>
   (exn + pyval list) \<times> resource \<times> call list" where
  "representation_spec k cls mgr st target =
     (case first_resolved k cls mgr (repr_attrs cls) st of
        (Inl e, st') \<Rightarrow> (Inl e, st')
      | (Inr (s, p), st') \<Rightarrow>
          (let (s', p') = (if is_new (fst st') \<and> length p > 2
                           then (butlast s, butlast p) else (s, p))
           in if target = ''str'' then
                (if s' \<noteq> [] then (Inr s', st')
                 else (case p' of
                         [] \<Rightarrow> (Inl IndexError, st')
                       | x # xs \<Rightarrow> (Inr [PStr (py_str (lib mgr) x)], st')))
              else (Inr p', st')))"

definition absent_result :: "exn + pyval \<Rightarrow> bool" where
  "absent_result res = (case res of Inl e \<Rightarrow> is_attribute_error e | Inr v \<Rightarrow> v = PNone)"

text \<open>
  The rule as amended. \<open>read_values\<close> reads the names in the order given and stops at the
  first read that gives nothing: it returns the names read before the stop with their
  values. \<open>accepted_values\<close> tries the tuples in order, each read from its last name to
  its first, and accepts the first tuple of which a value was read; the pairs are in the
  order of the tuple. \<open>representation_amended\<close> takes the structured list (every value)
  and the display list (the values of the names other than \<^verbatim>\<open>id\<close>), drops the last of
  each for a new instance with more than two values, and answers with the display list
  (or the string of the first structured value when it is empty) or the structured list.
\<close>

fun read_values ::
  "nat \<Rightarrow> rtype \<Rightarrow> manager \<Rightarrow> string list \<Rightarrow> resource \<times> call list \<Rightarrow>
   exn option \<times> (string \<times> pyval) list \<times> resource \<times> call list" where
  "read_values k cls mgr [] st = (None, [], st)"
| "read_values k cls mgr (name # rest) st =
     (case Resource_getattr k cls mgr st name of
        (res, st') \<Rightarrow>
          if absent_result res then (None, [], st')
          else
            (case res of
               Inl e \<Rightarrow> (Some e, [], st')
             | Inr v \<Rightarrow>
                 (case read_values k cls mgr rest st' of
                    (e, vs, st'') \<Rightarrow> (e, (name, v) # vs, st''))))"

fun accepted_values ::
  "nat \<Rightarrow> rtype \<Rightarrow> manager \<Rightarrow> string list list \<Rightarrow> resource \<times> call list \<Rightarrow>
   exn option \<times> (string \<times> pyval) list \<times> resource \<times> call list" where
  "accepted_values k cls mgr [] st = (None, [], st)"
| "accepted_values k cls mgr (attrs # others) st =
     (case read_values k cls mgr (rev attrs) st of
        (Some e, vs, st') \<Rightarrow> (Some e, rev vs, st')
      | (None, vs, st') \<Rightarrow>
          if vs = [] then accepted_values k cls mgr others st' else (None, rev vs, st'))"

definition representation_amended ::
  "nat \<Rightarrow> rtype \<Rightarrow> manager \<Rightarrow> resource \<times> call list \<Rightarrow> string \<Rightarrow>
   (exn + pyval list) \<times> resource \<times> call list" where
  "representation_amended k cls mgr st target =
     (case accepted_values k cls mgr (repr_attrs cls) st of
        (Some e, pairs, st') \<Rightarrow> (Inl e, st')
      | (None, pairs, st') \<Rightarrow>
          (let structured = map snd pairs;
               display = map snd (filter (\<lambda>av. fst av \<noteq> ''id'') pairs);
               shorten = (is_new (fst st') \<and> length structured > 2);
               structured' = (if shorten then butlast structured else structured);
               display' = (if shorten then butlast display else display)
           in if target = ''str'' then
                (if display' \<noteq> [] then (Inr display', st')
                 else (case structured' of
                         [] \<Rightarrow> (Inl IndexError, st')
                       | x # xs \<Rightarrow> (Inr [PStr (py_str (lib mgr) x)], st')))
              else (Inr structured', st')))"

section \<open>The codec: properties\<close>

lemma strptime_py_errors:
  "strptime_py mgr val fmt = Inl e \<Longrightarrow> type_or_value_error e"
  by (auto simp: strptime_py_def type_or_value_error_def split: pyval.splits option.splits)

text \<open>
  C9. For a name that is not unconvertible, not in the resource map, not in the resource
  set map and not \<^verbatim>\<open>parent\<close>, \<^verbatim>\<open>Resource.encode\<close> returns for every value: the parsed
  datetime when the value is a string in the datetime format, else the date of the
  parsed value when it is a string in the date format, else the value itself, which is
  the case of every value that is not a string. Every class but \<^verbatim>\<open>Project\<close> with
  \<^verbatim>\<open>enabled_modules\<close> reaches this method for such a name.
\<close>

theorem encode_total:
  assumes "attr \<notin> set (unconvertible cls)"
    and "map_of RESOURCE_MAP attr = None"
    and "map_of RESOURCE_SET_MAP attr = None"
    and "attr \<noteq> ''parent''"
  shows "Resource_encode cls attr val mgr =
           Inr (attr,
             case val of
               PStr s \<Rightarrow>
                 (case strptime (lib mgr) s (datetime_format (redmine mgr)) of
                    Some t \<Rightarrow> PDateTime t
                  | None \<Rightarrow>
                      (case strptime (lib mgr) s (date_format (redmine mgr)) of
                         Some t \<Rightarrow> PDate (date_of t)
                       | None \<Rightarrow> val))
             | _ \<Rightarrow> val)
         \<and> (if cls = Project \<and> attr = ''enabled_modules'' then True
            else encode cls attr val mgr = Resource_encode cls attr val mgr)"
proof -
  have base: "Resource_encode cls attr val mgr =
           Inr (attr,
             case val of
               PStr s \<Rightarrow>
                 (case strptime (lib mgr) s (datetime_format (redmine mgr)) of
                    Some t \<Rightarrow> PDateTime t
                  | None \<Rightarrow>
                      (case strptime (lib mgr) s (date_format (redmine mgr)) of
                         Some t \<Rightarrow> PDate (date_of t)
                       | None \<Rightarrow> val))
             | _ \<Rightarrow> val)"
    using assms
    by (cases val)
       (auto simp: Resource_encode_def strptime_py_def type_or_value_error_def
             split: option.splits)
  have trackers: "attr \<noteq> ''trackers''"
    using assms(3) by (auto simp: RESOURCE_SET_MAP_def)
  have disp: "cls \<noteq> Project \<or> attr \<noteq> ''enabled_modules'' \<Longrightarrow>
      encode cls attr val mgr = Resource_encode cls attr val mgr"
    using assms(4) trackers by (cases cls) auto
  show ?thesis using base disp by auto
qed

theorem encode_total_witness:
  "Resource_encode Issue ''start_date'' (PStr ''2014-01-02'') (mgr0 Issue (PBool False) [])
     = Inr (''start_date'', PDate (Date 2014 1 2))
   \<and> Resource_encode Issue ''created_on'' (PStr ''2014-01-02T03:04:05Z'')
       (mgr0 Issue (PBool False) []) = Inr (''created_on'', PDateTime (DateTime 2014 1 2 3 4 5))
   \<and> Resource_encode Issue ''done_ratio'' (PInt 40) (mgr0 Issue (PBool False) [])
       = Inr (''done_ratio'', PInt 40)
   \<and> encode Issue ''done_ratio'' (PInt 40) (mgr0 Issue (PBool False) [])
       = Inr (''done_ratio'', PInt 40)"
proof -
  have a: "''start_date'' \<notin> set (unconvertible Issue)"
      "''created_on'' \<notin> set (unconvertible Issue)"
      "''done_ratio'' \<notin> set (unconvertible Issue)"
    by (simp_all add: Resource_unconvertible_def)
  have b: "map_of RESOURCE_MAP ''start_date'' = None"
      "map_of RESOURCE_MAP ''created_on'' = None"
      "map_of RESOURCE_MAP ''done_ratio'' = None"
    by (simp_all add: RESOURCE_MAP_def)
  have c: "map_of RESOURCE_SET_MAP ''start_date'' = None"
      "map_of RESOURCE_SET_MAP ''created_on'' = None"
      "map_of RESOURCE_SET_MAP ''done_ratio'' = None"
    by (simp_all add: RESOURCE_SET_MAP_def)
  have d: "''start_date'' \<noteq> ''parent''" "''created_on'' \<noteq> ''parent''"
      "''done_ratio'' \<noteq> ''parent''"
    by simp_all
  note t1 = encode_total [OF a(1) b(1) c(1) d(1), of "PStr ''2014-01-02''" "mgr0 Issue (PBool False) []"]
  note t2 = encode_total [OF a(2) b(2) c(2) d(2), of "PStr ''2014-01-02T03:04:05Z''"
      "mgr0 Issue (PBool False) []"]
  note t3 = encode_total [OF a(3) b(3) c(3) d(3), of "PInt 40" "mgr0 Issue (PBool False) []"]
  show ?thesis
    using t1 t2 t3 by (simp add: mgr0_def lib0_def redmine0_def)
qed

section \<open>Readonly attributes\<close>

lemma dict_has_update: "dict_has (AList.update k v d) n = (n = k \<or> dict_has d n)"
  by (auto simp: dict_has_def update_conv')

lemma readonly_not_structural:
  "attr \<in> set (class_create_readonly cls @ class_relations cls @ class_includes cls)
     \<or> attr \<in> set (class_update_readonly cls @ class_relations cls @ class_includes cls)
   \<Longrightarrow> \<not> structural attr"
  by (cases cls)
     (auto simp: structural_def Resource_members_def startswith_underscore_def
        Resource_create_readonly_def Resource_update_readonly_def)

lemma decode_key:
  "fst (decode cls attr val mgr) = attr
   \<or> (cls = Issue \<and> fst (decode cls attr val mgr) = ''fixed_version_id'')
   \<or> (cls = TimeEntry \<and> fst (decode cls attr val mgr) \<in> {''from'', ''to''})"
  by (cases cls) (auto simp: Resource_decode_def Let_def split: pyval.splits)

lemma renamed_not_relation:
  "''fixed_version_id'' \<notin> set (class_relations cls @ class_includes cls)"
  "''custom_fields'' \<notin> set (class_relations cls @ class_includes cls)"
  "class_relations TimeEntry @ class_includes TimeEntry = []"
  by (cases cls; simp)+

lemma Resource_init_sel:
  "decoded_attrs (Resource_init cls a) =
     dict_update_all (fromkeys (class_relations cls @ class_includes cls)) a"
  "encoded_attrs (Resource_init cls a) = []"
  "changes (Resource_init cls a) = []"
  "create_readonly (Resource_init cls a) =
     class_create_readonly cls @ class_relations cls @ class_includes cls"
  "update_readonly (Resource_init cls a) =
     class_update_readonly cls @ class_relations cls @ class_includes cls"
  "members (Resource_init cls a) = []"
  by (simp_all add: Resource_init_def Let_def)

lemma constructed_init: "constructed cls (Resource_init cls attributes)"
  by (simp add: constructed_def Resource_init_def Let_def)

lemma changes_set_plain:
  "changes (snd (set_plain cls mgr r attr val)) =
     AList.update (fst (decode cls attr val mgr)) (snd (decode cls attr val mgr)) (changes r)"
  by (auto simp: set_plain_def Let_def split: prod.splits option.splits sum.splits)

lemma changes_set_custom_fields:
  "dict_has (changes (snd (set_custom_fields cls mgr r val))) n \<Longrightarrow>
     n = ''custom_fields'' \<or> dict_has (changes r) n"
  by (auto simp: set_custom_fields_def Let_def dict_has_update
      split: prod.splits option.splits sum.splits pyval.splits if_splits)

lemma readonly_of_set_plain [simp]:
  "create_readonly (snd (set_plain cls mgr r attr val)) = create_readonly r"
  "update_readonly (snd (set_plain cls mgr r attr val)) = update_readonly r"
  by (auto simp: set_plain_def Let_def split: prod.splits option.splits sum.splits)

lemma readonly_of_set_custom_fields [simp]:
  "create_readonly (snd (set_custom_fields cls mgr r val)) = create_readonly r"
  "update_readonly (snd (set_custom_fields cls mgr r val)) = update_readonly r"
  by (auto simp: set_custom_fields_def Let_def
      split: prod.splits option.splits sum.splits pyval.splits if_splits)

lemma changes_Resource_setattr:
  assumes "constructed cls r" and "\<not> structural attr"
    and "dict_has (changes (snd (Resource_setattr cls mgr r attr val))) n"
  shows "dict_has (changes r) n \<or> n = ''custom_fields''
         \<or> (n = fst (decode cls attr val mgr)
             \<and> attr \<notin> set (class_relations cls @ class_includes cls))"
proof (cases "attr \<in> set (class_relations cls @ class_includes cls)")
  case True
  then have "attr \<in> set (create_readonly r)" "attr \<in> set (update_readonly r)"
    using assms(1) by (auto simp: constructed_def)
  then have "Resource_setattr cls mgr r attr val = (Inl ReadonlyAttrError, r)"
    using assms(2) by (simp add: Resource_setattr_def)
  then show ?thesis using assms(3) by simp
next
  case False
  show ?thesis
  proof (cases "attr = ''custom_fields''")
    case True
    then show ?thesis
      using assms(3) changes_set_custom_fields [of cls mgr r val n]
      by (auto simp: Resource_setattr_def split: if_splits prod.splits sum.splits)
  next
    case ncf: False
    then show ?thesis
      using assms(3) False changes_set_plain [of cls mgr r attr val]
      by (auto simp: Resource_setattr_def dict_has_update split: if_splits prod.splits sum.splits)
  qed
qed

lemma readonly_of_Resource_setattr:
  "create_readonly (snd (Resource_setattr cls mgr r attr val)) = create_readonly r"
  "update_readonly (snd (Resource_setattr cls mgr r attr val)) = update_readonly r"
proof -
  obtain res r' where c: "set_custom_fields cls mgr r val = (res, r')"
    by (cases "set_custom_fields cls mgr r val")
  obtain res2 r2 where p: "set_plain cls mgr r attr val = (res2, r2)"
    by (cases "set_plain cls mgr r attr val")
  have c': "create_readonly r' = create_readonly r" "update_readonly r' = update_readonly r"
    using readonly_of_set_custom_fields [of cls mgr r val] c by simp_all
  have p': "create_readonly r2 = create_readonly r" "update_readonly r2 = update_readonly r"
    using readonly_of_set_plain [of cls mgr r attr val] p by simp_all
  show "create_readonly (snd (Resource_setattr cls mgr r attr val)) = create_readonly r"
    using c p c' p' by (cases res; cases res2; simp add: Resource_setattr_def)
  show "update_readonly (snd (Resource_setattr cls mgr r attr val)) = update_readonly r"
    using c p c' p' by (cases res; cases res2; simp add: Resource_setattr_def)
qed

lemma constructed_setattr:
  "constructed cls r \<Longrightarrow> constructed cls (snd (setattr cls mgr r attr val))"
  by (simp add: constructed_def setattr_def readonly_of_Resource_setattr)

text \<open>
  C3. On an instance as \<^verbatim>\<open>__init__\<close> builds it, a write to a name in the readonly tuple of
  the current state (the create tuple while new, the update tuple afterwards) raises
  ReadonlyAttrError for every value and leaves the instance as it was. Both tuples hold
  every relation and include name of the class. So a write to a name that is not
  structural never puts a relation or include name among the keys of the changes.
\<close>

theorem readonly_write_fails:
  assumes "constructed cls r"
  shows "(attr \<in> set (if is_new r then create_readonly r else update_readonly r) \<longrightarrow>
            setattr cls mgr r attr val = (Inl ReadonlyAttrError, r))
       \<and> set (class_relations cls @ class_includes cls)
            \<subseteq> set (create_readonly r) \<inter> set (update_readonly r)
       \<and> (\<not> structural attr' \<and>
            (\<forall>n \<in> set (class_relations cls @ class_includes cls). \<not> dict_has (changes r) n) \<longrightarrow>
            (\<forall>n \<in> set (class_relations cls @ class_includes cls).
               \<not> dict_has (changes (snd (setattr cls mgr r attr' val'))) n))"
proof (intro conjI impI)
  assume ro: "attr \<in> set (if is_new r then create_readonly r else update_readonly r)"
  then have mem: "attr \<in> set (class_create_readonly cls @ class_relations cls @ class_includes cls)
      \<or> attr \<in> set (class_update_readonly cls @ class_relations cls @ class_includes cls)"
    using assms by (auto simp: constructed_def split: if_splits)
  then have ns: "\<not> structural attr" by (rule readonly_not_structural)
  have nv: "\<not> (cls = Issue \<and> attr = ''version_id'')"
    using mem by (auto simp: Resource_create_readonly_def)
  show "setattr cls mgr r attr val = (Inl ReadonlyAttrError, r)"
    using ro ns nv by (auto simp: setattr_def Resource_setattr_def split: if_splits)
next
  show "set (class_relations cls @ class_includes cls)
            \<subseteq> set (create_readonly r) \<inter> set (update_readonly r)"
    using assms by (auto simp: constructed_def)
next
  assume h: "\<not> structural attr' \<and>
      (\<forall>n \<in> set (class_relations cls @ class_includes cls). \<not> dict_has (changes r) n)"
  show "\<forall>n \<in> set (class_relations cls @ class_includes cls).
               \<not> dict_has (changes (snd (setattr cls mgr r attr' val'))) n"
  proof
    fix n assume n: "n \<in> set (class_relations cls @ class_includes cls)"
    show "\<not> dict_has (changes (snd (setattr cls mgr r attr' val'))) n"
    proof
      assume d: "dict_has (changes (snd (setattr cls mgr r attr' val'))) n"
      define a where "a = (if cls = Issue \<and> attr' = ''version_id'' then ''fixed_version_id'' else attr')"
      have sa: "setattr cls mgr r attr' val' = Resource_setattr cls mgr r a val'"
        by (simp add: setattr_def a_def)
      have nsa: "\<not> structural a"
        using h by (auto simp: a_def structural_def Resource_members_def startswith_underscore_def)
      from changes_Resource_setattr [OF assms nsa, of mgr val' n] d sa
      have "dict_has (changes r) n \<or> n = ''custom_fields''
         \<or> (n = fst (decode cls a val' mgr)
             \<and> a \<notin> set (class_relations cls @ class_includes cls))"
        by simp
      moreover have "\<not> dict_has (changes r) n" using h n by blast
      moreover have "n \<noteq> ''custom_fields''" using n renamed_not_relation(2) [of cls] by blast
      moreover have "n \<noteq> ''fixed_version_id''" using n renamed_not_relation(1) [of cls] by blast
      moreover have "cls \<noteq> TimeEntry" using n by auto
      ultimately show False
        using decode_key [of cls a val' mgr] n by auto
    qed
  qed
qed

theorem readonly_write_fails_witness:
  "setattr Issue (mgr0 Issue (PBool False) []) (Resource_init Issue []) ''time_entries'' (PInt 1)
     = (Inl ReadonlyAttrError, Resource_init Issue [])
   \<and> setattr Project (mgr0 Project (PBool False) []) (Resource_init Project [(''id'', PInt 1)])
       ''identifier'' (PStr ''x'')
     = (Inl ReadonlyAttrError, Resource_init Project [(''id'', PInt 1)])
   \<and> ''children'' \<in> set (update_readonly (Resource_init Issue []))
   \<and> \<not> dict_has (changes (snd (setattr Issue (mgr0 Issue (PBool False) [])
            (Resource_init Issue []) ''subject'' (PStr ''a'')))) ''time_entries''"
proof -
  have n: "is_new (Resource_init Issue [])"
    by (simp add: is_new_def Resource_init_sel dict_has_def dict_update_all_def fromkeys_def)
  have p: "\<not> is_new (Resource_init Project [(''id'', PInt 1)])"
    by (simp add: is_new_def Resource_init_sel dict_has_def dict_update_all_def fromkeys_def
        update_conv')
  have a: "''time_entries'' \<in> set (if is_new (Resource_init Issue [])
      then create_readonly (Resource_init Issue []) else update_readonly (Resource_init Issue []))"
    using n by (simp add: Resource_init_sel)
  have b: "''identifier'' \<in> set (if is_new (Resource_init Project [(''id'', PInt 1)])
      then create_readonly (Resource_init Project [(''id'', PInt 1)])
      else update_readonly (Resource_init Project [(''id'', PInt 1)]))"
    using p by (simp add: Resource_init_sel)
  have c: "\<not> structural ''subject'' \<and>
     (\<forall>n \<in> set (class_relations Issue @ class_includes Issue).
        \<not> dict_has (changes (Resource_init Issue [])) n)"
    by (simp add: structural_def Resource_members_def startswith_underscore_def
        Resource_init_sel dict_has_def)
  note t1 = readonly_write_fails [OF constructed_init, of "''time_entries''" Issue "[]"
      "mgr0 Issue (PBool False) []" "PInt 1"]
  note t2 = readonly_write_fails [OF constructed_init, of "''identifier''" Project
      "[(''id'', PInt 1)]" "mgr0 Project (PBool False) []" "PStr ''x''"]
  note t3 = readonly_write_fails [OF constructed_init, of _ Issue "[]"
      "mgr0 Issue (PBool False) []" _ "''subject''" "PStr ''a''"]
  have r1: "setattr Issue (mgr0 Issue (PBool False) []) (Resource_init Issue []) ''time_entries''
      (PInt 1) = (Inl ReadonlyAttrError, Resource_init Issue [])"
    using t1 a by blast
  have r2: "setattr Project (mgr0 Project (PBool False) []) (Resource_init Project [(''id'', PInt 1)])
       ''identifier'' (PStr ''x'')
     = (Inl ReadonlyAttrError, Resource_init Project [(''id'', PInt 1)])"
    using t2 b by blast
  have r3: "''children'' \<in> set (update_readonly (Resource_init Issue []))"
    using t3 by auto
  have r4: "\<not> dict_has (changes (snd (setattr Issue (mgr0 Issue (PBool False) [])
            (Resource_init Issue []) ''subject'' (PStr ''a'')))) ''time_entries''"
    using t3 c by auto
  show ?thesis using r1 r2 r3 r4 by blast
qed

section \<open>The plain write\<close>

text \<open>
  C4, amended. A permitted plain write (the name is not structural, not readonly for the
  state, not \<^verbatim>\<open>custom_fields\<close>) stores the value \<open>decode\<close> returns in the changes under the
  name \<open>decode\<close> returns, and in the decoded dictionary under the name that was written;
  a single-id name also sets its companion to the stub of that value, a multiple-id name
  sets it to the stubs of the elements of that value when it is iterable (when it is not,
  the write raises after both stores); the cache entry of the written name is dropped.
  The two names differ only where \<open>decode\<close> renames: \<^verbatim>\<open>from_date\<close> and \<^verbatim>\<open>to_date\<close> of a time
  entry. An issue writes \<^verbatim>\<open>version_id\<close> as \<^verbatim>\<open>fixed_version_id\<close> before it reaches the method.
\<close>

theorem plain_write:
  assumes "\<not> structural attr"
    and "\<not> (attr \<in> set (create_readonly r) \<and> is_new r)"
    and "\<not> (attr \<in> set (update_readonly r) \<and> \<not> is_new r)"
    and "attr \<noteq> ''custom_fields''"
    and "decode cls attr val mgr = (a, v)"
  shows "Resource_setattr cls mgr r attr val =
     (case map_of SINGLE_ATTR_ID_MAP attr of
        Some m \<Rightarrow>
          (Inr (), r\<lparr>changes := AList.update a v (changes r),
                    decoded_attrs :=
                      AList.update m (id_stub v) (AList.update attr v (decoded_attrs r)),
                    encoded_attrs := AList.delete attr (encoded_attrs r)\<rparr>)
      | None \<Rightarrow>
          (case map_of MULTIPLE_ATTR_ID_MAP attr of
             Some m \<Rightarrow>
               (case py_iter v of
                  Inr ids \<Rightarrow>
                    (Inr (), r\<lparr>changes := AList.update a v (changes r),
                              decoded_attrs :=
                                AList.update m (PList (map id_stub ids))
                                  (AList.update attr v (decoded_attrs r)),
                              encoded_attrs := AList.delete attr (encoded_attrs r)\<rparr>)
                | Inl e \<Rightarrow>
                    (Inl e, r\<lparr>changes := AList.update a v (changes r),
                              decoded_attrs := AList.update attr v (decoded_attrs r)\<rparr>))
           | None \<Rightarrow>
               (Inr (), r\<lparr>changes := AList.update a v (changes r),
                         decoded_attrs := AList.update attr v (decoded_attrs r),
                         encoded_attrs := AList.delete attr (encoded_attrs r)\<rparr>)))
     \<and> (a = attr \<or> (cls = Issue \<and> attr = ''version_id'' \<and> a = ''fixed_version_id'')
          \<or> (cls = TimeEntry \<and> attr = ''from_date'' \<and> a = ''from'')
          \<or> (cls = TimeEntry \<and> attr = ''to_date'' \<and> a = ''to''))
     \<and> setattr Issue mgr r ''version_id'' val = Resource_setattr Issue mgr r ''fixed_version_id'' val"
proof -
  have key: "a = attr \<or> (cls = Issue \<and> attr = ''version_id'' \<and> a = ''fixed_version_id'')
          \<or> (cls = TimeEntry \<and> attr = ''from_date'' \<and> a = ''from'')
          \<or> (cls = TimeEntry \<and> attr = ''to_date'' \<and> a = ''to'')"
    using assms(5)
    by (cases cls) (auto simp: Resource_decode_def Let_def split: pyval.splits if_splits)
  have sp: "set_plain cls mgr r attr val =
     (case map_of SINGLE_ATTR_ID_MAP attr of
        Some m \<Rightarrow>
          (Inr (), r\<lparr>changes := AList.update a v (changes r),
                    decoded_attrs :=
                      AList.update m (id_stub v) (AList.update attr v (decoded_attrs r))\<rparr>)
      | None \<Rightarrow>
          (case map_of MULTIPLE_ATTR_ID_MAP attr of
             Some m \<Rightarrow>
               (case py_iter v of
                  Inr ids \<Rightarrow>
                    (Inr (), r\<lparr>changes := AList.update a v (changes r),
                              decoded_attrs :=
                                AList.update m (PList (map id_stub ids))
                                  (AList.update attr v (decoded_attrs r))\<rparr>)
                | Inl e \<Rightarrow>
                    (Inl e, r\<lparr>changes := AList.update a v (changes r),
                              decoded_attrs := AList.update attr v (decoded_attrs r)\<rparr>))
           | None \<Rightarrow>
               (Inr (), r\<lparr>changes := AList.update a v (changes r),
                         decoded_attrs := AList.update attr v (decoded_attrs r)\<rparr>)))"
    using assms(5) by (simp add: set_plain_def split: option.splits sum.splits)
  have main: "Resource_setattr cls mgr r attr val =
      (case set_plain cls mgr r attr val of
         (Inl e, r') \<Rightarrow> (Inl e, r')
       | (Inr u, r') \<Rightarrow> (Inr (), r'\<lparr>encoded_attrs := AList.delete attr (encoded_attrs r')\<rparr>))"
    using assms(1-4) by (auto simp: Resource_setattr_def)
  have eq: "Resource_setattr cls mgr r attr val =
     (case map_of SINGLE_ATTR_ID_MAP attr of
        Some m \<Rightarrow>
          (Inr (), r\<lparr>changes := AList.update a v (changes r),
                    decoded_attrs :=
                      AList.update m (id_stub v) (AList.update attr v (decoded_attrs r)),
                    encoded_attrs := AList.delete attr (encoded_attrs r)\<rparr>)
      | None \<Rightarrow>
          (case map_of MULTIPLE_ATTR_ID_MAP attr of
             Some m \<Rightarrow>
               (case py_iter v of
                  Inr ids \<Rightarrow>
                    (Inr (), r\<lparr>changes := AList.update a v (changes r),
                              decoded_attrs :=
                                AList.update m (PList (map id_stub ids))
                                  (AList.update attr v (decoded_attrs r)),
                              encoded_attrs := AList.delete attr (encoded_attrs r)\<rparr>)
                | Inl e \<Rightarrow>
                    (Inl e, r\<lparr>changes := AList.update a v (changes r),
                              decoded_attrs := AList.update attr v (decoded_attrs r)\<rparr>))
           | None \<Rightarrow>
               (Inr (), r\<lparr>changes := AList.update a v (changes r),
                         decoded_attrs := AList.update attr v (decoded_attrs r),
                         encoded_attrs := AList.delete attr (encoded_attrs r)\<rparr>)))"
    unfolding main sp by (simp split: option.splits sum.splits)
  have disp: "setattr Issue mgr r ''version_id'' val
      = Resource_setattr Issue mgr r ''fixed_version_id'' val"
    by (simp add: setattr_def)
  show ?thesis using eq key disp by blast
qed

theorem plain_write_witness:
  "Resource_setattr Issue (mgr0 Issue (PBool False) []) (Resource_init Issue []) ''project_id'' (PInt 5)
     = (Inr (), (Resource_init Issue [])
          \<lparr>changes := [(''project_id'', PInt 5)],
           decoded_attrs := AList.update ''project'' (id_stub (PInt 5))
             (AList.update ''project_id'' (PInt 5) (decoded_attrs (Resource_init Issue []))),
           encoded_attrs := []\<rparr>)
   \<and> setattr Issue (mgr0 Issue (PBool False) []) (Resource_init Issue []) ''version_id'' (PInt 5)
     = Resource_setattr Issue (mgr0 Issue (PBool False) []) (Resource_init Issue [])
         ''fixed_version_id'' (PInt 5)"
proof -
  have n: "is_new (Resource_init Issue [])"
    by (simp add: is_new_def Resource_init_sel dict_has_def dict_update_all_def fromkeys_def)
  have a1: "\<not> structural ''project_id''"
    by (simp add: structural_def Resource_members_def startswith_underscore_def)
  have a2: "\<not> (''project_id'' \<in> set (create_readonly (Resource_init Issue []))
      \<and> is_new (Resource_init Issue []))"
    by (simp add: Resource_init_sel Resource_create_readonly_def)
  have a3: "\<not> (''project_id'' \<in> set (update_readonly (Resource_init Issue []))
      \<and> \<not> is_new (Resource_init Issue []))"
    using n by simp
  have a4: "''project_id'' \<noteq> ''custom_fields''" by simp
  have a5: "decode Issue ''project_id'' (PInt 5) (mgr0 Issue (PBool False) [])
      = (''project_id'', PInt 5)"
    by (simp add: Resource_decode_def)
  show ?thesis
    using plain_write [OF a1 a2 a3 a4 a5]
    by (simp add: SINGLE_ATTR_ID_MAP_def Resource_init_sel)
qed

text \<open>
  C4 as stated fails: a time entry written with \<^verbatim>\<open>from_date\<close> has the value under \<^verbatim>\<open>from\<close>
  in the changes and under \<^verbatim>\<open>from_date\<close> in the decoded dictionary.
\<close>

theorem plain_write_same_key_counterexample:
  "fst (decode TimeEntry ''from_date'' (PStr ''2014-01-02'') (mgr0 TimeEntry (PBool False) []))
     = ''from''
   \<and> fst (setattr TimeEntry (mgr0 TimeEntry (PBool False) []) (Resource_init TimeEntry [])
        ''from_date'' (PStr ''2014-01-02'')) = Inr ()
   \<and> changes (snd (setattr TimeEntry (mgr0 TimeEntry (PBool False) []) (Resource_init TimeEntry [])
        ''from_date'' (PStr ''2014-01-02''))) = [(''from'', PStr ''2014-01-02'')]
   \<and> decoded_attrs (snd (setattr TimeEntry (mgr0 TimeEntry (PBool False) [])
        (Resource_init TimeEntry []) ''from_date'' (PStr ''2014-01-02'')))
       = [(''from_date'', PStr ''2014-01-02'')]"
  by (simp add: setattr_def Resource_setattr_def set_plain_def structural_def
      Resource_members_def startswith_underscore_def Resource_init_def Let_def is_new_def
      dict_has_def fromkeys_def dict_update_all_def Resource_decode_def
      Resource_create_readonly_def Resource_update_readonly_def SINGLE_ATTR_ID_MAP_def
      MULTIPLE_ATTR_ID_MAP_def)

section \<open>The custom field merge\<close>

lemma Resource_decode_wire: "Resource_decode attr v mgr = (attr, wire_value mgr v)"
  by (cases v) (simp_all add: Resource_decode_def)

lemma decode_item_wire: "decode_item cls mgr kv = wire_item cls mgr kv"
proof (cases "fst kv")
  case (PStr attr)
  then show ?thesis
    by (cases cls)
      (simp_all add: decode_item_def wire_item_def wire_name_def Resource_decode_wire Let_def)
qed (simp_all add: decode_item_def wire_item_def wire_name_def Resource_decode_wire)

lemma bulk_decode_wire: "bulk_decode cls kvs mgr = pydict_of (map (wire_item cls mgr) kvs)"
proof -
  have "decode_item cls mgr = wire_item cls mgr"
    by (rule ext) (rule decode_item_wire)
  then show ?thesis by (simp add: bulk_decode_def)
qed

lemma pydict_pop_filter:
  "distinct (map (\<lambda>kd. key_norm (fst kd)) new) \<Longrightarrow>
     pydict_pop new k = filter (\<lambda>kd. \<not> key_eq (fst kd) k) new"
proof (induction new)
  case Nil
  then show ?case by simp
next
  case (Cons a new)
  obtain k' v' where a: "a = (k', v')" by (cases a)
  show ?case
  proof (cases "key_eq k' k")
    case True
    have "\<forall>kd \<in> set new. \<not> key_eq (fst kd) k"
      using Cons.prems True a by (force simp: key_eq_def)
    then have "filter (\<lambda>kd. \<not> key_eq (fst kd) k) new = new"
      by (simp add: filter_id_conv)
    then show ?thesis using True a by simp
  next
    case False
    then show ?thesis using Cons a by simp
  qed
qed

lemma pydict_get_None: "(pydict_get new k = None) = (\<forall>kd \<in> set new. \<not> key_eq (fst kd) k)"
  by (induction new) (auto split: if_splits)

lemma pydict_get_kept:
  "\<forall>kd \<in> set new. key_eq (fst kd) k \<longrightarrow> P kd \<Longrightarrow>
     pydict_get (filter P new) k = pydict_get new k"
  by (induction new) auto

lemma distinct_keys_filter:
  "distinct (map (\<lambda>kd. key_norm (fst kd)) new) \<Longrightarrow>
     distinct (map (\<lambda>kd. key_norm (fst kd)) (filter P new))"
  by (simp add: distinct_map_filter)

lemma is_field_getitem: "is_field f \<Longrightarrow> py_getitem f ''id'' = Inr (field_id f)"
  by (cases f) (auto simp: field_id_def split: option.splits)

lemma not_field_getitem:
  "\<not> is_field f \<Longrightarrow> py_getitem f ''id'' = Inl KeyError \<or> py_getitem f ''id'' = Inl TypeError"
  by (cases f) (auto split: option.splits)

lemma list_ex_seen:
  "list_ex (key_eq a) seen = (\<exists>s \<in> set seen. key_norm a = key_norm s)"
  by (simp add: list_ex_iff key_eq_def)

lemma merge_fields_amended:
  assumes "list_all is_field stored"
    and "hashable_ids stored"
    and "distinct (map (\<lambda>kd. key_norm (fst kd)) new)"
  shows "merge_fields stored (filter (\<lambda>kd. \<not> list_ex (key_eq (fst kd)) seen) new) =
     (None, replace_stored seen stored new,
      filter (\<lambda>kd. \<not> list_ex (key_eq (fst kd)) seen
                  \<and> \<not> list_ex (\<lambda>f. key_eq (fst kd) (field_id f)) stored) new)"
  using assms(1,2)
proof (induction stored arbitrary: seen)
  case Nil
  then show ?case by simp
next
  case (Cons f fs)
  let ?k = "field_id f"
  let ?cur = "filter (\<lambda>kd. \<not> list_ex (key_eq (fst kd)) seen) new"
  let ?next = "filter (\<lambda>kd. \<not> list_ex (key_eq (fst kd)) (?k # seen)) new"
  have gi: "py_getitem f ''id'' = Inr ?k" using Cons.prems(1) by (simp add: is_field_getitem)
  have hk: "hashable ?k" using Cons.prems(2) by (simp add: hashable_ids_def)
  have fs1: "list_all is_field fs" "hashable_ids fs"
    using Cons.prems by (simp_all add: hashable_ids_def)
  have dc: "distinct (map (\<lambda>kd. key_norm (fst kd)) ?cur)"
    using assms(3) by (rule distinct_keys_filter)
  have nx: "?next = filter (\<lambda>kd. \<not> key_eq (fst kd) ?k) ?cur"
  proof -
    have "filter (\<lambda>kd. \<not> key_eq (fst kd) ?k) ?cur
        = filter (\<lambda>kd. \<not> list_ex (key_eq (fst kd)) seen \<and> \<not> key_eq (fst kd) ?k) new"
      by simp
    also have "\<dots> = ?next"
      by (intro filter_cong) auto
    finally show ?thesis by simp
  qed
  have ih: "merge_fields fs ?next =
     (None, replace_stored (?k # seen) fs new,
      filter (\<lambda>kd. \<not> list_ex (key_eq (fst kd)) (?k # seen)
                  \<and> \<not> list_ex (\<lambda>f. key_eq (fst kd) (field_id f)) fs) new)"
    using Cons.IH [OF fs1] .
  have fl: "filter (\<lambda>kd. \<not> list_ex (key_eq (fst kd)) (?k # seen)
                  \<and> \<not> list_ex (\<lambda>f. key_eq (fst kd) (field_id f)) fs) new
      = filter (\<lambda>kd. \<not> list_ex (key_eq (fst kd)) seen
                  \<and> \<not> list_ex (\<lambda>g. key_eq (fst kd) (field_id g)) (f # fs)) new"
    by (intro filter_cong) auto
  show ?case
  proof (cases "list_ex (key_eq ?k) seen")
    case True
    then obtain s where s: "s \<in> set seen" "key_norm ?k = key_norm s"
      by (auto simp: list_ex_seen)
    have "\<forall>kd \<in> set ?cur. \<not> key_eq (fst kd) ?k"
      using s by (auto simp: list_ex_seen key_eq_def)
    then have g: "pydict_get ?cur ?k = None" by (simp only: pydict_get_None)
    have "\<forall>kd \<in> set ?cur. \<not> key_eq (fst kd) ?k" using g by (simp only: pydict_get_None)
    then have same: "?next = ?cur" by (simp only: nx filter_id_conv)
    show ?thesis
      using True g gi hk ih fl same by simp
  next
    case False
    have kept: "pydict_get ?cur ?k = pydict_get new ?k"
    proof (rule pydict_get_kept, intro ballI impI)
      fix kd assume "kd \<in> set new" "key_eq (fst kd) ?k"
      then show "\<not> list_ex (key_eq (fst kd)) seen"
        using False by (auto simp: list_ex_seen key_eq_def)
    qed
    show ?thesis
    proof (cases "pydict_get new ?k")
      case None
      then have "\<forall>kd \<in> set ?cur. \<not> key_eq (fst kd) ?k"
        using kept by (simp only: pydict_get_None [symmetric])
      then have same: "?next = ?cur" by (simp only: nx filter_id_conv)
      show ?thesis
        using False None kept gi hk ih fl same by simp
    next
      case (Some d)
      have pop: "pydict_pop ?cur ?k = ?next"
        using pydict_pop_filter [OF dc, of ?k] nx by simp
      show ?thesis
        using False Some kept gi hk ih fl pop by simp
    qed
  qed
qed

lemma merge_fields_fails:
  "\<not> (list_all is_field stored \<and> hashable_ids stored) \<Longrightarrow>
     \<exists>e out new'. merge_fields stored new = (Some e, out, new') \<and> (e = KeyError \<or> e = TypeError)"
proof (induction stored arbitrary: new)
  case Nil
  then show ?case by (simp add: hashable_ids_def)
next
  case (Cons f fs)
  show ?case
  proof (cases "is_field f \<and> hashable (field_id f)")
    case True
    then have gi: "py_getitem f ''id'' = Inr (field_id f)" by (simp add: is_field_getitem)
    have bad: "\<not> (list_all is_field fs \<and> hashable_ids fs)"
      using Cons.prems True by (auto simp: hashable_ids_def)
    show ?thesis
    proof (cases "pydict_get new (field_id f)")
      case None
      from Cons.IH [OF bad, of new] obtain e out new' where
        "merge_fields fs new = (Some e, out, new')" "e = KeyError \<or> e = TypeError" by blast
      then show ?thesis using None gi True by simp
    next
      case (Some d)
      from Cons.IH [OF bad, of "pydict_pop new (field_id f)"] obtain e out new' where
        "merge_fields fs (pydict_pop new (field_id f)) = (Some e, out, new')"
        "e = KeyError \<or> e = TypeError" by blast
      then show ?thesis using Some gi True by simp
    qed
  next
    case False
    show ?thesis
    proof (cases "is_field f")
      case True
      then have "py_getitem f ''id'' = Inr (field_id f)" by (simp add: is_field_getitem)
      then show ?thesis using False True by simp
    next
      case nf: False
      from not_field_getitem [OF nf] show ?thesis by auto
    qed
  qed
qed

lemma pydict_set_keys:
  "x \<in> set (pydict_set d k v) \<Longrightarrow>
     key_norm (fst x) = key_norm k \<or> (\<exists>y \<in> set d. key_norm (fst y) = key_norm (fst x))"
  by (induction d) (auto simp: key_eq_def split: if_splits)

lemma distinct_pydict_set:
  "distinct (map (\<lambda>kd. key_norm (fst kd)) d) \<Longrightarrow>
     distinct (map (\<lambda>kd. key_norm (fst kd)) (pydict_set d k v))"
proof (induction d)
  case Nil
  then show ?case by simp
next
  case (Cons a d)
  obtain k' v' where a: "a = (k', v')" by (cases a)
  show ?case
  proof (cases "key_eq k' k")
    case True
    then show ?thesis using Cons.prems a by simp
  next
    case False
    have "key_norm k' \<notin> set (map (\<lambda>kd. key_norm (fst kd)) (pydict_set d k v))"
    proof
      assume "key_norm k' \<in> set (map (\<lambda>kd. key_norm (fst kd)) (pydict_set d k v))"
      then obtain x where x: "x \<in> set (pydict_set d k v)" "key_norm (fst x) = key_norm k'"
        by auto
      from pydict_set_keys [OF x(1)] x(2) False Cons.prems a show False
        by (force simp: key_eq_def)
    qed
    then show ?thesis using False Cons a by simp
  qed
qed

lemma incoming_fields_spec:
  assumes "list_all is_field fs" and "hashable_ids fs"
  shows "incoming_fields cls mgr fs new =
     Inr (foldl (\<lambda>d (k, v). pydict_set d k v) new
            (map (\<lambda>f. (field_id f, decoded_field cls mgr f)) fs))"
  using assms
proof (induction fs arbitrary: new)
  case Nil
  then show ?case by simp
next
  case (Cons f fs)
  then obtain kvs where f: "f = PDict kvs" by (cases f) auto
  have gi: "py_getitem f ''id'' = Inr (field_id f)"
    using Cons.prems(1) by (simp add: is_field_getitem)
  have hk: "hashable (field_id f)" "hashable_ids fs"
    using Cons.prems(2) by (simp_all add: hashable_ids_def)
  have "incoming_fields cls mgr (f # fs) new =
      incoming_fields cls mgr fs (pydict_set new (field_id f) (decoded_field cls mgr f))"
    using gi hk f by (simp add: decoded_field_def bulk_decode_wire)
  then show ?case
    using Cons.IH [of "pydict_set new (field_id f) (decoded_field cls mgr f)"] Cons.prems hk
    by simp
qed

lemma distinct_foldl_set:
  "distinct (map (\<lambda>kd. key_norm (fst kd)) d) \<Longrightarrow>
     distinct (map (\<lambda>kd. key_norm (fst kd)) (foldl (\<lambda>d (k, v). pydict_set d k v) d ps))"
  by (induction ps arbitrary: d) (auto simp: distinct_pydict_set)

lemma incoming_fields_invalid:
  "\<not> (list_all is_field fs \<and> hashable_ids fs) \<Longrightarrow>
     incoming_fields cls mgr fs new = Inl TypeError \<or> incoming_fields cls mgr fs new = Inl KeyError"
proof (induction fs arbitrary: new)
  case Nil
  then show ?case by (simp add: hashable_ids_def)
next
  case (Cons f fs)
  show ?case
  proof (cases "is_field f")
    case True
    then obtain kvs where f: "f = PDict kvs" by (cases f) auto
    have gi: "py_getitem f ''id'' = Inr (field_id f)" using True by (simp add: is_field_getitem)
    show ?thesis
    proof (cases "hashable (field_id f)")
      case hk: True
      have "\<not> (list_all is_field fs \<and> hashable_ids fs)"
        using Cons.prems True hk by (auto simp: hashable_ids_def)
      from Cons.IH [OF this] show ?thesis using gi f hk by simp
    next
      case False
      then show ?thesis using gi f by simp
    qed
  next
    case False
    from not_field_getitem [OF False] show ?thesis by (auto split: pyval.splits)
  qed
qed

lemma custom_fields_permitted:
  assumes "constructed cls r"
  shows "setattr cls mgr r ''custom_fields'' val =
     (case set_custom_fields cls mgr r val of
        (Inl e, r') \<Rightarrow> (Inl e, r')
      | (Inr u, r') \<Rightarrow>
          (Inr (), r'\<lparr>encoded_attrs := AList.delete ''custom_fields'' (encoded_attrs r')\<rparr>))"
proof -
  have "''custom_fields'' \<notin> set (create_readonly r)" "''custom_fields'' \<notin> set (update_readonly r)"
    using assms renamed_not_relation(2) [of cls]
    by (cases cls; simp add: constructed_def Resource_create_readonly_def
          Resource_update_readonly_def)+
  then show ?thesis
    by (simp add: setattr_def Resource_setattr_def structural_def Resource_members_def
        startswith_underscore_def)
qed

lemma new_custom_fields_valid:
  assumes "valid_fields val" and "hashable_ids (fields_of val)"
  shows "new_custom_fields cls mgr val = Inr (incoming_spec cls mgr (fields_of val))"
    and "distinct (map (\<lambda>kd. key_norm (fst kd)) (incoming_spec cls mgr (fields_of val)))"
proof -
  obtain fs where fs: "py_iter val = Inr fs" "list_all is_field fs"
    using assms(1) by (auto simp: valid_fields_def split: sum.splits)
  then have f: "fields_of val = fs" by (simp add: fields_of_def)
  show "new_custom_fields cls mgr val = Inr (incoming_spec cls mgr (fields_of val))"
    using fs f assms(2) incoming_fields_spec [of fs cls mgr "[]"]
    by (simp add: new_custom_fields_def incoming_spec_def pydict_of_def)
  show "distinct (map (\<lambda>kd. key_norm (fst kd)) (incoming_spec cls mgr (fields_of val)))"
    unfolding incoming_spec_def pydict_of_def by (rule distinct_foldl_set) simp
qed

lemma stored_fields_get:
  assumes "stored_fields r = PList stored"
  shows "dict_get (decoded_attrs (if dict_has (decoded_attrs r) ''custom_fields'' then r
            else r\<lparr>decoded_attrs := AList.update ''custom_fields'' (PList []) (decoded_attrs r)\<rparr>))
           ''custom_fields'' = PList stored"
proof (cases "dict_has (decoded_attrs r) ''custom_fields''")
  case True
  then show ?thesis
    using assms by (auto simp: dict_has_def dict_get_def stored_fields_def)
next
  case False
  then have "stored = []"
    using assms by (auto simp: dict_has_def stored_fields_def)
  then show ?thesis
    using False by (simp add: dict_get_def update_conv')
qed

text \<open>
  C5, amended. On an instance as \<^verbatim>\<open>__init__\<close> builds it the write to \<^verbatim>\<open>custom_fields\<close> is
  always permitted. A value that is not an iterable of mappings with an \<^verbatim>\<open>id\<close> key, or
  with an id that is not hashable, raises CustomFieldValueError and leaves the instance
  as it was. Otherwise each incoming field is decoded (dates and date-times formatted,
  names renamed by the alias of the class), and of several incoming fields with one id
  the last counts. When the stored custom fields (none, or a list) are mappings with
  hashable ids, the stored fields are scanned in order, the first stored field of each
  id that matches an incoming field is replaced in place by the decoded incoming field,
  a later stored field with the same id stays, the incoming fields that match no stored
  field are appended, and the merged list is stored in the decoded dictionary and in the
  changes; the cache entry is dropped. When the stored list holds an element that is no
  mapping with a hashable id, the write fails with a KeyError or a TypeError and records
  nothing in the changes.
\<close>

theorem custom_fields_merge:
  assumes "constructed cls r"
  shows "(\<not> (valid_fields val \<and> hashable_ids (fields_of val)) \<longrightarrow>
            setattr cls mgr r ''custom_fields'' val = (Inl CustomFieldValueError, r))
     \<and> (valid_fields val \<and> hashable_ids (fields_of val)
          \<and> stored_fields r = PList stored \<and> list_all is_field stored \<and> hashable_ids stored
        \<longrightarrow>
          setattr cls mgr r ''custom_fields'' val =
            (Inr (),
             r\<lparr>decoded_attrs :=
                 AList.update ''custom_fields''
                   (PList (merge_amended stored (incoming_spec cls mgr (fields_of val))))
                   (decoded_attrs r),
               changes :=
                 AList.update ''custom_fields''
                   (PList (merge_amended stored (incoming_spec cls mgr (fields_of val))))
                   (changes r),
               encoded_attrs := AList.delete ''custom_fields'' (encoded_attrs r)\<rparr>))
     \<and> (valid_fields val \<and> hashable_ids (fields_of val)
          \<and> stored_fields r = PList stored \<and> \<not> (list_all is_field stored \<and> hashable_ids stored)
        \<longrightarrow>
          (fst (setattr cls mgr r ''custom_fields'' val) = Inl KeyError
           \<or> fst (setattr cls mgr r ''custom_fields'' val) = Inl TypeError)
          \<and> changes (snd (setattr cls mgr r ''custom_fields'' val)) = changes r)"
proof (intro conjI impI)
  assume inv: "\<not> (valid_fields val \<and> hashable_ids (fields_of val))"
  have "new_custom_fields cls mgr val = Inl TypeError
      \<or> new_custom_fields cls mgr val = Inl KeyError"
  proof (cases "py_iter val")
    case (Inl e)
    then have "e = TypeError" by (cases val) auto
    then show ?thesis using Inl by (simp add: new_custom_fields_def)
  next
    case (Inr fs)
    then have "\<not> (list_all is_field fs \<and> hashable_ids fs)"
      using inv by (simp add: valid_fields_def fields_of_def)
    from incoming_fields_invalid [OF this, of cls mgr "[]"] show ?thesis
      using Inr by (simp add: new_custom_fields_def)
  qed
  then have "set_custom_fields cls mgr r val = (Inl CustomFieldValueError, r)"
    by (auto simp: set_custom_fields_def)
  then show "setattr cls mgr r ''custom_fields'' val = (Inl CustomFieldValueError, r)"
    by (simp add: custom_fields_permitted [OF assms])
next
  assume h: "valid_fields val \<and> hashable_ids (fields_of val)
          \<and> stored_fields r = PList stored \<and> list_all is_field stored \<and> hashable_ids stored"
  let ?new = "incoming_spec cls mgr (fields_of val)"
  let ?merged = "PList (merge_amended stored ?new)"
  have new: "new_custom_fields cls mgr val = Inr ?new"
    using h by (simp add: new_custom_fields_valid(1))
  have dn: "distinct (map (\<lambda>kd. key_norm (fst kd)) ?new)"
    using h by (simp add: new_custom_fields_valid(2))
  have "merge_fields stored (filter (\<lambda>kd. \<not> list_ex (key_eq (fst kd)) []) ?new) =
     (None, replace_stored [] stored ?new,
      filter (\<lambda>kd. \<not> list_ex (key_eq (fst kd)) []
                  \<and> \<not> list_ex (\<lambda>f. key_eq (fst kd) (field_id f)) stored) ?new)"
    using h dn by (intro merge_fields_amended) simp_all
  then have mf: "merge_fields stored ?new =
     (None, replace_stored [] stored ?new,
      filter (\<lambda>kd. \<not> list_ex (\<lambda>f. key_eq (fst kd) (field_id f)) stored) ?new)"
    by simp
  have get: "dict_get (decoded_attrs (if dict_has (decoded_attrs r) ''custom_fields'' then r
            else r\<lparr>decoded_attrs := AList.update ''custom_fields'' (PList []) (decoded_attrs r)\<rparr>))
           ''custom_fields'' = PList stored"
    using h by (simp add: stored_fields_get)
  have sc: "set_custom_fields cls mgr r val =
      (Inr (), r\<lparr>decoded_attrs := AList.update ''custom_fields'' ?merged (decoded_attrs r),
                 changes := AList.update ''custom_fields'' ?merged (changes r)\<rparr>)"
  proof (cases "dict_has (decoded_attrs r) ''custom_fields''")
    case True
    then show ?thesis
      using new mf get by (simp add: set_custom_fields_def merge_amended_def Let_def)
  next
    case False
    then show ?thesis
      using new mf get by (simp add: set_custom_fields_def merge_amended_def Let_def)
  qed
  show "setattr cls mgr r ''custom_fields'' val =
            (Inr (),
             r\<lparr>decoded_attrs := AList.update ''custom_fields'' ?merged (decoded_attrs r),
               changes := AList.update ''custom_fields'' ?merged (changes r),
               encoded_attrs := AList.delete ''custom_fields'' (encoded_attrs r)\<rparr>)"
    by (simp add: custom_fields_permitted [OF assms] sc)
next
  assume h: "valid_fields val \<and> hashable_ids (fields_of val)
          \<and> stored_fields r = PList stored \<and> \<not> (list_all is_field stored \<and> hashable_ids stored)"
  let ?new = "incoming_spec cls mgr (fields_of val)"
  have new: "new_custom_fields cls mgr val = Inr ?new"
    using h by (simp add: new_custom_fields_valid(1))
  obtain e out new' where mf: "merge_fields stored ?new = (Some e, out, new')"
    and e: "e = KeyError \<or> e = TypeError"
    using merge_fields_fails [of stored ?new] h by blast
  have get: "dict_get (decoded_attrs (if dict_has (decoded_attrs r) ''custom_fields'' then r
            else r\<lparr>decoded_attrs := AList.update ''custom_fields'' (PList []) (decoded_attrs r)\<rparr>))
           ''custom_fields'' = PList stored"
    using h by (simp add: stored_fields_get)
  have "\<exists>r'. set_custom_fields cls mgr r val = (Inl e, r') \<and> changes r' = changes r"
  proof (cases "dict_has (decoded_attrs r) ''custom_fields''")
    case True
    then show ?thesis
      using new mf get by (simp add: set_custom_fields_def Let_def)
  next
    case False
    then show ?thesis
      using new mf get by (simp add: set_custom_fields_def Let_def)
  qed
  then obtain r' where sc: "set_custom_fields cls mgr r val = (Inl e, r')"
    and ch: "changes r' = changes r" by blast
  have sa: "setattr cls mgr r ''custom_fields'' val = (Inl e, r')"
    by (simp add: custom_fields_permitted [OF assms] sc)
  show "fst (setattr cls mgr r ''custom_fields'' val) = Inl KeyError
      \<or> fst (setattr cls mgr r ''custom_fields'' val) = Inl TypeError"
    using sa e by auto
  show "changes (snd (setattr cls mgr r ''custom_fields'' val)) = changes r"
    using sa ch by simp
qed

theorem custom_fields_merge_witness:
  "setattr Issue (mgr0 Issue (PBool False) [])
     (Resource_init Issue
        [(''id'', PInt 7),
         (''custom_fields'',
            PList [PDict [(PStr ''id'', PInt 1), (PStr ''value'', PStr ''a'')],
                   PDict [(PStr ''id'', PInt 2), (PStr ''value'', PStr ''b'')]])])
     ''custom_fields''
     (PList [PDict [(PStr ''id'', PInt 2), (PStr ''value'', PStr ''c'')],
             PDict [(PStr ''id'', PInt 3), (PStr ''value'', PStr ''d'')]])
   = (Inr (),
      (Resource_init Issue
        [(''id'', PInt 7),
         (''custom_fields'',
            PList [PDict [(PStr ''id'', PInt 1), (PStr ''value'', PStr ''a'')],
                   PDict [(PStr ''id'', PInt 2), (PStr ''value'', PStr ''c'')],
                   PDict [(PStr ''id'', PInt 3), (PStr ''value'', PStr ''d'')]])])
      \<lparr>changes :=
         [(''custom_fields'',
            PList [PDict [(PStr ''id'', PInt 1), (PStr ''value'', PStr ''a'')],
                   PDict [(PStr ''id'', PInt 2), (PStr ''value'', PStr ''c'')],
                   PDict [(PStr ''id'', PInt 3), (PStr ''value'', PStr ''d'')]])]\<rparr>)
   \<and> setattr Issue (mgr0 Issue (PBool False) []) (Resource_init Issue [(''id'', PInt 7)])
       ''custom_fields''
       (PList [PDict [(PStr ''id'', PInt 4), (PStr ''value'', PDate (Date 2014 1 2))]])
     = (Inr (),
        (Resource_init Issue
          [(''id'', PInt 7),
           (''custom_fields'',
              PList [PDict [(PStr ''id'', PInt 4), (PStr ''value'', PStr ''2014-01-02'')]])])
        \<lparr>changes :=
           [(''custom_fields'',
              PList [PDict [(PStr ''id'', PInt 4), (PStr ''value'', PStr ''2014-01-02'')]])]\<rparr>)
   \<and> setattr Issue (mgr0 Issue (PBool False) []) (Resource_init Issue [(''id'', PInt 7)])
       ''custom_fields'' (PList [PDict [(PStr ''value'', PStr ''c'')]])
     = (Inl CustomFieldValueError, Resource_init Issue [(''id'', PInt 7)])
   \<and> fst (setattr Issue (mgr0 Issue (PBool False) [])
       (Resource_init Issue
          [(''id'', PInt 7), (''custom_fields'', PList [PDict [(PStr ''value'', PStr ''a'')]])])
       ''custom_fields'' (PList [PDict [(PStr ''id'', PInt 2), (PStr ''value'', PStr ''c'')]]))
     = Inl KeyError
   \<and> changes (snd (setattr Issue (mgr0 Issue (PBool False) [])
       (Resource_init Issue
          [(''id'', PInt 7), (''custom_fields'', PList [PDict [(PStr ''value'', PStr ''a'')]])])
       ''custom_fields'' (PList [PDict [(PStr ''id'', PInt 2), (PStr ''value'', PStr ''c'')]])))
     = []"
proof -
  let ?f1 = "PDict [(PStr ''id'', PInt 1), (PStr ''value'', PStr ''a'')]"
  let ?f2 = "PDict [(PStr ''id'', PInt 2), (PStr ''value'', PStr ''b'')]"
  let ?g2 = "PDict [(PStr ''id'', PInt 2), (PStr ''value'', PStr ''c'')]"
  let ?g3 = "PDict [(PStr ''id'', PInt 3), (PStr ''value'', PStr ''d'')]"
  let ?g4 = "PDict [(PStr ''id'', PInt 4), (PStr ''value'', PDate (Date 2014 1 2))]"
  let ?d4 = "PDict [(PStr ''id'', PInt 4), (PStr ''value'', PStr ''2014-01-02'')]"
  let ?bad = "PDict [(PStr ''value'', PStr ''a'')]"
  let ?m = "mgr0 Issue (PBool False) []"
  let ?r = "Resource_init Issue [(''id'', PInt 7), (''custom_fields'', PList [?f1, ?f2])]"
  let ?r7 = "Resource_init Issue [(''id'', PInt 7)]"
  let ?rb = "Resource_init Issue [(''id'', PInt 7), (''custom_fields'', PList [?bad])]"
  note sp = field_id_def key_eq_def valid_fields_def fields_of_def hashable_ids_def
    stored_fields_def Resource_init_sel fromkeys_def dict_update_all_def
  have inc: "incoming_spec Issue ?m [?g2, ?g3] = [(PInt 2, ?g2), (PInt 3, ?g3)]"
    by (simp add: incoming_spec_def pydict_of_def decoded_field_def wire_item_def wire_name_def
        field_id_def key_eq_def)
  have inc4: "incoming_spec Issue ?m [?g4] = [(PInt 4, ?d4)]"
    by (simp add: incoming_spec_def pydict_of_def decoded_field_def wire_item_def wire_name_def
        field_id_def key_eq_def mgr0_def lib0_def)
  have mer: "merge_amended [?f1, ?f2] [(PInt 2, ?g2), (PInt 3, ?g3)] = [?f1, ?g2, ?g3]"
    by (simp add: merge_amended_def field_id_def key_eq_def)
  have mer4: "merge_amended [] [(PInt 4, ?d4)] = [?d4]"
    by (simp add: merge_amended_def)
  have h1: "valid_fields (PList [?g2, ?g3]) \<and> hashable_ids (fields_of (PList [?g2, ?g3]))
      \<and> stored_fields ?r = PList [?f1, ?f2] \<and> list_all is_field [?f1, ?f2]
      \<and> hashable_ids [?f1, ?f2]"
    by (simp add: sp)
  have h2: "valid_fields (PList [?g4]) \<and> hashable_ids (fields_of (PList [?g4]))
      \<and> stored_fields ?r7 = PList [] \<and> list_all is_field [] \<and> hashable_ids []"
    by (simp add: sp)
  have h3: "\<not> (valid_fields (PList [PDict [(PStr ''value'', PStr ''c'')]])
      \<and> hashable_ids (fields_of (PList [PDict [(PStr ''value'', PStr ''c'')]])))"
    by (simp add: sp)
  have h4: "valid_fields (PList [?g2]) \<and> hashable_ids (fields_of (PList [?g2]))
      \<and> stored_fields ?rb = PList [?bad] \<and> \<not> (list_all is_field [?bad] \<and> hashable_ids [?bad])"
    by (simp add: sp)
  note t1 = custom_fields_merge [where cls = Issue and r = ?r and mgr = ?m
      and val = "PList [?g2, ?g3]" and stored = "[?f1, ?f2]", OF constructed_init]
  note t2 = custom_fields_merge [where cls = Issue and r = ?r7 and mgr = ?m
      and val = "PList [?g4]" and stored = "[]", OF constructed_init]
  note t3 = custom_fields_merge [where cls = Issue and r = ?r7 and mgr = ?m
      and val = "PList [PDict [(PStr ''value'', PStr ''c'')]]", OF constructed_init]
  note t4 = custom_fields_merge [where cls = Issue and r = ?rb and mgr = ?m
      and val = "PList [?g2]" and stored = "[?bad]", OF constructed_init]
  note r1 = t1 [THEN conjunct2, THEN conjunct1, THEN mp, OF h1]
  note r2 = t2 [THEN conjunct2, THEN conjunct1, THEN mp, OF h2]
  note r3 = t3 [THEN conjunct1, THEN mp, OF h3]
  note r4 = t4 [THEN conjunct2, THEN conjunct2, THEN mp, OF h4]
  have f1: "fields_of (PList [?g2, ?g3]) = [?g2, ?g3]" "fields_of (PList [?g4]) = [?g4]"
    by (simp_all add: fields_of_def)
  have e1: "?r\<lparr>decoded_attrs :=
                 AList.update ''custom_fields'' (PList [?f1, ?g2, ?g3]) (decoded_attrs ?r),
               changes := AList.update ''custom_fields'' (PList [?f1, ?g2, ?g3]) (changes ?r),
               encoded_attrs := AList.delete ''custom_fields'' (encoded_attrs ?r)\<rparr>
      = (Resource_init Issue [(''id'', PInt 7), (''custom_fields'', PList [?f1, ?g2, ?g3])])
          \<lparr>changes := [(''custom_fields'', PList [?f1, ?g2, ?g3])]\<rparr>"
    by (simp add: Resource_init_def Let_def fromkeys_def dict_update_all_def)
  have e2: "?r7\<lparr>decoded_attrs :=
                 AList.update ''custom_fields'' (PList [?d4]) (decoded_attrs ?r7),
               changes := AList.update ''custom_fields'' (PList [?d4]) (changes ?r7),
               encoded_attrs := AList.delete ''custom_fields'' (encoded_attrs ?r7)\<rparr>
      = (Resource_init Issue [(''id'', PInt 7), (''custom_fields'', PList [?d4])])
          \<lparr>changes := [(''custom_fields'', PList [?d4])]\<rparr>"
    by (simp add: Resource_init_def Let_def fromkeys_def dict_update_all_def)
  have c1: "setattr Issue ?m ?r ''custom_fields'' (PList [?g2, ?g3])
      = (Inr (), (Resource_init Issue
            [(''id'', PInt 7), (''custom_fields'', PList [?f1, ?g2, ?g3])])
          \<lparr>changes := [(''custom_fields'', PList [?f1, ?g2, ?g3])]\<rparr>)"
    using r1 by (simp only: f1 inc mer e1)
  have c2: "setattr Issue ?m ?r7 ''custom_fields'' (PList [?g4])
      = (Inr (), (Resource_init Issue [(''id'', PInt 7), (''custom_fields'', PList [?d4])])
          \<lparr>changes := [(''custom_fields'', PList [?d4])]\<rparr>)"
    using r2 by (simp only: f1 inc4 mer4 e2)
  have k4: "fst (setattr Issue ?m ?rb ''custom_fields'' (PList [?g2])) \<noteq> Inl TypeError"
    by (simp add: setattr_def Resource_setattr_def set_custom_fields_def new_custom_fields_def
        structural_def Resource_members_def startswith_underscore_def Resource_init_def Let_def
        is_new_def dict_has_def dict_get_def fromkeys_def dict_update_all_def bulk_decode_def
        decode_item_def Resource_decode_def pydict_of_def key_eq_def
        Resource_create_readonly_def Resource_update_readonly_def)
  have c4: "fst (setattr Issue ?m ?rb ''custom_fields'' (PList [?g2])) = Inl KeyError"
    using r4 k4 by blast
  have c5: "changes (snd (setattr Issue ?m ?rb ''custom_fields'' (PList [?g2]))) = []"
    using r4 by (simp add: Resource_init_sel)
  show ?thesis
    using c1 c2 r3 c4 c5 by (intro conjI)
qed

text \<open>
  C5 as stated fails. Of two stored fields with the id 1 only the first is replaced by
  the incoming field with the id 1, where the rule of the specification replaces both. An
  incoming field whose id is a list is a mapping with an \<^verbatim>\<open>id\<close> key, and the write fails
  with CustomFieldValueError. Of two incoming fields with the id 3 only the last is
  appended. A stored field whose id is a list makes the write fail with a TypeError, and
  nothing is recorded in the changes.
\<close>

theorem custom_fields_duplicate_counterexample:
  "setattr Issue (mgr0 Issue (PBool False) [])
     (Resource_init Issue
        [(''id'', PInt 7),
         (''custom_fields'',
            PList [PDict [(PStr ''id'', PInt 1), (PStr ''value'', PStr ''a'')],
                   PDict [(PStr ''id'', PInt 1), (PStr ''value'', PStr ''b'')]])])
     ''custom_fields''
     (PList [PDict [(PStr ''id'', PInt 1), (PStr ''value'', PStr ''c'')]])
   = (Inr (),
      (Resource_init Issue
        [(''id'', PInt 7),
         (''custom_fields'',
            PList [PDict [(PStr ''id'', PInt 1), (PStr ''value'', PStr ''c'')],
                   PDict [(PStr ''id'', PInt 1), (PStr ''value'', PStr ''b'')]])])
      \<lparr>changes :=
         [(''custom_fields'',
            PList [PDict [(PStr ''id'', PInt 1), (PStr ''value'', PStr ''c'')],
                   PDict [(PStr ''id'', PInt 1), (PStr ''value'', PStr ''b'')]])]\<rparr>)
   \<and> merge_spec
       [PDict [(PStr ''id'', PInt 1), (PStr ''value'', PStr ''a'')],
        PDict [(PStr ''id'', PInt 1), (PStr ''value'', PStr ''b'')]]
       (incoming_spec Issue (mgr0 Issue (PBool False) [])
          [PDict [(PStr ''id'', PInt 1), (PStr ''value'', PStr ''c'')]])
     = [PDict [(PStr ''id'', PInt 1), (PStr ''value'', PStr ''c'')],
        PDict [(PStr ''id'', PInt 1), (PStr ''value'', PStr ''c'')]]
   \<and> valid_fields (PList [PDict [(PStr ''id'', PList [PInt 1]), (PStr ''value'', PStr ''c'')]])
   \<and> setattr Issue (mgr0 Issue (PBool False) []) (Resource_init Issue [(''id'', PInt 7)])
       ''custom_fields''
       (PList [PDict [(PStr ''id'', PList [PInt 1]), (PStr ''value'', PStr ''c'')]])
     = (Inl CustomFieldValueError, Resource_init Issue [(''id'', PInt 7)])
   \<and> setattr Issue (mgr0 Issue (PBool False) []) (Resource_init Issue [(''id'', PInt 7)])
       ''custom_fields''
       (PList [PDict [(PStr ''id'', PInt 3), (PStr ''value'', PStr ''x'')],
               PDict [(PStr ''id'', PInt 3), (PStr ''value'', PStr ''y'')]])
     = (Inr (),
        (Resource_init Issue
          [(''id'', PInt 7),
           (''custom_fields'',
              PList [PDict [(PStr ''id'', PInt 3), (PStr ''value'', PStr ''y'')]])])
        \<lparr>changes :=
           [(''custom_fields'',
              PList [PDict [(PStr ''id'', PInt 3), (PStr ''value'', PStr ''y'')]])]\<rparr>)
   \<and> setattr Issue (mgr0 Issue (PBool False) [])
       (Resource_init Issue
          [(''id'', PInt 7),
           (''custom_fields'', PList [PDict [(PStr ''id'', PList [PInt 1])]])])
       ''custom_fields'' (PList [PDict [(PStr ''id'', PInt 1), (PStr ''value'', PStr ''c'')]])
     = (Inl TypeError,
        Resource_init Issue
          [(''id'', PInt 7),
           (''custom_fields'', PList [PDict [(PStr ''id'', PList [PInt 1])]])])"
  by (simp add: setattr_def Resource_setattr_def set_custom_fields_def new_custom_fields_def
      structural_def Resource_members_def startswith_underscore_def Resource_init_def Let_def
      is_new_def dict_has_def dict_get_def fromkeys_def dict_update_all_def bulk_decode_def
      decode_item_def Resource_decode_def pydict_of_def key_eq_def valid_fields_def
      merge_spec_def incoming_spec_def decoded_field_def wire_item_def wire_name_def
      field_id_def Resource_create_readonly_def Resource_update_readonly_def update_conv')

section \<open>Reading changes the cache only\<close>

lemma cache_only_refl [simp]: "cache_only r r"
  by (simp add: cache_only_def)

lemma cache_only_update [simp]: "cache_only r (r\<lparr>encoded_attrs := e\<rparr>)"
  by (simp add: cache_only_def)

lemma cache_only_trans: "cache_only r r1 \<Longrightarrow> cache_only r1 r2 \<Longrightarrow> cache_only r r2"
  by (metis (no_types, lifting) cache_only_def resource.surjective resource.update_convs(2))

lemma cache_only_fields:
  assumes "cache_only r r'"
  shows "decoded_attrs r' = decoded_attrs r" "changes r' = changes r"
    "create_readonly r' = create_readonly r" "update_readonly r' = update_readonly r"
    "relations_name r' = relations_name r" "members r' = members r" "is_new r' = is_new r"
proof -
  have e: "r' = r\<lparr>encoded_attrs := encoded_attrs r'\<rparr>" using assms by (simp add: cache_only_def)
  show "decoded_attrs r' = decoded_attrs r" by (subst e) simp
  then show "is_new r' = is_new r" by (simp add: is_new_def)
  show "changes r' = changes r" by (subst e) simp
  show "create_readonly r' = create_readonly r" by (subst e) simp
  show "update_readonly r' = update_readonly r" by (subst e) simp
  show "relations_name r' = relations_name r" by (subst e) simp
  show "members r' = members r" by (subst e) simp
qed

lemma getattr_finish_cache_only:
  "getattr_finish cls mgr (x, r, log) = (res, r', log') \<Longrightarrow> cache_only r r'"
  by (auto simp: getattr_finish_def split: sum.splits prod.splits if_splits)

lemma relation_filter_state:
  "relation_filter mgr attr r log ident = (x, r', log') \<Longrightarrow> r' = r"
  by (auto simp: relation_filter_def Let_def split: option.splits sum.splits)

lemma getattr_cache_only:
  "Resource_getattr k cls mgr (r, log) attr = (res, r', log') \<Longrightarrow> cache_only r r'"
proof (induction k arbitrary: r log attr res r' log')
  case 0
  then show ?case by simp
next
  case (Suc k)
  let ?idr = "Resource_getattr k cls mgr (r, log) (internal_id_attr cls)"
  obtain ires r1 log1 where idr: "?idr = (ires, r1, log1)" by (cases ?idr)
  have c1: "cache_only r r1" using Suc.IH [OF idr] .
  consider (u) "startswith_underscore attr"
    | (e) "\<not> startswith_underscore attr" "dict_get (encoded_attrs r) attr \<noteq> PNone"
    | (d) "\<not> startswith_underscore attr" "dict_get (encoded_attrs r) attr = PNone"
          "dict_get (decoded_attrs r) attr \<noteq> PNone"
    | (rel) "\<not> startswith_underscore attr" "dict_get (encoded_attrs r) attr = PNone"
          "dict_get (decoded_attrs r) attr = PNone" "attr \<in> set (class_relations cls)"
    | (inc) "\<not> startswith_underscore attr" "dict_get (encoded_attrs r) attr = PNone"
          "dict_get (decoded_attrs r) attr = PNone" "attr \<notin> set (class_relations cls)"
          "attr \<in> set (class_includes cls)"
    | (none) "\<not> startswith_underscore attr" "dict_get (encoded_attrs r) attr = PNone"
          "dict_get (decoded_attrs r) attr = PNone" "attr \<notin> set (class_relations cls)"
          "attr \<notin> set (class_includes cls)"
    by blast
  then show ?case
  proof cases
    case u
    then show ?thesis using Suc.prems by simp
  next
    case e
    then show ?thesis using Suc.prems by simp
  next
    case d
    then show ?thesis using Suc.prems by (auto dest: getattr_finish_cache_only)
  next
    case rel
    show ?thesis
    proof (cases ires)
      case (Inl err)
      then show ?thesis using Suc.prems rel idr c1 by simp
    next
      case (Inr ident)
      obtain x rf logf where rf: "relation_filter mgr attr r1 log1 ident = (x, rf, logf)"
        by (cases "relation_filter mgr attr r1 log1 ident")
      then have "rf = r1" by (rule relation_filter_state)
      then have "cache_only r1 r'"
        using Suc.prems rel idr Inr rf by (auto dest: getattr_finish_cache_only)
      then show ?thesis using c1 by (rule cache_only_trans [rotated])
    qed
  next
    case inc
    show ?thesis
    proof (cases ires)
      case (Inl err)
      then show ?thesis using Suc.prems inc idr c1 by simp
    next
      case (Inr ident)
      have "cache_only r1 r'"
        using Suc.prems inc idr Inr
        by (auto split: prod.splits sum.splits dest: getattr_finish_cache_only)
      then show ?thesis using c1 by (rule cache_only_trans [rotated])
    qed
  next
    case none
    then show ?thesis using Suc.prems by (auto dest: getattr_finish_cache_only)
  qed
qed

section \<open>Saving: properties\<close>

lemma internal_id_cache_only:
  "internal_id k cls mgr (r, log) = (res, r', log') \<Longrightarrow> cache_only r r'"
  unfolding internal_id_def by (rule getattr_cache_only)

text \<open>
  C6. On a saved instance \<open>save\<close> reads the identity, sends exactly the changes to the
  update of the manager under that identity, stamps \<^verbatim>\<open>updated_on\<close> with the formatted
  clock, runs the post-update hook (the identity for every class but the wiki page),
  empties the changes and returns \<^verbatim>\<open>True\<close>. On a new instance it sends the changes to
  the create of the manager, takes the decoded dictionary of the created instance,
  empties the changes and returns \<^verbatim>\<open>True\<close>. When the update raises, the changes and the
  decoded dictionary are as before; when the create raises, the instance is as before.
  The hooks before the call, and the one after a create, are empty in every class.
\<close>

theorem save_spec:
  "(\<not> is_new r \<and> internal_id k cls mgr (r, log) = (Inr ident, r1, log1)
      \<and> mgr_update mgr log1 ident (changes r) = Inr ack
      \<and> post_update cls (stamp_updated_on mgr (log1 @ [UpdateCall ident (changes r)]) r1) = Inr r2
     \<longrightarrow> save k cls mgr (r, log) =
           (Inr (PBool True), r2\<lparr>changes := []\<rparr>, log1 @ [UpdateCall ident (changes r)])
         \<and> (cls \<noteq> WikiPage \<longrightarrow>
              r2 = stamp_updated_on mgr (log1 @ [UpdateCall ident (changes r)]) r1))
   \<and> (\<not> is_new r \<and> internal_id k cls mgr (r, log) = (Inr ident, r1, log1)
      \<and> mgr_update mgr log1 ident (changes r) = Inl e
     \<longrightarrow> save k cls mgr (r, log) = (Inl e, r1, log1 @ [UpdateCall ident (changes r)])
         \<and> changes r1 = changes r \<and> decoded_attrs r1 = decoded_attrs r)
   \<and> (is_new r \<and> mgr_create mgr log (changes r) = Inr created
     \<longrightarrow> save k cls mgr (r, log) =
           (Inr (PBool True), r\<lparr>decoded_attrs := decoded_attrs created, changes := []\<rparr>,
            log @ [CreateCall (changes r)]))
   \<and> (is_new r \<and> mgr_create mgr log (changes r) = Inl e
     \<longrightarrow> save k cls mgr (r, log) = (Inl e, r, log @ [CreateCall (changes r)]))"
proof (intro conjI impI)
  assume h: "\<not> is_new r \<and> internal_id k cls mgr (r, log) = (Inr ident, r1, log1)
      \<and> mgr_update mgr log1 ident (changes r) = Inr ack
      \<and> post_update cls (stamp_updated_on mgr (log1 @ [UpdateCall ident (changes r)]) r1) = Inr r2"
  then have c: "changes r1 = changes r"
    using internal_id_cache_only cache_only_fields(2) by blast
  show "save k cls mgr (r, log) =
           (Inr (PBool True), r2\<lparr>changes := []\<rparr>, log1 @ [UpdateCall ident (changes r)])"
    using h c by (simp add: save_def Let_def)
  show "cls \<noteq> WikiPage \<Longrightarrow>
      r2 = stamp_updated_on mgr (log1 @ [UpdateCall ident (changes r)]) r1"
    using h by (simp add: post_update_def)
next
  assume h: "\<not> is_new r \<and> internal_id k cls mgr (r, log) = (Inr ident, r1, log1)
      \<and> mgr_update mgr log1 ident (changes r) = Inl e"
  then have co: "cache_only r r1" using internal_id_cache_only by blast
  then show c: "changes r1 = changes r" by (rule cache_only_fields)
  show "decoded_attrs r1 = decoded_attrs r" using co by (rule cache_only_fields)
  show "save k cls mgr (r, log) = (Inl e, r1, log1 @ [UpdateCall ident (changes r)])"
    using h c by (simp add: save_def)
next
  assume "is_new r \<and> mgr_create mgr log (changes r) = Inr created"
  then show "save k cls mgr (r, log) =
           (Inr (PBool True), r\<lparr>decoded_attrs := decoded_attrs created, changes := []\<rparr>,
            log @ [CreateCall (changes r)])"
    by (simp add: save_def)
next
  assume "is_new r \<and> mgr_create mgr log (changes r) = Inl e"
  then show "save k cls mgr (r, log) = (Inl e, r, log @ [CreateCall (changes r)])"
    by (simp add: save_def)
qed

text \<open>The definitions a concrete example unfolds.\<close>

lemmas eval_defs =
  internal_id_def internal_id_attr_def startswith_underscore_def dict_get_def dict_has_def
  is_new_def Resource_init_sel fromkeys_def dict_update_all_def getattr_finish_def
  Resource_encode_def Resource_unconvertible_def RESOURCE_MAP_def RESOURCE_SET_MAP_def
  RELATIONS_MAP_def strptime_py_def type_or_value_error_def wrap_def obj_def
  mgr0_def mgr_down_def redmine0_def lib0_def attr_default_def raises_attr_error_def
  relation_filter_def fetch_def refresh_params_def update_conv' Let_def

theorem save_spec_witness:
  "save (Suc 0) Issue (mgr0 Issue (PBool False) [])
      ((Resource_init Issue [(''id'', PInt 7)])\<lparr>changes := [(''subject'', PStr ''x'')]\<rparr>, [])
     = (Inr (PBool True),
        (Resource_init Issue [(''id'', PInt 7)])
          \<lparr>encoded_attrs := [(''id'', PInt 7)],
           decoded_attrs := AList.update ''updated_on'' (PStr ''2014-01-02T03:04:05Z'')
             (decoded_attrs (Resource_init Issue [(''id'', PInt 7)]))\<rparr>,
        [UpdateCall (PInt 7) [(''subject'', PStr ''x'')]])
   \<and> save (Suc 0) Issue (mgr_down Issue)
      ((Resource_init Issue [(''id'', PInt 7)])\<lparr>changes := [(''subject'', PStr ''x'')]\<rparr>, [])
     = (Inl (ManagerError ''down''),
        (Resource_init Issue [(''id'', PInt 7)])
          \<lparr>changes := [(''subject'', PStr ''x'')], encoded_attrs := [(''id'', PInt 7)]\<rparr>,
        [UpdateCall (PInt 7) [(''subject'', PStr ''x'')]])
   \<and> save (Suc 0) Issue (mgr0 Issue (PBool False) [(''id'', PInt 8), (''subject'', PStr ''x'')])
      ((Resource_init Issue [])\<lparr>changes := [(''subject'', PStr ''x'')]\<rparr>, [])
     = (Inr (PBool True),
        Resource_init Issue [(''id'', PInt 8), (''subject'', PStr ''x'')],
        [CreateCall [(''subject'', PStr ''x'')]])
   \<and> save (Suc 0) Issue (mgr_down Issue)
      ((Resource_init Issue [])\<lparr>changes := [(''subject'', PStr ''x'')]\<rparr>, [])
     = (Inl (ManagerError ''down''),
        (Resource_init Issue [])\<lparr>changes := [(''subject'', PStr ''x'')]\<rparr>,
        [CreateCall [(''subject'', PStr ''x'')]])"
proof -
  let ?p = "(Resource_init Issue [(''id'', PInt 7)])\<lparr>changes := [(''subject'', PStr ''x'')]\<rparr>"
  let ?p1 = "?p\<lparr>encoded_attrs := [(''id'', PInt 7)]\<rparr>"
  let ?n = "(Resource_init Issue [])\<lparr>changes := [(''subject'', PStr ''x'')]\<rparr>"
  let ?m = "mgr0 Issue (PBool False) []"
  let ?m8 = "mgr0 Issue (PBool False) [(''id'', PInt 8), (''subject'', PStr ''x'')]"
  let ?log = "[UpdateCall (PInt 7) [(''subject'', PStr ''x'')]]"
  have pn: "\<not> is_new ?p" by (simp add: eval_defs)
  have nn: "is_new ?n" by (simp add: eval_defs)
  have id0: "internal_id (Suc 0) Issue ?m (?p, []) = (Inr (PInt 7), ?p1, [])"
    by (simp add: eval_defs)
  have idd: "internal_id (Suc 0) Issue (mgr_down Issue) (?p, []) = (Inr (PInt 7), ?p1, [])"
    by (simp add: eval_defs)
  have h1: "\<not> is_new ?p \<and> internal_id (Suc 0) Issue ?m (?p, []) = (Inr (PInt 7), ?p1, [])
      \<and> mgr_update ?m [] (PInt 7) (changes ?p) = Inr PNone
      \<and> post_update Issue (stamp_updated_on ?m ([] @ [UpdateCall (PInt 7) (changes ?p)]) ?p1)
          = Inr (stamp_updated_on ?m ([] @ [UpdateCall (PInt 7) (changes ?p)]) ?p1)"
    using pn id0 by (simp add: post_update_def mgr0_def)
  have h2: "\<not> is_new ?p
      \<and> internal_id (Suc 0) Issue (mgr_down Issue) (?p, []) = (Inr (PInt 7), ?p1, [])
      \<and> mgr_update (mgr_down Issue) [] (PInt 7) (changes ?p) = Inl (ManagerError ''down'')"
    using pn idd by (simp add: mgr_down_def)
  have h3: "is_new ?n \<and> mgr_create ?m8 [] (changes ?n)
      = Inr (Resource_init Issue [(''id'', PInt 8), (''subject'', PStr ''x'')])"
    using nn by (simp add: mgr0_def)
  have h4: "is_new ?n \<and> mgr_create (mgr_down Issue) [] (changes ?n) = Inl (ManagerError ''down'')"
    using nn by (simp add: mgr_down_def)
  note t1 = save_spec [where r = ?p and k = "Suc 0" and cls = Issue and mgr = ?m and log = "[]"
      and ident = "PInt 7" and ?r1.0 = ?p1 and ?log1.0 = "[]" and ack = PNone
      and ?r2.0 = "stamp_updated_on ?m ([] @ [UpdateCall (PInt 7) (changes ?p)]) ?p1"]
  note t2 = save_spec [where r = ?p and k = "Suc 0" and cls = Issue and mgr = "mgr_down Issue"
      and log = "[]" and ident = "PInt 7" and ?r1.0 = ?p1 and ?log1.0 = "[]"
      and e = "ManagerError ''down''"]
  note t3 = save_spec [where r = ?n and k = "Suc 0" and cls = Issue and mgr = ?m8 and log = "[]"
      and created = "Resource_init Issue [(''id'', PInt 8), (''subject'', PStr ''x'')]"]
  note t4 = save_spec [where r = ?n and k = "Suc 0" and cls = Issue and mgr = "mgr_down Issue"
      and log = "[]" and e = "ManagerError ''down''"]
  have r1: "save (Suc 0) Issue ?m (?p, []) =
      (Inr (PBool True),
       (stamp_updated_on ?m ([] @ [UpdateCall (PInt 7) (changes ?p)]) ?p1)\<lparr>changes := []\<rparr>,
       [] @ [UpdateCall (PInt 7) (changes ?p)])"
    using t1 h1 by blast
  have r2: "save (Suc 0) Issue (mgr_down Issue) (?p, []) =
      (Inl (ManagerError ''down''), ?p1, [] @ [UpdateCall (PInt 7) (changes ?p)])"
    using t2 h2 by blast
  have r3: "save (Suc 0) Issue ?m8 (?n, []) =
      (Inr (PBool True),
       ?n\<lparr>decoded_attrs :=
            decoded_attrs (Resource_init Issue [(''id'', PInt 8), (''subject'', PStr ''x'')]),
          changes := []\<rparr>,
       [] @ [CreateCall (changes ?n)])"
    using t3 h3 by blast
  have r4: "save (Suc 0) Issue (mgr_down Issue) (?n, []) =
      (Inl (ManagerError ''down''), ?n, [] @ [CreateCall (changes ?n)])"
    using t4 h4 by blast
  show ?thesis
    unfolding r1 r2 r3 r4
    by (simp add: stamp_updated_on_def Resource_init_def Let_def mgr0_def redmine0_def lib0_def)
qed

section \<open>Reading an attribute: properties\<close>

lemma present_dict_get: "present d n = (dict_get d n \<noteq> PNone)"
  by (simp add: present_def dict_get_def split: option.splits)

lemma Resource_encode_not_None:
  "val \<noteq> PNone \<Longrightarrow> Resource_encode cls attr val mgr = Inr (a, v) \<Longrightarrow> a = attr \<and> v \<noteq> PNone"
  by (auto simp: Resource_encode_def wrap_def obj_def
      split: if_splits option.splits sum.splits)

lemma encode_not_None:
  "val \<noteq> PNone \<Longrightarrow> encode cls attr val mgr = Inr (a, v) \<Longrightarrow> a = attr \<and> v \<noteq> PNone"
proof (cases cls)
  case Project
  assume "val \<noteq> PNone" "encode cls attr val mgr = Inr (a, v)"
  then show ?thesis using Project
    by (auto split: if_splits sum.splits dest: Resource_encode_not_None)
next
  case WikiPage
  assume "val \<noteq> PNone" "encode cls attr val mgr = Inr (a, v)"
  then show ?thesis using WikiPage
    by (auto simp: wrap_def obj_def split: if_splits sum.splits dest: Resource_encode_not_None)
next
  case CustomField
  assume "val \<noteq> PNone" "encode cls attr val mgr = Inr (a, v)"
  then show ?thesis using CustomField
    by (auto split: if_splits sum.splits bool.splits
        dest: Resource_encode_not_None [rotated])
qed (auto dest: Resource_encode_not_None)

lemma relation_has_class:
  "n \<in> set (class_relations cls) \<Longrightarrow> map_of RELATIONS_MAP n = Some (related_class n)"
  by (cases cls) (auto simp: related_class_def RELATIONS_MAP_def)

lemma relation_not_underscore:
  "n \<in> set (class_relations cls) \<or> n \<in> set (class_includes cls) \<Longrightarrow> \<not> startswith_underscore n"
  by (cases cls) (auto simp: startswith_underscore_def)

lemma getattr_finish_value:
  "v \<noteq> PNone \<Longrightarrow> getattr_finish cls mgr (Inr (a, v), r, log) = (Inr v, cached r a v, log)"
  by (simp add: getattr_finish_def cached_def)

lemma getattr_finish_error:
  "getattr_finish cls mgr (Inl e, r, log) = (Inl e, r, log)"
  by (simp add: getattr_finish_def)

lemma getattr_finish_None:
  "getattr_finish cls mgr (Inr (a, PNone), r, log) = missing_step cls mgr (r, log) a"
  by (simp add: getattr_finish_def missing_step_def attr_default_def)

lemma getattr_finish_encode:
  assumes "val \<noteq> PNone"
  shows "fst (getattr_finish cls mgr (encode cls attr val mgr, r, log)) \<noteq> Inr PNone"
proof (cases "encode cls attr val mgr")
  case (Inl e)
  then show ?thesis by (simp add: getattr_finish_error)
next
  case (Inr p)
  obtain a v where p: "p = (a, v)" by (cases p)
  then have "v \<noteq> PNone" using encode_not_None [OF assms] Inr by blast
  then show ?thesis using Inr p by (simp add: getattr_finish_value)
qed

lemma relation_filter_not_None:
  "fst (getattr_finish cls mgr (relation_filter mgr attr r log ident)) \<noteq> Inr PNone"
  by (auto simp: relation_filter_def Let_def getattr_finish_def obj_def
      split: option.splits sum.splits)

lemma getattr_named_not_None:
  "n \<in> set (class_relations cls) \<or> n \<in> set (class_includes cls) \<Longrightarrow>
     fst (Resource_getattr k cls mgr (r, log) n) \<noteq> Inr PNone"
proof (induction k arbitrary: r log)
  case 0
  then show ?case by simp
next
  case (Suc k)
  let ?idr = "Resource_getattr k cls mgr (r, log) (internal_id_attr cls)"
  obtain ires r1 log1 where idr: "?idr = (ires, r1, log1)" by (cases ?idr)
  have nu: "\<not> startswith_underscore n" using Suc.prems by (rule relation_not_underscore)
  consider (e) "dict_get (encoded_attrs r) n \<noteq> PNone"
    | (d) "dict_get (encoded_attrs r) n = PNone" "dict_get (decoded_attrs r) n \<noteq> PNone"
    | (rel) "dict_get (encoded_attrs r) n = PNone" "dict_get (decoded_attrs r) n = PNone"
        "n \<in> set (class_relations cls)"
    | (inc) "dict_get (encoded_attrs r) n = PNone" "dict_get (decoded_attrs r) n = PNone"
        "n \<notin> set (class_relations cls)" "n \<in> set (class_includes cls)"
    using Suc.prems by blast
  then show ?case
  proof cases
    case e
    then show ?thesis using nu by simp
  next
    case d
    then show ?thesis using nu by (simp add: getattr_finish_encode)
  next
    case rel
    then show ?thesis using nu idr
      by (cases ires) (simp_all add: relation_filter_not_None)
  next
    case inc
    show ?thesis
    proof (cases ires)
      case (Inl err)
      then show ?thesis using nu inc idr by simp
    next
      case (Inr ident)
      obtain fres log2 where f: "fetch cls mgr log1 ident [(''include'', PStr n)] = (fres, log2)"
        by (cases "fetch cls mgr log1 ident [(''include'', PStr n)]")
      show ?thesis
      proof (cases fres)
        case (Inl err)
        then show ?thesis using nu inc idr Inr f by simp
      next
        case fr: (Inr fresh)
        obtain res f' log3 where g: "Resource_getattr k cls mgr (fresh, log2) n = (res, f', log3)"
          by (cases "Resource_getattr k cls mgr (fresh, log2) n")
        have nn: "res \<noteq> Inr PNone" using Suc.IH [OF Suc.prems, of fresh log2] g by simp
        show ?thesis
        proof (cases res)
          case (Inl err)
          then show ?thesis using nu inc idr Inr f fr g by simp
        next
          case v: (Inr v)
          then have "v \<noteq> PNone" using nn by simp
          then show ?thesis using nu inc idr Inr f fr g v by (simp add: getattr_finish_value)
        qed
      qed
    qed
  qed
qed

lemma refresh_other:
  "refresh k cls mgr st False ps =
     (case internal_id k cls mgr st of
        (Inl e, r1, log1) \<Rightarrow> (Inl e, r1, log1)
      | (Inr ident, r1, log1) \<Rightarrow>
          (case fetch cls mgr log1 ident ps of
             (Inl e, log2) \<Rightarrow> (Inl e, r1, log2)
           | (Inr fresh, log2) \<Rightarrow> (Inr (Some fresh), r1, log2)))"
  by (simp add: refresh_def split: prod.splits sum.splits)

lemma getattr_absent:
  assumes "\<not> startswith_underscore n"
    and "dict_get (encoded_attrs r) n = PNone"
    and "dict_get (decoded_attrs r) n = PNone"
  shows "Resource_getattr (Suc k) cls mgr (r, log) n = fall_through k cls mgr (r, log) n"
proof -
  let ?idr = "internal_id k cls mgr (r, log)"
  obtain ires r1 log1 where idr: "?idr = (ires, r1, log1)" by (cases ?idr)
  have idr': "Resource_getattr k cls mgr (r, log) (internal_id_attr cls) = (ires, r1, log1)"
    using idr by (simp add: internal_id_def)
  have rn: "relations_name r1 = relations_name r"
    using internal_id_cache_only [OF idr] by (rule cache_only_fields)
  consider (rel) "n \<in> set (class_relations cls)"
    | (inc) "n \<notin> set (class_relations cls)" "n \<in> set (class_includes cls)"
    | (none) "n \<notin> set (class_relations cls)" "n \<notin> set (class_includes cls)"
    by blast
  then show ?thesis
  proof cases
    case rel
    have rc: "map_of RELATIONS_MAP n = Some (related_class n)" using rel by (rule relation_has_class)
    show ?thesis
      using assms rel idr idr' rn rc
      by (cases ires)
         (auto simp: fall_through_def relation_step_def relation_filter_def Let_def
            getattr_finish_def cached_def obj_def split: sum.splits)
  next
    case inc
    show ?thesis
    proof (cases ires)
      case (Inl err)
      then show ?thesis using assms inc idr idr'
        by (simp add: fall_through_def include_step_def refresh_other)
    next
      case (Inr ident)
      obtain fres log2 where f: "fetch cls mgr log1 ident [(''include'', PStr n)] = (fres, log2)"
        by (cases "fetch cls mgr log1 ident [(''include'', PStr n)]")
      show ?thesis
      proof (cases fres)
        case (Inl err)
        then show ?thesis using assms inc idr idr' Inr f
          by (simp add: fall_through_def include_step_def refresh_other)
      next
        case fr: (Inr fresh)
        obtain res f' log3 where g: "Resource_getattr k cls mgr (fresh, log2) n = (res, f', log3)"
          by (cases "Resource_getattr k cls mgr (fresh, log2) n")
        have nn: "res \<noteq> Inr PNone"
          using getattr_named_not_None [of n cls k mgr fresh log2] inc g by simp
        show ?thesis
        proof (cases res)
          case (Inl err)
          then show ?thesis using assms inc idr idr' Inr f fr g
            by (simp add: fall_through_def include_step_def refresh_other)
        next
          case v: (Inr v)
          then have "v \<noteq> PNone" using nn by simp
          then show ?thesis using assms inc idr idr' Inr f fr g v
            by (simp add: fall_through_def include_step_def refresh_other getattr_finish_value)
        qed
      qed
    qed
  next
    case none
    then show ?thesis using assms
      by (simp add: fall_through_def getattr_finish_None)
  qed
qed

lemma getattr_decoded:
  assumes "\<not> startswith_underscore n"
    and "dict_get (encoded_attrs r) n = PNone"
    and "dict_get (decoded_attrs r) n \<noteq> PNone"
  shows "Resource_getattr (Suc k) cls mgr (r, log) n = decode_step cls mgr (r, log) n"
proof (cases "encode cls n (dict_get (decoded_attrs r) n) mgr")
  case (Inl e)
  then show ?thesis using assms by (simp add: decode_step_def getattr_finish_error)
next
  case (Inr p)
  obtain a v where p: "p = (a, v)" by (cases p)
  then have "a = n \<and> v \<noteq> PNone" using encode_not_None [OF assms(3)] Inr by blast
  then show ?thesis using assms Inr p by (simp add: decode_step_def getattr_finish_value)
qed

text \<open>
  C1. For a name that does not start with an underscore, \<^verbatim>\<open>__getattr__\<close> with stack for
  one more call than its inner reads is the six-step resolution \<open>get_spec\<close>, in state and
  log as well as in the result.
\<close>

theorem get_resolution_order:
  assumes "\<not> startswith_underscore n"
  shows "Resource_getattr (Suc k) cls mgr st n = get_spec k cls mgr st n"
proof -
  obtain r log where st: "st = (r, log)" by (cases st)
  show ?thesis
    using assms getattr_absent [of n r k cls mgr log] getattr_decoded [of n r k cls mgr log]
    unfolding st by (simp add: get_spec_def present_dict_get)
qed

lemma lower_Issue: "lower ''Issue'' = ''issue''"
  by (simp add: lower_def lower_char_def)

lemmas spec_defs =
  get_spec_def present_def fall_through_def relation_step_def include_step_def missing_step_def
  decode_step_def cached_def related_class_def refresh_def

theorem get_resolution_order_witness:
  "Resource_getattr (Suc (Suc 0)) Issue (mgr0 Issue (PBool False) [])
      ((Resource_init Issue [(''id'', PInt 7)])\<lparr>encoded_attrs := [(''subject'', PStr ''x'')]\<rparr>, [])
      ''subject''
     = (Inr (PStr ''x''),
        (Resource_init Issue [(''id'', PInt 7)])\<lparr>encoded_attrs := [(''subject'', PStr ''x'')]\<rparr>, [])
   \<and> Resource_getattr (Suc (Suc 0)) Issue (mgr0 Issue (PBool False) [])
      (Resource_init Issue [(''id'', PInt 7), (''start_date'', PStr ''2014-01-02'')], [])
      ''start_date''
     = (Inr (PDate (Date 2014 1 2)),
        (Resource_init Issue [(''id'', PInt 7), (''start_date'', PStr ''2014-01-02'')])
          \<lparr>encoded_attrs := [(''start_date'', PDate (Date 2014 1 2))]\<rparr>, [])
   \<and> Resource_getattr (Suc (Suc 0)) Issue (mgr0 Issue (PBool False) [])
      (Resource_init Issue [(''id'', PInt 7)], []) ''time_entries''
     = (Inr (PObject ''ResourceSet'' (PStr ''TimeEntry'')),
        (Resource_init Issue [(''id'', PInt 7)])
          \<lparr>encoded_attrs := [(''id'', PInt 7),
             (''time_entries'', PObject ''ResourceSet'' (PStr ''TimeEntry''))]\<rparr>,
        [FilterCall ''TimeEntry'' [(''issue_id'', PInt 7)]])
   \<and> Resource_getattr (Suc (Suc 0)) Issue
      (mgr0 Issue (PBool False) [(''id'', PInt 7), (''children'', PList [PInt 9])])
      (Resource_init Issue [(''id'', PInt 7)], []) ''children''
     = (Inr (PObject ''ResourceSet'' (PList [PInt 9])),
        (Resource_init Issue [(''id'', PInt 7)])
          \<lparr>encoded_attrs := [(''id'', PInt 7),
             (''children'', PObject ''ResourceSet'' (PList [PInt 9]))]\<rparr>,
        [GetCall (PInt 7) [(''include'', PStr ''children'')]])
   \<and> Resource_getattr (Suc (Suc 0)) Issue (mgr0 Issue (PBool True) [])
      (Resource_init Issue [], []) ''id''
     = (Inr (PInt 0), Resource_init Issue [], [])
   \<and> Resource_getattr (Suc (Suc 0)) Issue (mgr0 Issue (PBool True) [])
      (Resource_init Issue [], []) ''subject''
     = (Inr (PStr []), Resource_init Issue [], [])
   \<and> Resource_getattr (Suc (Suc 0)) Issue (mgr0 Issue (PBool True) [])
      (Resource_init Issue [(''id'', PInt 7)], []) ''subject''
     = (Inl ResourceAttrError, Resource_init Issue [(''id'', PInt 7)], [])
   \<and> Resource_getattr (Suc (Suc 0)) Issue (mgr0 Issue (PList [PStr ''Issue'']) [])
      (Resource_init Issue [(''id'', PInt 7)], []) ''subject''
     = (Inl ResourceAttrError, Resource_init Issue [(''id'', PInt 7)], [])
   \<and> Resource_getattr (Suc (Suc 0)) Issue (mgr0 Issue (PList [PStr ''Project'']) [])
      (Resource_init Issue [(''id'', PInt 7)], []) ''subject''
     = (Inr PNone, Resource_init Issue [(''id'', PInt 7)], [])"
proof -
  have u: "\<not> startswith_underscore ''subject''" "\<not> startswith_underscore ''start_date''"
    "\<not> startswith_underscore ''time_entries''" "\<not> startswith_underscore ''children''"
    "\<not> startswith_underscore ''id''"
    by (simp_all add: startswith_underscore_def)
  have rn: "relations_name (Resource_init Issue a) = ''issue''" for a
    by (simp add: Resource_init_def Let_def lower_Issue)
  show ?thesis
    unfolding get_resolution_order [OF u(1)] get_resolution_order [OF u(2)]
      get_resolution_order [OF u(3)] get_resolution_order [OF u(4)]
      get_resolution_order [OF u(5)]
    by (simp add: spec_defs eval_defs rn lower_Issue Resource_init_def)
qed

section \<open>A decoded entry that is None\<close>

lemma dict_get_delete:
  "dict_get d n = PNone \<Longrightarrow> dict_get (AList.delete n d) m = dict_get d m"
  by (auto simp: dict_get_def delete_conv' split: option.splits)

lemma drop_key_sel [simp]:
  "encoded_attrs (drop_key n r) = encoded_attrs r"
  "relations_name (drop_key n r) = relations_name r"
  "decoded_attrs (drop_key n r) = AList.delete n (decoded_attrs r)"
  by (simp_all add: drop_key_def)

lemma drop_key_cache:
  "drop_key n (r\<lparr>encoded_attrs := e\<rparr>) = (drop_key n r)\<lparr>encoded_attrs := e\<rparr>"
  by (simp add: drop_key_def)

lemma drop_key_cache_only:
  assumes "cache_only r r1"
  shows "cache_only (drop_key n r) (drop_key n r1)"
proof -
  have "r1 = r\<lparr>encoded_attrs := encoded_attrs r1\<rparr>" using assms by (simp add: cache_only_def)
  then have "drop_key n r1 = (drop_key n r)\<lparr>encoded_attrs := encoded_attrs r1\<rparr>"
    by (metis drop_key_cache)
  then show ?thesis by (simp add: cache_only_def)
qed

lemma getattr_finish_drop_key:
  assumes "is_new (drop_key n r) = is_new r"
  shows "getattr_finish cls mgr (x, drop_key n r, log) =
     (case getattr_finish cls mgr (x, r, log) of (res, r', log') \<Rightarrow> (res, drop_key n r', log'))"
  using assms
  by (auto simp: getattr_finish_def drop_key_cache split: sum.splits prod.splits)

lemma relation_filter_drop_key:
  "relation_filter mgr attr (drop_key n r) log ident =
     (case relation_filter mgr attr r log ident of (x, r', log') \<Rightarrow> (x, drop_key n r', log'))"
  by (auto simp: relation_filter_def Let_def split: option.splits sum.splits)

lemma getattr_drop_key:
  assumes "dict_get (decoded_attrs r) n = PNone" and "is_new (drop_key n r) = is_new r"
  shows "Resource_getattr k cls mgr (drop_key n r, log) m =
     (case Resource_getattr k cls mgr (r, log) m of (res, r', log') \<Rightarrow> (res, drop_key n r', log'))"
  using assms
proof (induction k arbitrary: r log m)
  case 0
  then show ?case by simp
next
  case (Suc k)
  let ?idr = "Resource_getattr k cls mgr (r, log) (internal_id_attr cls)"
  obtain ires r1 log1 where idr: "?idr = (ires, r1, log1)" by (cases ?idr)
  have idr0: "Resource_getattr k cls mgr (drop_key n r, log) (internal_id_attr cls)
      = (ires, drop_key n r1, log1)"
    using Suc.IH [OF Suc.prems, of log "internal_id_attr cls"] idr by simp
  have co: "cache_only r r1" using idr by (rule getattr_cache_only)
  have new1: "is_new (drop_key n r1) = is_new r1"
    using Suc.prems(2) cache_only_fields(7) [OF co]
      cache_only_fields(7) [OF drop_key_cache_only [OF co, of n]] by simp
  have dg: "dict_get (decoded_attrs (drop_key n r)) m = dict_get (decoded_attrs r) m"
    using Suc.prems(1) by (simp add: dict_get_delete)
  consider (u) "startswith_underscore m"
    | (e) "\<not> startswith_underscore m" "dict_get (encoded_attrs r) m \<noteq> PNone"
    | (d) "\<not> startswith_underscore m" "dict_get (encoded_attrs r) m = PNone"
          "dict_get (decoded_attrs r) m \<noteq> PNone"
    | (rel) "\<not> startswith_underscore m" "dict_get (encoded_attrs r) m = PNone"
          "dict_get (decoded_attrs r) m = PNone" "m \<in> set (class_relations cls)"
    | (inc) "\<not> startswith_underscore m" "dict_get (encoded_attrs r) m = PNone"
          "dict_get (decoded_attrs r) m = PNone" "m \<notin> set (class_relations cls)"
          "m \<in> set (class_includes cls)"
    | (none) "\<not> startswith_underscore m" "dict_get (encoded_attrs r) m = PNone"
          "dict_get (decoded_attrs r) m = PNone" "m \<notin> set (class_relations cls)"
          "m \<notin> set (class_includes cls)"
    by blast
  then show ?case
  proof cases
    case u
    then show ?thesis by simp
  next
    case e
    then show ?thesis by simp
  next
    case d
    then show ?thesis using dg
      by (simp add: getattr_finish_drop_key [OF Suc.prems(2)])
  next
    case rel
    show ?thesis
    proof (cases ires)
      case (Inl err)
      then show ?thesis using rel dg idr idr0 by simp
    next
      case (Inr ident)
      obtain x rf logf where rf: "relation_filter mgr m r1 log1 ident = (x, rf, logf)"
        by (cases "relation_filter mgr m r1 log1 ident")
      then have rfe: "rf = r1" by (rule relation_filter_state)
      have "getattr_finish cls mgr (x, drop_key n r1, logf) =
         (case getattr_finish cls mgr (x, r1, logf) of
            (res, r', log') \<Rightarrow> (res, drop_key n r', log'))"
        by (rule getattr_finish_drop_key [OF new1])
      then show ?thesis
        using rel dg idr idr0 Inr rf rfe by (simp add: relation_filter_drop_key)
    qed
  next
    case inc
    show ?thesis
    proof (cases ires)
      case (Inl err)
      then show ?thesis using inc dg idr idr0 by simp
    next
      case (Inr ident)
      obtain fres log2 where f: "fetch cls mgr log1 ident [(''include'', PStr m)] = (fres, log2)"
        by (cases "fetch cls mgr log1 ident [(''include'', PStr m)]")
      show ?thesis
      proof (cases fres)
        case (Inl err)
        then show ?thesis using inc dg idr idr0 Inr f by simp
      next
        case fr: (Inr fresh)
        obtain res f' log3 where g: "Resource_getattr k cls mgr (fresh, log2) m = (res, f', log3)"
          by (cases "Resource_getattr k cls mgr (fresh, log2) m")
        show ?thesis
          using inc dg idr idr0 Inr f fr g
          by (cases res) (simp_all add: getattr_finish_drop_key [OF new1])
      qed
    qed
  next
    case none
    then show ?thesis using dg
      by (simp add: getattr_finish_drop_key [OF Suc.prems(2)])
  qed
qed

lemma getattr_None_state:
  assumes "Resource_getattr k cls mgr (r, log) n = (Inr PNone, r', log')"
  shows "r' = r \<and> log' = log"
proof (cases k)
  case 0
  then show ?thesis using assms by simp
next
  case (Suc j)
  have nn: "\<not> (n \<in> set (class_relations cls) \<or> n \<in> set (class_includes cls))"
    using getattr_named_not_None [of n cls k mgr r log] assms by auto
  consider (u) "startswith_underscore n"
    | (e) "\<not> startswith_underscore n" "dict_get (encoded_attrs r) n \<noteq> PNone"
    | (d) "\<not> startswith_underscore n" "dict_get (encoded_attrs r) n = PNone"
          "dict_get (decoded_attrs r) n \<noteq> PNone"
    | (none) "\<not> startswith_underscore n" "dict_get (encoded_attrs r) n = PNone"
          "dict_get (decoded_attrs r) n = PNone"
    by blast
  then show ?thesis
  proof cases
    case u
    then show ?thesis using assms Suc by simp
  next
    case e
    then show ?thesis using assms Suc by simp
  next
    case d
    have "fst (getattr_finish cls mgr (encode cls n (dict_get (decoded_attrs r) n) mgr, r, log))
        \<noteq> Inr PNone"
      using d(3) by (rule getattr_finish_encode)
    then show ?thesis using assms Suc d by simp
  next
    case none
    then show ?thesis using assms Suc nn
      by (auto simp: getattr_finish_def split: if_splits)
  qed
qed

lemma init_placeholders:
  "m \<in> set ks \<Longrightarrow> map_of (foldl (\<lambda>d k. AList.update k PNone d) d0 ks) m = Some PNone"
  by (induction ks arbitrary: d0 rule: rev_induct) (auto simp: update_conv')

lemma update_all_other:
  "m \<notin> fst ` set a \<Longrightarrow>
     map_of (foldl (\<lambda>d (k, v). AList.update k v d) d a) m = map_of d m"
  by (induction a arbitrary: d) (auto simp: update_conv')

lemma is_new_drop_key:
  "n \<noteq> ''id'' \<Longrightarrow> n \<noteq> ''created_on'' \<Longrightarrow> is_new (drop_key n r) = is_new r"
  by (simp add: is_new_def dict_has_def delete_conv')

text \<open>
  C10, amended. A decoded entry with the value \<^verbatim>\<open>None\<close> that is not cached skips \<open>encode\<close>:
  the read is the fall-through of the resolution (relation, include, default of a new
  instance, policy). For every name but \<^verbatim>\<open>id\<close> and \<^verbatim>\<open>created_on\<close> the read gives what it
  gives on the instance without the key, the two final states differing by that key
  only. A \<^verbatim>\<open>None\<close> under \<^verbatim>\<open>id\<close> or \<^verbatim>\<open>created_on\<close> makes the instance a saved one, so its
  fall-through never takes the default of a new instance. A read that returns \<^verbatim>\<open>None\<close>
  leaves the instance and the log as they were, so the next read resolves again. After
  construction every relation and include name that is not among the given attributes
  has such an entry.
\<close>

theorem none_entry_is_absent:
  "(\<not> startswith_underscore n \<and> map_of (decoded_attrs r) n = Some PNone
      \<and> dict_get (encoded_attrs r) n = PNone
     \<longrightarrow> Resource_getattr (Suc k) cls mgr (r, log) n = fall_through k cls mgr (r, log) n)
   \<and> (map_of (decoded_attrs r) n = Some PNone \<and> n \<noteq> ''id'' \<and> n \<noteq> ''created_on''
     \<longrightarrow> Resource_getattr k cls mgr (drop_key n r, log) n =
           (case Resource_getattr k cls mgr (r, log) n of
              (res, r', log') \<Rightarrow> (res, drop_key n r', log')))
   \<and> (map_of (decoded_attrs r) n = Some PNone \<and> (n = ''id'' \<or> n = ''created_on'')
     \<longrightarrow> \<not> is_new r)
   \<and> (Resource_getattr k cls mgr (r, log) n = (Inr PNone, r', log') \<longrightarrow> r' = r \<and> log' = log)
   \<and> (m \<in> set (class_relations cls @ class_includes cls) \<and> m \<notin> fst ` set a
     \<longrightarrow> map_of (decoded_attrs (Resource_init cls a)) m = Some PNone)"
proof (intro conjI impI)
  assume h: "\<not> startswith_underscore n \<and> map_of (decoded_attrs r) n = Some PNone
      \<and> dict_get (encoded_attrs r) n = PNone"
  then have "dict_get (decoded_attrs r) n = PNone" by (simp add: dict_get_def)
  with h show "Resource_getattr (Suc k) cls mgr (r, log) n = fall_through k cls mgr (r, log) n"
    by (intro getattr_absent) blast+
next
  assume h: "map_of (decoded_attrs r) n = Some PNone \<and> n \<noteq> ''id'' \<and> n \<noteq> ''created_on''"
  then have d: "dict_get (decoded_attrs r) n = PNone" by (simp add: dict_get_def)
  have "is_new (drop_key n r) = is_new r" using h by (simp add: is_new_drop_key)
  with d show "Resource_getattr k cls mgr (drop_key n r, log) n =
           (case Resource_getattr k cls mgr (r, log) n of
              (res, r', log') \<Rightarrow> (res, drop_key n r', log'))"
    by (rule getattr_drop_key)
next
  assume "map_of (decoded_attrs r) n = Some PNone \<and> (n = ''id'' \<or> n = ''created_on'')"
  then show "\<not> is_new r" by (auto simp: is_new_def dict_has_def)
next
  assume g: "Resource_getattr k cls mgr (r, log) n = (Inr PNone, r', log')"
  show "r' = r" using getattr_None_state [OF g] by simp
  show "log' = log" using getattr_None_state [OF g] by simp
next
  assume a: "m \<in> set (class_relations cls @ class_includes cls) \<and> m \<notin> fst ` set a"
  have "map_of (decoded_attrs (Resource_init cls a)) m =
      map_of (foldl (\<lambda>d k. AList.update k PNone d) []
                (class_relations cls @ class_includes cls)) m"
    using a by (simp add: Resource_init_sel dict_update_all_def fromkeys_def update_all_other
        del: foldl_append set_append)
  then show "map_of (decoded_attrs (Resource_init cls a)) m = Some PNone"
    using a init_placeholders [of m "class_relations cls @ class_includes cls" "[]"]
    by (simp del: foldl_append set_append)
qed

theorem none_entry_is_absent_witness:
  "Resource_getattr (Suc 0) Issue (mgr0 Issue (PBool False) [])
      (Resource_init Issue [(''id'', PInt 7), (''due_date'', PNone)], []) ''due_date''
     = (Inr PNone, Resource_init Issue [(''id'', PInt 7), (''due_date'', PNone)], [])
   \<and> Resource_getattr (Suc 0) Issue (mgr0 Issue (PBool False) [])
      (drop_key ''due_date'' (Resource_init Issue [(''id'', PInt 7), (''due_date'', PNone)]), [])
      ''due_date''
     = (Inr PNone,
        drop_key ''due_date'' (Resource_init Issue [(''id'', PInt 7), (''due_date'', PNone)]), [])
   \<and> \<not> is_new (Resource_init Issue [(''created_on'', PNone)])
   \<and> map_of (decoded_attrs (Resource_init Issue [(''id'', PInt 7)])) ''children'' = Some PNone"
proof -
  let ?r = "Resource_init Issue [(''id'', PInt 7), (''due_date'', PNone)]"
  let ?c = "Resource_init Issue [(''created_on'', PNone)]"
  let ?m = "mgr0 Issue (PBool False) []"
  have d: "map_of (decoded_attrs ?r) ''due_date'' = Some PNone"
    by (simp add: eval_defs)
  have h1: "\<not> startswith_underscore ''due_date'' \<and> map_of (decoded_attrs ?r) ''due_date'' = Some PNone
      \<and> dict_get (encoded_attrs ?r) ''due_date'' = PNone"
    using d by (simp add: eval_defs)
  have h2: "map_of (decoded_attrs ?r) ''due_date'' = Some PNone
      \<and> ''due_date'' \<noteq> ''id'' \<and> ''due_date'' \<noteq> ''created_on''"
    using d by simp
  have h3: "map_of (decoded_attrs ?c) ''created_on'' = Some PNone
      \<and> (''created_on'' = ''id'' \<or> ''created_on'' = ''created_on'')"
    by (simp add: eval_defs)
  have h5: "''children'' \<in> set (class_relations Issue @ class_includes Issue)
      \<and> ''children'' \<notin> fst ` set [(''id'', PInt 7)]"
    by simp
  note t = none_entry_is_absent [where n = "''due_date''" and r = ?r and k = 0 and cls = Issue
      and mgr = ?m and log = "[]" and m = "''children''" and a = "[(''id'', PInt 7)]"]
  have a: "Resource_getattr (Suc 0) Issue ?m (?r, []) ''due_date''
      = fall_through 0 Issue ?m (?r, []) ''due_date''"
    by (rule t [THEN conjunct1, THEN mp, OF h1])
  have ft: "fall_through 0 Issue ?m (?r, []) ''due_date'' = (Inr PNone, ?r, [])"
    by (simp add: fall_through_def missing_step_def eval_defs)
  note t' = none_entry_is_absent [where n = "''due_date''" and r = ?r and k = "Suc 0"
      and cls = Issue and mgr = ?m and log = "[]"]
  have b: "Resource_getattr (Suc 0) Issue ?m (drop_key ''due_date'' ?r, []) ''due_date''
      = (case Resource_getattr (Suc 0) Issue ?m (?r, []) ''due_date'' of
           (res, r', log') \<Rightarrow> (res, drop_key ''due_date'' r', log'))"
    by (rule t' [THEN conjunct2, THEN conjunct1, THEN mp, OF h2])
  note t'' = none_entry_is_absent [where n = "''created_on''" and r = ?c]
  have c: "\<not> is_new ?c"
    by (rule t'' [THEN conjunct2, THEN conjunct2, THEN conjunct1, THEN mp, OF h3])
  have e: "map_of (decoded_attrs (Resource_init Issue [(''id'', PInt 7)])) ''children'' = Some PNone"
    by (rule t [THEN conjunct2, THEN conjunct2, THEN conjunct2, THEN conjunct2, THEN mp, OF h5])
  show ?thesis using a ft b c e by simp
qed

text \<open>
  C10 as stated fails for \<^verbatim>\<open>id\<close>: with the decoded dictionary \<^verbatim>\<open>{'id': None}\<close> the instance
  counts as saved and the read of \<^verbatim>\<open>id\<close> answers \<^verbatim>\<open>None\<close>, or raises under a policy that
  demands it; without the key the instance is new and the read answers 0.
\<close>

theorem none_id_counterexample:
  "Resource_getattr (Suc 0) Issue (mgr0 Issue (PBool False) [])
      (Resource_init Issue [(''id'', PNone)], []) ''id''
     = (Inr PNone, Resource_init Issue [(''id'', PNone)], [])
   \<and> Resource_getattr (Suc 0) Issue (mgr0 Issue (PBool True) [])
      (Resource_init Issue [(''id'', PNone)], []) ''id''
     = (Inl ResourceAttrError, Resource_init Issue [(''id'', PNone)], [])
   \<and> Resource_getattr (Suc 0) Issue (mgr0 Issue (PBool False) [])
      (drop_key ''id'' (Resource_init Issue [(''id'', PNone)]), []) ''id''
     = (Inr (PInt 0), drop_key ''id'' (Resource_init Issue [(''id'', PNone)]), [])"
  by (simp add: eval_defs drop_key_def Resource_init_def)

section \<open>The relation fetch and the cache\<close>

lemma identity_not_named:
  "internal_id_attr cls \<notin> set (class_relations cls)"
  "internal_id_attr cls \<notin> set (class_includes cls)"
  by (cases cls; simp add: internal_id_attr_def)+

lemma getattr_finish_log:
  "getattr_finish cls mgr (x, r, log) = (res, r', log') \<Longrightarrow> log' = log"
  by (auto simp: getattr_finish_def split: sum.splits prod.splits if_splits)

lemma getattr_plain_log:
  assumes "n \<notin> set (class_relations cls)" and "n \<notin> set (class_includes cls)"
    and "Resource_getattr k cls mgr (r, log) n = (res, r', log')"
  shows "log' = log"
proof (cases k)
  case 0
  then show ?thesis using assms by simp
next
  case (Suc j)
  then show ?thesis using assms
    by (auto split: if_splits dest: getattr_finish_log)
qed

lemma internal_id_log:
  "internal_id k cls mgr (r, log) = (res, r', log') \<Longrightarrow> log' = log"
  unfolding internal_id_def using identity_not_named by (rule getattr_plain_log)

lemma dict_get_cached: "dict_get (encoded_attrs (cached r n v)) n = v"
  by (simp add: cached_def dict_get_def update_conv')

text \<open>
  C8, amended. For a relation name of the class that is neither cached nor decoded, a
  read that returns makes exactly one call of the manager, the filter of the related
  class keyed by the relation key and the identity, and a second read returns the same
  value from the cache with the instance and the log unchanged.
\<close>

theorem relation_fetch_once:
  assumes "n \<in> set (class_relations cls)"
    and "\<not> present (encoded_attrs r) n"
    and "\<not> present (decoded_attrs r) n"
    and "Resource_getattr (Suc k) cls mgr (r, log) n = (Inr v, r', log')"
  shows "(\<exists>ident. fst (internal_id k cls mgr (r, log)) = Inr ident
            \<and> log' = log @ [FilterCall (related_class n) [(relations_name r @ ''_id'', ident)]])
       \<and> Resource_getattr (Suc j) cls mgr (r', log') n = (Inr v, r', log')"
proof -
  have nu: "\<not> startswith_underscore n" using assms(1) relation_not_underscore by blast
  have ft: "Resource_getattr (Suc k) cls mgr (r, log) n = relation_step k cls mgr (r, log) n"
    using getattr_absent [OF nu, of r k cls mgr log] assms(1-3)
    by (simp add: present_dict_get fall_through_def)
  obtain ires r1 log1 where idr: "internal_id k cls mgr (r, log) = (ires, r1, log1)"
    by (cases "internal_id k cls mgr (r, log)")
  have l1: "log1 = log" using idr by (rule internal_id_log)
  let ?t = "related_class n"
  obtain ident where ident: "ires = Inr ident"
    using assms(4) ft idr by (cases ires) (auto simp: relation_step_def)
  let ?f = "[(relations_name r @ ''_id'', ident)]"
  obtain ob where ob: "mgr_filter mgr log ?t ?f = Inr ob"
    using assms(4) ft idr ident l1
    by (cases "mgr_filter mgr log ?t ?f") (auto simp: relation_step_def Let_def)
  have res: "v = obj ob" "r' = cached r1 n (obj ob)" "log' = log @ [FilterCall ?t ?f]"
    using assms(4) ft idr ident l1 ob by (auto simp: relation_step_def Let_def)
  have vn: "v \<noteq> PNone" using res(1) by (simp add: obj_def)
  have c: "dict_get (encoded_attrs r') n = v" using res(1,2) by (simp add: dict_get_cached)
  have second: "Resource_getattr (Suc j) cls mgr (r', log') n = (Inr v, r', log')"
    using nu vn c by simp
  have first: "fst (internal_id k cls mgr (r, log)) = Inr ident \<and> log' = log @ [FilterCall ?t ?f]"
    using idr ident res(3) by simp
  show ?thesis using first second by blast
qed

theorem relation_fetch_once_witness:
  "Resource_getattr (Suc (Suc 0)) Issue (mgr0 Issue (PBool False) [])
      (Resource_init Issue [(''id'', PInt 7)], []) ''time_entries''
     = (Inr (PObject ''ResourceSet'' (PStr ''TimeEntry'')),
        (Resource_init Issue [(''id'', PInt 7)])
          \<lparr>encoded_attrs := [(''id'', PInt 7),
             (''time_entries'', PObject ''ResourceSet'' (PStr ''TimeEntry''))]\<rparr>,
        [FilterCall ''TimeEntry'' [(''issue_id'', PInt 7)]])
   \<and> Resource_getattr (Suc (Suc 0)) Issue (mgr0 Issue (PBool False) [])
      ((Resource_init Issue [(''id'', PInt 7)])
          \<lparr>encoded_attrs := [(''id'', PInt 7),
             (''time_entries'', PObject ''ResourceSet'' (PStr ''TimeEntry''))]\<rparr>,
       [FilterCall ''TimeEntry'' [(''issue_id'', PInt 7)]]) ''time_entries''
     = (Inr (PObject ''ResourceSet'' (PStr ''TimeEntry'')),
        (Resource_init Issue [(''id'', PInt 7)])
          \<lparr>encoded_attrs := [(''id'', PInt 7),
             (''time_entries'', PObject ''ResourceSet'' (PStr ''TimeEntry''))]\<rparr>,
        [FilterCall ''TimeEntry'' [(''issue_id'', PInt 7)]])"
proof -
  let ?m = "mgr0 Issue (PBool False) []"
  let ?r = "Resource_init Issue [(''id'', PInt 7)]"
  let ?v = "PObject ''ResourceSet'' (PStr ''TimeEntry'')"
  let ?r' = "?r\<lparr>encoded_attrs := [(''id'', PInt 7), (''time_entries'', ?v)]\<rparr>"
  let ?log = "[FilterCall ''TimeEntry'' [(''issue_id'', PInt 7)]]"
  have a1: "''time_entries'' \<in> set (class_relations Issue)" by simp
  have a2: "\<not> present (encoded_attrs ?r) ''time_entries''"
    by (simp add: present_def eval_defs)
  have a3: "\<not> present (decoded_attrs ?r) ''time_entries''"
    by (simp add: present_def eval_defs)
  have a4: "Resource_getattr (Suc (Suc 0)) Issue ?m (?r, []) ''time_entries'' = (Inr ?v, ?r', ?log)"
    by (simp add: eval_defs lower_Issue Resource_init_def)
  note t = relation_fetch_once [OF a1 a2 a3 a4, of "Suc 0"]
  have b: "Resource_getattr (Suc (Suc 0)) Issue ?m (?r', ?log) ''time_entries''
      = (Inr ?v, ?r', ?log)"
    by (rule conjunct2 [OF t])
  show ?thesis by (rule conjI [OF a4 b])
qed

text \<open>
  C8 as stated fails on its example: \<^verbatim>\<open>children\<close> is an include of an issue, not a relation.
  On the issue 7 below, whose server answers with a payload that holds \<^verbatim>\<open>children\<close>, two
  reads make one \<open>get\<close> call with \<^verbatim>\<open>include=children\<close> and no filter call.
\<close>

theorem children_fetch_counterexample:
  "''children'' \<notin> set (class_relations Issue)
   \<and> (case Resource_getattr (Suc (Suc 0)) Issue
            (mgr0 Issue (PBool False) [(''id'', PInt 7), (''children'', PList [PInt 9])])
            (Resource_init Issue [(''id'', PInt 7)], []) ''children'' of
         (res1, r1, log1) \<Rightarrow>
           (case Resource_getattr (Suc (Suc 0)) Issue
                   (mgr0 Issue (PBool False) [(''id'', PInt 7), (''children'', PList [PInt 9])])
                   (r1, log1) ''children'' of
              (res2, r2, log2) \<Rightarrow> (res1, res2, log2)))
     = (Inr (PObject ''ResourceSet'' (PList [PInt 9])),
        Inr (PObject ''ResourceSet'' (PList [PInt 9])),
        [GetCall (PInt 7) [(''include'', PStr ''children'')]])"
  by (simp add: eval_defs Resource_init_def)

section \<open>The cache after a write to a companion and after a save\<close>

text \<open>
  C2, the code at two inputs. An issue with a cached \<^verbatim>\<open>project\<close> is written \<^verbatim>\<open>project_id = 2\<close>:
  the decoded \<^verbatim>\<open>project\<close> becomes the stub of 2, the cache entry of \<^verbatim>\<open>project\<close> stays, and the
  next read still answers project 1. An issue with a cached \<^verbatim>\<open>updated_on\<close> is saved: the
  decoded \<^verbatim>\<open>updated_on\<close> becomes the new stamp, and the next read still answers the old
  time. The method drops the cache entry of the written name only, and \<open>save\<close> drops none.
\<close>

theorem stale_cache_after_write:
  "(case Resource_getattr (Suc 0) Issue (mgr0 Issue (PBool False) [])
          (Resource_init Issue [(''id'', PInt 7), (''project'', PDict [(PStr ''id'', PInt 1)])], [])
          ''project'' of
      (before, r1, log1) \<Rightarrow>
        (case setattr Issue (mgr0 Issue (PBool False) []) r1 ''project_id'' (PInt 2) of
           (written, r2) \<Rightarrow>
             (case Resource_getattr (Suc 0) Issue (mgr0 Issue (PBool False) []) (r2, log1)
                     ''project'' of
                (after, r3, log3) \<Rightarrow>
                  (before, written, map_of (decoded_attrs r2) ''project'', after))))
     = (Inr (PObject ''Project'' (PDict [(PStr ''id'', PInt 1)])),
        Inr (),
        Some (PDict [(PStr ''id'', PInt 2)]),
        Inr (PObject ''Project'' (PDict [(PStr ''id'', PInt 1)])))
   \<and> (case Resource_getattr (Suc 0) Issue
          ((mgr0 Issue (PBool False) [])
             \<lparr>lib := lib0\<lparr>datetime_strftime := (\<lambda>t fmt. ''2015-06-07T08:09:10Z'')\<rparr>\<rparr>)
          (Resource_init Issue [(''id'', PInt 7), (''updated_on'', PStr ''2014-01-02T03:04:05Z'')], [])
          ''updated_on'' of
      (before, r1, log1) \<Rightarrow>
        (case save (Suc 0) Issue
                ((mgr0 Issue (PBool False) [])
                   \<lparr>lib := lib0\<lparr>datetime_strftime := (\<lambda>t fmt. ''2015-06-07T08:09:10Z'')\<rparr>\<rparr>)
                (r1, log1) of
           (saved, r2, log2) \<Rightarrow>
             (case Resource_getattr (Suc 0) Issue
                     ((mgr0 Issue (PBool False) [])
                        \<lparr>lib := lib0\<lparr>datetime_strftime := (\<lambda>t fmt. ''2015-06-07T08:09:10Z'')\<rparr>\<rparr>)
                     (r2, log2) ''updated_on'' of
                (after, r3, log3) \<Rightarrow>
                  (before, saved, map_of (decoded_attrs r2) ''updated_on'', after))))
     = (Inr (PDateTime (DateTime 2014 1 2 3 4 5)),
        Inr (PBool True),
        Some (PStr ''2015-06-07T08:09:10Z''),
        Inr (PDateTime (DateTime 2014 1 2 3 4 5)))"
  by (simp add: eval_defs setattr_def Resource_setattr_def set_plain_def structural_def
      Resource_members_def Resource_create_readonly_def Resource_update_readonly_def
      Resource_decode_def SINGLE_ATTR_ID_MAP_def MULTIPLE_ATTR_ID_MAP_def id_stub_def
      save_def stamp_updated_on_def post_update_def Resource_init_def)

section \<open>The representation: properties\<close>

lemma repr_inner_read_values:
  "repr_inner k cls mgr names (s, p) st =
     (case read_values k cls mgr names st of
        (e, vs, st') \<Rightarrow>
          (e, (rev (map snd (filter (\<lambda>av. fst av \<noteq> ''id'') vs)) @ s, rev (map snd vs) @ p), st'))"
proof (induction names arbitrary: s p st)
  case Nil
  then show ?case by simp
next
  case (Cons name rest)
  obtain res st1 where g: "Resource_getattr k cls mgr st name = (res, st1)"
    by (cases "Resource_getattr k cls mgr st name")
  show ?case
  proof (cases res)
    case (Inl err)
    then show ?thesis using g by (simp add: absent_result_def)
  next
    case (Inr v)
    show ?thesis
    proof (cases "v = PNone")
      case True
      then show ?thesis using g Inr by (simp add: absent_result_def)
    next
      case False
      obtain e vs st2 where rv: "read_values k cls mgr rest st1 = (e, vs, st2)"
        by (cases "read_values k cls mgr rest st1") auto
      show ?thesis
        using False g Inr rv Cons.IH [of "if name \<noteq> ''id'' then v # s else s" "v # p" st1]
        by (simp add: absent_result_def)
    qed
  qed
qed

lemma repr_outer_accepted_values:
  "repr_outer k cls mgr tuples ([], []) st =
     (case accepted_values k cls mgr tuples st of
        (e, pairs, st') \<Rightarrow>
          (e, (map snd (filter (\<lambda>av. fst av \<noteq> ''id'') pairs), map snd pairs), st'))"
proof (induction tuples arbitrary: st)
  case Nil
  then show ?case by simp
next
  case (Cons attrs others)
  obtain e vs st1 where rv: "read_values k cls mgr (rev attrs) st = (e, vs, st1)"
    by (cases "read_values k cls mgr (rev attrs) st") auto
  have ri: "repr_inner k cls mgr (rev attrs) ([], []) st =
      (e, (rev (map snd (filter (\<lambda>av. fst av \<noteq> ''id'') vs)), rev (map snd vs)), st1)"
    using rv by (simp add: repr_inner_read_values)
  show ?case
  proof (cases e)
    case (Some err)
    then show ?thesis using rv ri by (simp add: rev_map rev_filter)
  next
    case None
    show ?thesis
    proof (cases "vs = []")
      case True
      then show ?thesis using None rv ri Cons.IH [of st1] by simp
    next
      case False
      then show ?thesis using None rv ri by (simp add: rev_map rev_filter)
    qed
  qed
qed

lemma representation_is_amended:
  "representation k cls mgr st target = representation_amended k cls mgr st target"
proof -
  obtain e pairs st' where av: "accepted_values k cls mgr (repr_attrs cls) st = (e, pairs, st')"
    by (cases "accepted_values k cls mgr (repr_attrs cls) st") auto
  have ro: "repr_outer k cls mgr (repr_attrs cls) ([], []) st =
      (e, (map snd (filter (\<lambda>av. fst av \<noteq> ''id'') pairs), map snd pairs), st')"
    using av by (simp add: repr_outer_accepted_values)
  show ?thesis
    using av ro
    by (cases e) (simp_all add: representation_def representation_amended_def Let_def)
qed

lemma rev_last_first: "attrs \<noteq> [] \<Longrightarrow> rev attrs = last attrs # rev (butlast attrs)"
  by (induction attrs rule: rev_induct) simp_all

lemma resolve_all_repr_inner:
  "resolve_all k cls mgr names acc st = (Inr (Some acc'), st') \<Longrightarrow>
     repr_inner k cls mgr names acc st = (None, acc', st')"
proof (induction names arbitrary: acc st)
  case Nil
  then show ?case by simp
next
  case (Cons attr rest)
  obtain s p where acc: "acc = (s, p)" by (cases acc)
  obtain res st1 where g: "Resource_getattr k cls mgr st attr = (res, st1)"
    by (cases "Resource_getattr k cls mgr st attr")
  show ?case
  proof (cases res)
    case (Inl err)
    then show ?thesis using Cons.prems g acc by (auto split: if_splits)
  next
    case (Inr v)
    then have nn: "v \<noteq> PNone" using Cons.prems g acc by (auto split: if_splits)
    then have "resolve_all k cls mgr rest (if attr \<noteq> ''id'' then v # s else s, v # p) st1
        = (Inr (Some acc'), st')"
      using Cons.prems g acc Inr by simp
    from Cons.IH [OF this] show ?thesis using g acc Inr nn by simp
  qed
qed

text \<open>
  C7, amended. \<^verbatim>\<open>_representation\<close> is \<open>representation_amended\<close>, and \<^verbatim>\<open>__str__\<close> joins its
  display list: the tuples are tried in order, the attributes of a tuple are read from
  the last to the first, and the reading of a tuple stops at the first attribute that
  gives nothing (\<^verbatim>\<open>None\<close>, or an attribute error). When that is the last attribute of the
  tuple, the first one read, the tuple is abandoned and the next is tried. Otherwise the
  tuple is accepted with exactly the values read before the stop, and no later tuple is
  tried. A tuple whose attributes all resolve is accepted whole, as the rule of the
  specification has it.
\<close>

theorem representation_rule:
  "representation k cls mgr st target = representation_amended k cls mgr st target
   \<and> Resource_str k cls mgr st =
       (case representation_amended k cls mgr st ''str'' of
          (Inl e, st') \<Rightarrow> (Inl e, st')
        | (Inr vs, st') \<Rightarrow> (py_join vs, st'))
   \<and> (attrs \<noteq> [] \<and> absent_result (fst (Resource_getattr k cls mgr st (last attrs)))
     \<longrightarrow> accepted_values k cls mgr (attrs # others) st
           = accepted_values k cls mgr others (snd (Resource_getattr k cls mgr st (last attrs))))
   \<and> (attrs \<noteq> [] \<and> \<not> absent_result (fst (Resource_getattr k cls mgr st (last attrs)))
     \<longrightarrow> accepted_values k cls mgr (attrs # others) st
           = (case read_values k cls mgr (rev attrs) st of (e, vs, st') \<Rightarrow> (e, rev vs, st')))
   \<and> (resolve_all k cls mgr (rev attrs) ([], []) st = (Inr (Some acc), st1)
     \<longrightarrow> repr_inner k cls mgr (rev attrs) ([], []) st = (None, acc, st1))"
proof (intro conjI impI)
  show "representation k cls mgr st target = representation_amended k cls mgr st target"
    by (rule representation_is_amended)
  show "Resource_str k cls mgr st =
       (case representation_amended k cls mgr st ''str'' of
          (Inl e, st') \<Rightarrow> (Inl e, st')
        | (Inr vs, st') \<Rightarrow> (py_join vs, st'))"
    by (simp add: Resource_str_def representation_is_amended)
next
  assume h: "attrs \<noteq> [] \<and> absent_result (fst (Resource_getattr k cls mgr st (last attrs)))"
  obtain res st1 where g: "Resource_getattr k cls mgr st (last attrs) = (res, st1)"
    by (cases "Resource_getattr k cls mgr st (last attrs)")
  have "read_values k cls mgr (last attrs # rev (butlast attrs)) st = (None, [], st1)"
    using h g by simp
  then have rv: "read_values k cls mgr (rev attrs) st = (None, [], st1)"
    using h by (simp add: rev_last_first)
  show "accepted_values k cls mgr (attrs # others) st
      = accepted_values k cls mgr others (snd (Resource_getattr k cls mgr st (last attrs)))"
    using rv g by simp
next
  assume h: "attrs \<noteq> [] \<and> \<not> absent_result (fst (Resource_getattr k cls mgr st (last attrs)))"
  obtain res st1 where g: "Resource_getattr k cls mgr st (last attrs) = (res, st1)"
    by (cases "Resource_getattr k cls mgr st (last attrs)")
  obtain e vs st2 where rv: "read_values k cls mgr (rev attrs) st = (e, vs, st2)"
    by (cases "read_values k cls mgr (rev attrs) st") auto
  then have rv': "read_values k cls mgr (last attrs # rev (butlast attrs)) st = (e, vs, st2)"
    using h by (simp add: rev_last_first)
  have "e \<noteq> None \<or> vs \<noteq> []"
    using rv' h g by (cases res) (auto split: prod.splits)
  then show "accepted_values k cls mgr (attrs # others) st
      = (case read_values k cls mgr (rev attrs) st of (e, vs, st') \<Rightarrow> (e, rev vs, st'))"
    using rv by (cases e) auto
next
  assume "resolve_all k cls mgr (rev attrs) ([], []) st = (Inr (Some acc), st1)"
  then show "repr_inner k cls mgr (rev attrs) ([], []) st = (None, acc, st1)"
    by (rule resolve_all_repr_inner)
qed

theorem representation_rule_witness:
  "representation (Suc 0) Issue (mgr0 Issue (PBool False) [])
      (Resource_init Issue [(''subject'', PStr ''Fix bug'')], []) ''repr''
     = (Inr [PInt 0, PStr ''Fix bug''],
        (Resource_init Issue [(''subject'', PStr ''Fix bug'')])
          \<lparr>encoded_attrs := [(''subject'', PStr ''Fix bug'')]\<rparr>, [])
   \<and> Resource_str (Suc 0) Issue (mgr0 Issue (PBool False) [])
      (Resource_init Issue [(''subject'', PStr ''Fix bug'')], [])
     = (Inr ''Fix bug'',
        (Resource_init Issue [(''subject'', PStr ''Fix bug'')])
          \<lparr>encoded_attrs := [(''subject'', PStr ''Fix bug'')]\<rparr>, [])
   \<and> fst (representation (Suc 0) User (mgr0 User (PBool False) [])
      (Resource_init User [(''firstname'', PStr ''John''), (''lastname'', PStr ''Smith'')], [])
      ''repr'')
     = Inr [PInt 0, PStr ''John'']
   \<and> fst (representation (Suc 0) User (mgr0 User (PBool False) [])
      (Resource_init User [(''created_on'', PStr ''2014-01-02T03:04:05Z''),
         (''firstname'', PStr ''John''), (''lastname'', PStr ''Smith'')], [])
      ''repr'')
     = Inr [PStr ''John'', PStr ''Smith'']
   \<and> fst (Resource_str (Suc 0) User (mgr0 User (PBool False) [])
      (Resource_init User [(''created_on'', PStr ''2014-01-02T03:04:05Z''),
         (''firstname'', PStr ''John''), (''lastname'', PStr ''Smith'')], []))
     = Inr ''John Smith''
   \<and> \<not> absent_result (fst (Resource_getattr (Suc 0) User (mgr0 User (PBool False) [])
      (Resource_init User [(''created_on'', PStr ''2014-01-02T03:04:05Z''),
         (''firstname'', PStr ''John''), (''lastname'', PStr ''Smith'')], []) ''lastname''))
   \<and> fst (snd (accepted_values (Suc 0) User (mgr0 User (PBool False) [])
      [[''id'', ''firstname'', ''lastname''], [''id'', ''name'']]
      (Resource_init User [(''created_on'', PStr ''2014-01-02T03:04:05Z''),
         (''firstname'', PStr ''John''), (''lastname'', PStr ''Smith'')], [])))
     = [(''firstname'', PStr ''John''), (''lastname'', PStr ''Smith'')]
   \<and> absent_result (fst (Resource_getattr (Suc 0) Issue (mgr0 Issue (PBool False) [])
      (Resource_init Issue [(''id'', PInt 7)], []) ''subject''))
   \<and> fst (snd (accepted_values (Suc 0) Issue (mgr0 Issue (PBool False) [])
      [[''id'', ''subject''], [''id'']] (Resource_init Issue [(''id'', PInt 7)], [])))
     = [(''id'', PInt 7)]
   \<and> resolve_all (Suc 0) Issue (mgr0 Issue (PBool False) []) (rev [''id'', ''subject''])
      ([], []) (Resource_init Issue [(''subject'', PStr ''Fix bug'')], [])
     = (Inr (Some ([PStr ''Fix bug''], [PInt 0, PStr ''Fix bug''])),
        (Resource_init Issue [(''subject'', PStr ''Fix bug'')])
          \<lparr>encoded_attrs := [(''subject'', PStr ''Fix bug'')]\<rparr>, [])
   \<and> repr_inner (Suc 0) Issue (mgr0 Issue (PBool False) []) (rev [''id'', ''subject''])
      ([], []) (Resource_init Issue [(''subject'', PStr ''Fix bug'')], [])
     = (None, ([PStr ''Fix bug''], [PInt 0, PStr ''Fix bug'']),
        (Resource_init Issue [(''subject'', PStr ''Fix bug'')])
          \<lparr>encoded_attrs := [(''subject'', PStr ''Fix bug'')]\<rparr>, [])"
proof -
  let ?m = "mgr0 Issue (PBool False) []"
  let ?r = "Resource_init Issue [(''subject'', PStr ''Fix bug'')]"
  let ?r' = "?r\<lparr>encoded_attrs := [(''subject'', PStr ''Fix bug'')]\<rparr>"
  let ?r7 = "Resource_init Issue [(''id'', PInt 7)]"
  let ?mu = "mgr0 User (PBool False) []"
  let ?u = "Resource_init User [(''firstname'', PStr ''John''), (''lastname'', PStr ''Smith'')]"
  let ?us = "Resource_init User [(''created_on'', PStr ''2014-01-02T03:04:05Z''),
         (''firstname'', PStr ''John''), (''lastname'', PStr ''Smith'')]"
  note ev = eval_defs representation_amended_def absent_result_def is_attribute_error_def
    Resource_init_def
  note t = representation_rule [where k = "Suc 0" and cls = Issue and mgr = ?m and st = "(?r, [])"
      and attrs = "[''id'', ''subject'']"
      and acc = "([PStr ''Fix bug''], [PInt 0, PStr ''Fix bug''])" and ?st1.0 = "(?r', [])"]
  note t7 = representation_rule [where k = "Suc 0" and cls = Issue and mgr = ?m
      and st = "(?r7, [])" and attrs = "[''id'', ''subject'']" and others = "[[''id'']]"]
  note tu = representation_rule [where k = "Suc 0" and cls = User and mgr = ?mu
      and st = "(?u, [])" and target = "''repr''"]
  note ts = representation_rule [where k = "Suc 0" and cls = User and mgr = ?mu
      and st = "(?us, [])" and target = "''repr''"
      and attrs = "[''id'', ''firstname'', ''lastname'']" and others = "[[''id'', ''name'']]"]
  have a1: "representation_amended (Suc 0) Issue ?m (?r, []) ''repr''
      = (Inr [PInt 0, PStr ''Fix bug''], ?r', [])"
    by (simp add: ev)
  have a2: "representation_amended (Suc 0) Issue ?m (?r, []) ''str''
      = (Inr [PStr ''Fix bug''], ?r', [])"
    by (simp add: ev)
  have a3: "fst (representation_amended (Suc 0) User ?mu (?u, []) ''repr'')
      = Inr [PInt 0, PStr ''John'']"
    by (simp add: ev)
  have a4: "fst (representation_amended (Suc 0) User ?mu (?us, []) ''repr'')
      = Inr [PStr ''John'', PStr ''Smith'']"
    by (simp add: ev)
  have a5: "fst (representation_amended (Suc 0) User ?mu (?us, []) ''str'')
      = Inr [PStr ''John'', PStr ''Smith'']"
    by (simp add: ev)
  have c1: "representation (Suc 0) Issue ?m (?r, []) ''repr''
      = (Inr [PInt 0, PStr ''Fix bug''], ?r', [])"
    using t [where target = "''repr''", THEN conjunct1] a1 by simp
  have c2: "Resource_str (Suc 0) Issue ?m (?r, []) = (Inr ''Fix bug'', ?r', [])"
    using t [THEN conjunct2, THEN conjunct1] a2 by (simp add: py_join_def)
  have c3: "fst (representation (Suc 0) User ?mu (?u, []) ''repr'') = Inr [PInt 0, PStr ''John'']"
    using tu [THEN conjunct1] a3 by simp
  have c4: "fst (representation (Suc 0) User ?mu (?us, []) ''repr'')
      = Inr [PStr ''John'', PStr ''Smith'']"
    using ts [THEN conjunct1] a4 by simp
  have c5: "fst (Resource_str (Suc 0) User ?mu (?us, [])) = Inr ''John Smith''"
    using ts [THEN conjunct2, THEN conjunct1] a5
    by (simp add: py_join_def split: prod.splits sum.splits)
  have h6: "\<not> absent_result (fst (Resource_getattr (Suc 0) User ?mu (?us, []) ''lastname''))"
    by (simp add: ev)
  have r6: "fst (snd (case read_values (Suc 0) User ?mu (rev [''id'', ''firstname'', ''lastname''])
        (?us, []) of (e, vs, st') \<Rightarrow> (e, rev vs, st')))
      = [(''firstname'', PStr ''John''), (''lastname'', PStr ''Smith'')]"
    by (simp add: ev)
  have c6: "fst (snd (accepted_values (Suc 0) User ?mu
        [[''id'', ''firstname'', ''lastname''], [''id'', ''name'']] (?us, [])))
      = [(''firstname'', PStr ''John''), (''lastname'', PStr ''Smith'')]"
    using ts [THEN conjunct2, THEN conjunct2, THEN conjunct2, THEN conjunct1] h6 r6 by simp
  have h7: "absent_result (fst (Resource_getattr (Suc 0) Issue ?m (?r7, []) ''subject''))"
    by (simp add: ev)
  have r7: "fst (snd (accepted_values (Suc 0) Issue ?m [[''id'']]
        (snd (Resource_getattr (Suc 0) Issue ?m (?r7, []) ''subject''))))
      = [(''id'', PInt 7)]"
    by (simp add: ev)
  have c7: "fst (snd (accepted_values (Suc 0) Issue ?m [[''id'', ''subject''], [''id'']]
        (?r7, []))) = [(''id'', PInt 7)]"
    using t7 [THEN conjunct2, THEN conjunct2, THEN conjunct1] h7 r7 by simp
  have h8: "resolve_all (Suc 0) Issue ?m (rev [''id'', ''subject'']) ([], []) (?r, [])
      = (Inr (Some ([PStr ''Fix bug''], [PInt 0, PStr ''Fix bug''])), ?r', [])"
    by (simp add: ev)
  note c8 = t [THEN conjunct2, THEN conjunct2, THEN conjunct2, THEN conjunct2, THEN mp, OF h8]
  show ?thesis
    using c1 c2 c3 c4 c5 h6 c6 h7 c7 h8 c8 by blast
qed

text \<open>
  C7 as stated fails: a saved user with \<^verbatim>\<open>id\<close> and \<^verbatim>\<open>lastname\<close> but no \<^verbatim>\<open>firstname\<close> is
  represented by the last name, read before the missing first name stopped the loop;
  under the rule of the claim both tuples are abandoned and nothing is shown. A saved issue
  with \<^verbatim>\<open>id\<close> 1 and no subject is displayed as its identity: with no other value resolved
  the display is the string of the first structured value.
\<close>

theorem representation_partial_counterexample:
  "fst (representation (Suc 0) User (mgr0 User (PBool False) [])
      (Resource_init User [(''id'', PInt 1), (''lastname'', PStr ''Smith'')], []) ''repr'')
     = Inr [PStr ''Smith'']
   \<and> fst (Resource_getattr (Suc 0) User (mgr0 User (PBool False) [])
      (Resource_init User [(''id'', PInt 1), (''lastname'', PStr ''Smith'')], []) ''firstname'')
     = Inr PNone
   \<and> fst (representation_spec (Suc 0) User (mgr0 User (PBool False) [])
      (Resource_init User [(''id'', PInt 1), (''lastname'', PStr ''Smith'')], []) ''repr'')
     = Inr []
   \<and> fst (Resource_str (Suc 0) Issue (mgr0 Issue (PBool False) [])
      (Resource_init Issue [(''id'', PInt 1)], []))
     = Inr ''1''"
  by (simp add: eval_defs representation_def representation_spec_def is_attribute_error_def
      Resource_init_def Resource_str_def py_join_def)

end
